theory Spec2Isabelle
  imports Complex_Main
begin

section \<open>The calibration solver of rateslib (src/rateslib/solver.py)\<close>

text \<open>
  The class \<open>Solver\<close> calibrates curve node values so that priced instruments
  reproduce target rates, and derives risk sensitivities from the solution. This theory
  embeds its methods as functions over an explicit solver state.

  Conventions of the embedding:
  \<^item> Floats are modelled by the reals: rounding, infinities and NaN are not represented.
    Where Python divides by a zero float and goes on with inf or nan, without raising, the
    model goes on with the value of the division of the reals.
  \<^item> A raised exception is a value of type \<open>error\<close>. A method that mutates the
    solver returns the solver after the call together with either the exception or the
    returned value, so that mutations done before a raise stay visible.
  \<^item> The numeric libraries the file calls (\<open>np.linalg.solve\<close>,
    \<open>np.linalg.pinv\<close>), the pricing method \<open>rate\<close> of the instruments and
    \<open>dual_solve\<close> are parameters, collected in the record \<open>env\<close>.
  \<^item> Shape errors of numpy in products of arrays are not modelled; the shape check of
    a slice assignment, of the sum \<open>self.v + delta\<close> and of the construction of a
    \<open>DataFrame\<close> is. The constructor gives \<open>s\<close>, \<open>weights\<close> and the rates one
    length, which no method changes: \<open>r - s\<close> and \<open>weights * x\<close> are taken elementwise.
  \<^item> With no instrument, \<open>np.array([...])\<close> of the empty list of rates or gradients is
    a one-dimensional empty array of floats, and \<open>self.f\<close> is a float of numpy and not
    a differentiable scalar. The calls that fail on these (\<open>J.shape[1]\<close>,
    \<open>self.f.gradient\<close>, \<open>np.linalg.pinv\<close>, \<open>np.transpose\<close> with three axes) raise
    in the model too.
\<close>

subsection \<open>Exceptions\<close>

datatype error =
    ValueError_ad_mode
  | ValueError_gamma_ad_order
  | ValueError_base_without_fx
  | ValueError_instrument_tuple
  | ValueError_broadcast
  | TypeError_not_a_mapping
  | NotImplementedError string
  | AttributeError string
  | IndexError
  | LinAlgError
  | ValueError_dimensions
  | ValueError_frame_shape

text \<open>
  \<open>ValueError_ad_mode\<close> is the error of \<open>J2\<close> and \<open>J2_pre\<close> ("Cannot perform
  second derivative calculations when ad mode is ..."), \<open>ValueError_gamma_ad_order\<close>
  the one of \<open>gamma\<close> ("Solver must be in ad order 2 to use gamma method"),
  \<open>ValueError_base_without_fx\<close> the one about a base currency given without any FX
  object, \<open>ValueError_instrument_tuple\<close> the one of \<open>_parse_instrument\<close>.
  \<open>ValueError_broadcast\<close>, \<open>TypeError_not_a_mapping\<close>, \<open>IndexError\<close> and
  \<open>LinAlgError\<close> are raised by Python and numpy themselves, and so are
  \<open>AttributeError\<close> (with the name of the missing attribute) and
  \<open>ValueError_dimensions\<close>, the \<open>ValueError\<close> of a numpy routine that is given an
  array of too few axes. \<open>ValueError_frame_shape\<close> is the \<open>ValueError\<close> of pandas
  for a \<open>DataFrame\<close> whose labels do not match the shape of its values.
\<close>

subsection \<open>Parsing an instrument specification: \<open>Solver._parse_instrument\<close>\<close>

text \<open>
  Keyword arguments are a dictionary from names to values. A value is the solver object
  (type \<open>'s\<close>, compared by identity), an FX object or \<open>None\<close>, or any other argument.
\<close>

datatype ('s, 'f, 'a) kwval = SolverObj 's | FxObj "'f option" | KwArg 'a

type_synonym ('s, 'f, 'a) kwargs = "string \<rightharpoonup> ('s, 'f, 'a) kwval"

text \<open>The Python objects that occur in a specification given as a tuple.\<close>

datatype ('i, 'p, 's, 'f, 'a) pyobj =
    PyNone
  | PyInstrument 'i
  | PyTuple "'p list"
  | PyDict "('s, 'f, 'a) kwargs"

text \<open>A specification is a bare instrument (anything that is not a tuple) or a tuple.\<close>

datatype ('i, 'p, 's, 'f, 'a) instrument_spec =
    Instrument 'i
  | Tuple "('i, 'p, 's, 'f, 'a) pyobj list"

definition default_kwargs :: "'s \<Rightarrow> 'f option \<Rightarrow> ('s, 'f, 'a) kwargs" where
  "default_kwargs self fx = [''solver'' \<mapsto> SolverObj self, ''fx'' \<mapsto> FxObj fx]"

text \<open>
  \<open>{**ret2, **value[2]}\<close> is \<open>ret2 ++ kw\<close>: on a key of both, the right operand wins.
  Unpacking something that is not a dictionary raises a \<open>TypeError\<close>.
\<close>

fun parse_instrument ::
  "'s \<Rightarrow> 'f option \<Rightarrow> ('i, 'p, 's, 'f, 'a) instrument_spec \<Rightarrow>
     error + (('i, 'p, 's, 'f, 'a) pyobj \<times> ('i, 'p, 's, 'f, 'a) pyobj \<times> ('s, 'f, 'a) kwargs)" where
  "parse_instrument self fx (Instrument i) =
     Inr (PyInstrument i, PyTuple [], default_kwargs self fx)"
| "parse_instrument self fx (Tuple vs) =
     (if length vs \<noteq> 3 then Inl ValueError_instrument_tuple
      else
        let ret0 = vs ! 0;
            ret1 = (if \<not> (vs ! 1 = PyNone \<or> vs ! 1 = PyTuple []) then vs ! 1 else PyTuple []);
            ret2 = default_kwargs self fx
        in (case vs ! 2 of
              PyNone \<Rightarrow> Inr (ret0, ret1, ret2)
            | PyDict kw \<Rightarrow>
                Inr (ret0, ret1, if \<not> (kw = Map.empty) then ret2 ++ kw else ret2)
            | _ \<Rightarrow> Inl TypeError_not_a_mapping))"

text \<open>The keyword arguments the caller supplied with a specification, if any.\<close>

fun supplied_kwargs :: "('i, 'p, 's, 'f, 'a) instrument_spec \<Rightarrow> ('s, 'f, 'a) kwargs" where
  "supplied_kwargs (Instrument i) = Map.empty"
| "supplied_kwargs (Tuple vs) =
     (if length vs = 3 then (case vs ! 2 of PyDict kw \<Rightarrow> kw | _ \<Rightarrow> Map.empty) else Map.empty)"

subsection \<open>Differentiable scalars\<close>

text \<open>
  Modelled from the spec: the classes \<open>Dual\<close> and \<open>Dual2\<close> of \<open>rateslib.dual\<close>,
  which are not among the sources. The spec describes them as an "arithmetic value
  supporting \<open>+,-,*,/\<close>, comparison, real-part extraction, and
  \<open>gradient(variable_tags, order)\<close> returning first- or second-order partial derivatives
  with respect to named variables". One type stands for a float (a scalar without
  variables), a \<open>Dual\<close> and a \<open>Dual2\<close>: a value carries its real part, the tags of its
  variables, and its first and second partial derivatives by tag.
\<close>

datatype dual =
  Dual (dreal: real) (dvars: "string list") (dgrad: "string \<Rightarrow> real")
       (dhess: "string \<Rightarrow> string \<Rightarrow> real")

definition float_dual :: "real \<Rightarrow> dual" where
  "float_dual c = Dual c [] (\<lambda>t. 0) (\<lambda>t u. 0)"

text \<open>\<open>Dual(c, vars)\<close> and \<open>Dual2(c, vars)\<close>: a variable with unit derivative in each tag.\<close>

definition new_dual :: "real \<Rightarrow> string list \<Rightarrow> dual" where
  "new_dual c vs = Dual c vs (\<lambda>t. if t \<in> set vs then 1 else 0) (\<lambda>t u. 0)"

definition union_vars :: "string list \<Rightarrow> string list \<Rightarrow> string list" where
  "union_vars vs ws = vs @ filter (\<lambda>t. t \<notin> set vs) ws"

definition dual_add :: "dual \<Rightarrow> dual \<Rightarrow> dual" where
  "dual_add a b =
     Dual (dreal a + dreal b) (union_vars (dvars a) (dvars b))
          (\<lambda>t. dgrad a t + dgrad b t) (\<lambda>t u. dhess a t u + dhess b t u)"

definition dual_neg :: "dual \<Rightarrow> dual" where
  "dual_neg a = Dual (- dreal a) (dvars a) (\<lambda>t. - dgrad a t) (\<lambda>t u. - dhess a t u)"

definition dual_sub :: "dual \<Rightarrow> dual \<Rightarrow> dual" where
  "dual_sub a b = dual_add a (dual_neg b)"

definition dual_mul :: "dual \<Rightarrow> dual \<Rightarrow> dual" where
  "dual_mul a b =
     Dual (dreal a * dreal b) (union_vars (dvars a) (dvars b))
          (\<lambda>t. dreal a * dgrad b t + dreal b * dgrad a t)
          (\<lambda>t u. dreal a * dhess b t u + dreal b * dhess a t u
                   + dgrad a t * dgrad b u + dgrad a u * dgrad b t)"

text \<open>\<open>gradient(vars)\<close> and \<open>gradient(vars, order=2)\<close>.\<close>

definition gradient :: "dual \<Rightarrow> string list \<Rightarrow> real list" where
  "gradient d vs = map (dgrad d) vs"

text \<open>\<open>np.dot\<close> of two arrays of scalars of the same length.\<close>

definition dual_dot :: "dual list \<Rightarrow> dual list \<Rightarrow> dual" where
  "dual_dot xs ys = foldl dual_add (float_dual 0) (map2 dual_mul xs ys)"

text \<open>
  The decimal digits of a natural number, as an f-string prints it:
  \<open>f"{curve.id}{i}"\<close> is \<open>curve_id c @ string_of_nat i\<close>.
\<close>

function string_of_nat :: "nat \<Rightarrow> string" where
  "string_of_nat k =
     (if k < 10 then [''0123456789'' ! k]
      else string_of_nat (k div 10) @ [''0123456789'' ! (k mod 10)])"
  by pat_completeness auto
termination
  by (relation "measure id") auto

declare string_of_nat.simps [simp del]

subsection \<open>Arrays\<close>

text \<open>
  A two-dimensional numpy array of floats is its shape and its entries; entries outside
  the shape carry no meaning. A one-dimensional array is a list.
\<close>

datatype mat = Mat (nrows: nat) (ncols: nat) (ent: "nat \<Rightarrow> nat \<Rightarrow> real")

datatype tensor =
  Tensor (dim0: nat) (dim1: nat) (dim2: nat) (tent: "nat \<Rightarrow> nat \<Rightarrow> nat \<Rightarrow> real")

definition np_zeros :: "nat \<Rightarrow> nat \<Rightarrow> mat" where
  "np_zeros k l = Mat k l (\<lambda>i j. 0)"

definition np_zeros3 :: "nat \<Rightarrow> nat \<Rightarrow> nat \<Rightarrow> tensor" where
  "np_zeros3 a b c = Tensor a b c (\<lambda>i j k. 0)"

definition np_eye :: "nat \<Rightarrow> mat" where
  "np_eye k = Mat k k (\<lambda>i j. if i = j then 1 else 0)"

definition np_diag :: "real list \<Rightarrow> mat" where
  "np_diag ws = Mat (length ws) (length ws) (\<lambda>i j. if i = j then ws ! i else 0)"

definition np_transpose :: "mat \<Rightarrow> mat" where
  "np_transpose A = Mat (ncols A) (nrows A) (\<lambda>i j. ent A j i)"

definition np_matmul :: "mat \<Rightarrow> mat \<Rightarrow> mat" where
  "np_matmul A B =
     Mat (nrows A) (ncols B) (\<lambda>i j. sum_list (map (\<lambda>k. ent A i k * ent B k j) [0..<ncols A]))"

definition mat_add :: "mat \<Rightarrow> mat \<Rightarrow> mat" where
  "mat_add A B = Mat (nrows A) (ncols A) (\<lambda>i j. ent A i j + ent B i j)"

definition mat_scale :: "real \<Rightarrow> mat \<Rightarrow> mat" where
  "mat_scale c A = Mat (nrows A) (ncols A) (\<lambda>i j. c * ent A i j)"

text \<open>\<open>b[:, np.newaxis]\<close> makes a column of a list, \<open>X[:, 0]\<close> reads the first column.\<close>

definition column :: "real list \<Rightarrow> mat" where
  "column b = Mat (length b) 1 (\<lambda>i j. b ! i)"

definition column0 :: "mat \<Rightarrow> real list" where
  "column0 X = map (\<lambda>i. ent X i 0) [0..<nrows X]"

text \<open>
  Elementwise \<open>a + b\<close> of an array of scalars and an array of floats, with numpy's
  broadcasting of one-dimensional arrays: the lengths agree or one of them is 1.
\<close>

definition np_add :: "dual list \<Rightarrow> real list \<Rightarrow> error + dual list" where
  "np_add a b =
     (if length a = length b then Inr (map2 (\<lambda>x y. dual_add x (float_dual y)) a b)
      else if length b = 1 then Inr (map (\<lambda>x. dual_add x (float_dual (b ! 0))) a)
      else if length a = 1 then Inr (map (\<lambda>y. dual_add (a ! 0) (float_dual y)) b)
      else Inl ValueError_broadcast)"

text \<open>
  A slice \<open>lo:hi\<close> of an axis of length \<open>len\<close> covers the indices from \<open>lo\<close> up to
  \<open>min hi len\<close>, none if \<open>lo\<close> is not below that bound. The slice \<open>-k:\<close> starts
  \<open>k\<close> before the end, and is the whole axis when \<open>k = 0\<close>.
\<close>

definition slice_len :: "nat \<Rightarrow> nat \<Rightarrow> nat \<Rightarrow> nat" where
  "slice_len len lo hi = min hi len - min lo len"

definition last_start :: "nat \<Rightarrow> nat \<Rightarrow> nat" where
  "last_start len k = (if k = 0 then 0 else len - k)"

text \<open>
  \<open>A[r0:r1, c0:c1] = B\<close>: the value is broadcast to the shape of the slice, so each of
  its dimensions equals that of the slice or is 1, else numpy raises a \<open>ValueError\<close>.
  In particular a value of shape (1, 1) is accepted by an empty slice, and nothing is
  written.
\<close>

definition setitem :: "mat \<Rightarrow> nat \<Rightarrow> nat \<Rightarrow> nat \<Rightarrow> nat \<Rightarrow> mat \<Rightarrow> error + mat" where
  "setitem A r0 r1 c0 c1 B =
     (if (nrows B = slice_len (nrows A) r0 r1 \<or> nrows B = 1)
         \<and> (ncols B = slice_len (ncols A) c0 c1 \<or> ncols B = 1)
      then Inr (Mat (nrows A) (ncols A)
                 (\<lambda>i j. if r0 \<le> i \<and> i < min r1 (nrows A) \<and> c0 \<le> j \<and> j < min c1 (ncols A)
                         then ent B (if nrows B = 1 then 0 else i - r0)
                                    (if ncols B = 1 then 0 else j - c0)
                         else ent A i j))
      else Inl ValueError_broadcast)"

definition setitem3 ::
  "tensor \<Rightarrow> nat \<Rightarrow> nat \<Rightarrow> nat \<Rightarrow> nat \<Rightarrow> nat \<Rightarrow> nat \<Rightarrow> tensor \<Rightarrow> error + tensor" where
  "setitem3 A a0 a1 b0 b1 c0 c1 B =
     (if (dim0 B = slice_len (dim0 A) a0 a1 \<or> dim0 B = 1)
         \<and> (dim1 B = slice_len (dim1 A) b0 b1 \<or> dim1 B = 1)
         \<and> (dim2 B = slice_len (dim2 A) c0 c1 \<or> dim2 B = 1)
      then Inr (Tensor (dim0 A) (dim1 A) (dim2 A)
                 (\<lambda>i j k. if a0 \<le> i \<and> i < min a1 (dim0 A) \<and> b0 \<le> j \<and> j < min b1 (dim1 A)
                              \<and> c0 \<le> k \<and> k < min c1 (dim2 A)
                           then tent B (if dim0 B = 1 then 0 else i - a0)
                                       (if dim1 B = 1 then 0 else j - b0)
                                       (if dim2 B = 1 then 0 else k - c0)
                           else tent A i j k))
      else Inl ValueError_broadcast)"

text \<open>
  The three contractions of \<open>_grad_s_s_vT_final_iteration_analytical\<close>:
  \<open>np.tensordot(T, G, (2, 0))\<close>, \<open>np.tensordot(G, T, (1, 0))\<close> and
  \<open>np.tensordot(G, T, (1, 1))\<close>.
\<close>

definition tensordot_20 :: "tensor \<Rightarrow> mat \<Rightarrow> tensor" where
  "tensordot_20 T G =
     Tensor (dim0 T) (dim1 T) (ncols G)
       (\<lambda>a b c. sum_list (map (\<lambda>l. tent T a b l * ent G l c) [0..<dim2 T]))"

definition tensordot_10 :: "mat \<Rightarrow> tensor \<Rightarrow> tensor" where
  "tensordot_10 G T =
     Tensor (nrows G) (dim1 T) (dim2 T)
       (\<lambda>i b c. sum_list (map (\<lambda>z. ent G i z * tent T z b c) [0..<ncols G]))"

definition tensordot_11 :: "mat \<Rightarrow> tensor \<Rightarrow> tensor" where
  "tensordot_11 G T =
     Tensor (nrows G) (dim0 T) (dim2 T)
       (\<lambda>j i c. sum_list (map (\<lambda>h. ent G j h * tent T i h c) [0..<ncols G]))"

definition tensor_neg :: "tensor \<Rightarrow> tensor" where
  "tensor_neg T = Tensor (dim0 T) (dim1 T) (dim2 T) (\<lambda>i j k. - tent T i j k)"

text \<open>\<open>np.matmul(T, g[:, None])[:, :, 0]\<close> contracts the last axis with a vector.\<close>

definition tensor_vec :: "tensor \<Rightarrow> real list \<Rightarrow> mat" where
  "tensor_vec T g =
     Mat (dim0 T) (dim1 T) (\<lambda>i j. sum_list (map (\<lambda>k. tent T i j k * g ! k) [0..<dim2 T]))"

subsection \<open>Curves and the solver state\<close>

text \<open>
  Of a curve the solver reads its identifier, its ordered node values and the index
  \<open>_ini_solve\<close> of the first node it controls; \<open>curve.n\<close> is the number of nodes.
  The spline state that \<open>csolve\<close> recomputes is internal to the curve and is not part of
  the model, neither is the state of the FX object that \<open>_update_fx\<close> refreshes.
\<close>

record curve =
  curve_id :: string
  nodes :: "dual list"
  ini_solve :: nat

text \<open>
  An instrument stands for a parsed triple (instrument, positional args, keyword args) of
  \<open>self.instruments\<close>; an FX object is known by a name only.
\<close>

type_synonym instrument = string

type_synonym fx_object = string

text \<open>
  The attributes of a \<open>Solver\<close> object. \<open>self_s\<close> is \<open>self.s\<close>, \<open>ad\<close> is
  \<open>self._ad\<close>, and \<open>cache_v\<close>, \<open>cache_r\<close>, ... are the private attributes
  \<open>self._v\<close>, \<open>self._r\<close>, ... behind the lazily computed properties (\<open>None\<close> when the
  property has to be recomputed). \<open>grad_s_vT_method\<close> and
  \<open>grad_s_vT_final_iteration_algo\<close> are the class attributes \<open>_grad_s_vT_method\<close> and
  \<open>_grad_s_vT_final_iteration_algo\<close>.

  \<open>labels_given\<close> tells whether \<open>instrument_labels\<close> was passed to the constructor.
  If it was, \<open>self.instrument_labels\<close> is the tuple of these labels. If not, it is the
  generator \<open>(f"{self.id}{i}" for i in range(self.m))\<close>, which the constructor consumes
  when it builds \<open>pre_instrument_labels\<close>: iterated again, it yields nothing. The
  field \<open>instrument_labels\<close> holds the labels in both cases, as
  \<open>pre_instrument_labels\<close> has them.
\<close>

record solver_rec =
  algorithm :: string
  func_tol :: real
  conv_tol :: real
  max_iter :: nat
  solver_id :: string
  self_s :: "dual list"
  weights :: "real list"
  curves :: "curve list"
  instruments :: "instrument list"
  instrument_labels :: "string list"
  labels_given :: bool
  rate_scalars :: "real list"
  fx :: "fx_object option"
  ad :: nat
  grad_s_vT_method :: string
  grad_s_vT_final_iteration_algo :: string
  f_prev :: real
  f_list :: "real list"
  lambd :: real
  cache_v :: "dual list option"
  cache_r :: "dual list option"
  cache_x :: "dual list option"
  cache_f :: "dual option"
  cache_J :: "mat option"
  cache_grad_s_vT :: "mat option"
  cache_grad_s_vT_pre :: "mat option"
  cache_J2 :: "tensor option"
  cache_J2_pre :: "tensor option"
  cache_grad_s_s_vT :: "tensor option"
  cache_grad_s_s_vT_pre :: "tensor option"

text \<open>
  A solver with the solvers of its dependency chain (\<open>self.pre_solvers\<close>). The chain is
  a tree: a solver object that is shared between two chains is not modelled.
\<close>

datatype solver = Solver (attrs: solver_rec) (pre_solvers: "solver list")

definition map_attrs :: "(solver_rec \<Rightarrow> solver_rec) \<Rightarrow> solver \<Rightarrow> solver" where
  "map_attrs g slv = Solver (g (attrs slv)) (pre_solvers slv)"

text \<open>
  The attributes that \<open>__init__\<close> derives once from its arguments: the variable tags
  \<open>f"{curve.id}{i}"\<close> of the controlled nodes, the counts \<open>n\<close> and \<open>m\<close>, the weight
  matrix \<open>W\<close>, and along the chain \<open>pre_variables\<close>, \<open>pre_m\<close>, \<open>pre_n\<close>,
  \<open>pre_curves\<close>, \<open>pre_instrument_labels\<close> and \<open>pre_rate_scalars\<close>, each the
  concatenation over the pre-solvers followed by the solver's own part.
\<close>

definition curve_variables :: "curve \<Rightarrow> string list" where
  "curve_variables c = map (\<lambda>i. curve_id c @ string_of_nat i) [ini_solve c..<length (nodes c)]"

definition variables :: "solver \<Rightarrow> string list" where
  "variables slv = concat (map curve_variables (curves (attrs slv)))"

definition solver_n :: "solver \<Rightarrow> nat" where
  "solver_n slv = length (variables slv)"

definition solver_m :: "solver \<Rightarrow> nat" where
  "solver_m slv = length (instruments (attrs slv))"

definition solver_W :: "solver \<Rightarrow> mat" where
  "solver_W slv = np_diag (weights (attrs slv))"

fun pre_variables :: "solver \<Rightarrow> string list" where
  "pre_variables (Solver rc ps) = concat (map pre_variables ps) @ variables (Solver rc ps)"

fun pre_m :: "solver \<Rightarrow> nat" where
  "pre_m (Solver rc ps) = solver_m (Solver rc ps) + sum_list (map pre_m ps)"

fun pre_n :: "solver \<Rightarrow> nat" where
  "pre_n (Solver rc ps) = solver_n (Solver rc ps) + sum_list (map pre_n ps)"

fun pre_curves :: "solver \<Rightarrow> curve list" where
  "pre_curves (Solver rc ps) = concat (map pre_curves ps) @ curves rc"

fun pre_instrument_labels :: "solver \<Rightarrow> (string \<times> string) list" where
  "pre_instrument_labels (Solver rc ps) =
     concat (map pre_instrument_labels ps) @ map (\<lambda>lbl. (solver_id rc, lbl)) (instrument_labels rc)"

fun pre_rate_scalars :: "solver \<Rightarrow> real list" where
  "pre_rate_scalars (Solver rc ps) = concat (map pre_rate_scalars ps) @ rate_scalars rc"

subsection \<open>What the solver calls\<close>

text \<open>
  \<open>rate env i cs\<close> is the rate \<open>_[0].rate(*_[1], **_[2])\<close> of the parsed instrument
  \<open>i\<close> when the keyword \<open>solver\<close> is bound to a solver whose curve collection
  \<open>pre_curves\<close> is \<open>cs\<close>: the instrument resolves its curves through that solver.
  \<open>linalg_solve\<close> and \<open>linalg_pinv\<close> are numpy's, \<open>dual_solve\<close> is the linear
  solver of \<open>rateslib.dual\<close> for a right-hand side of differentiable scalars.
  \<open>linalg_solve\<close> answers \<open>None\<close> where \<open>np.linalg.solve\<close> raises
  (\<open>LinAlgError\<close>, for a singular matrix). \<open>dual_solve\<close> does not raise on a
  singular system: it divides by the zero pivot and returns scalars that are not finite.
\<close>

record env =
  rate :: "instrument \<Rightarrow> curve list \<Rightarrow> dual"
  linalg_solve :: "mat \<Rightarrow> mat \<Rightarrow> mat option"
  linalg_pinv :: "mat \<Rightarrow> mat"
  dual_solve :: "mat \<Rightarrow> dual list \<Rightarrow> dual list"

subsection \<open>Cached properties of the objective\<close>

text \<open>\<open>_reset_properties_(dual2_only)\<close>.\<close>

definition reset_properties :: "bool \<Rightarrow> solver \<Rightarrow> solver" where
  "reset_properties dual2_only slv =
     (let slv1 =
        (if \<not> dual2_only
         then map_attrs (\<lambda>rc. rc\<lparr>cache_v := None, cache_r := None, cache_x := None,
                 cache_f := None, cache_J := None, cache_grad_s_vT := None,
                 cache_grad_s_vT_pre := None\<rparr>) slv
         else slv)
      in map_attrs (\<lambda>rc. rc\<lparr>cache_J2 := None, cache_J2_pre := None,
                 cache_grad_s_s_vT := None, cache_grad_s_s_vT_pre := None\<rparr>) slv1)"

text \<open>The properties \<open>v\<close>, \<open>r\<close>, \<open>x\<close>, \<open>f\<close> and \<open>J\<close>.\<close>

definition controlled_nodes :: "curve list \<Rightarrow> dual list" where
  "controlled_nodes cs = concat (map (\<lambda>c. drop (ini_solve c) (nodes c)) cs)"

definition solver_v :: "solver \<Rightarrow> dual list \<times> solver" where
  "solver_v slv =
     (case cache_v (attrs slv) of
        Some v \<Rightarrow> (v, slv)
      | None \<Rightarrow>
          (let v = controlled_nodes (curves (attrs slv))
           in (v, map_attrs (\<lambda>rc. rc\<lparr>cache_v := Some v\<rparr>) slv)))"

definition price_all :: "env \<Rightarrow> solver \<Rightarrow> dual list" where
  "price_all env slv = map (\<lambda>i. rate env i (pre_curves slv)) (instruments (attrs slv))"

definition solver_r :: "env \<Rightarrow> solver \<Rightarrow> dual list \<times> solver" where
  "solver_r env slv =
     (case cache_r (attrs slv) of
        Some r \<Rightarrow> (r, slv)
      | None \<Rightarrow>
          (let r = price_all env slv
           in (r, map_attrs (\<lambda>rc. rc\<lparr>cache_r := Some r\<rparr>) slv)))"

definition solver_x :: "env \<Rightarrow> solver \<Rightarrow> dual list \<times> solver" where
  "solver_x env slv =
     (case cache_x (attrs slv) of
        Some x \<Rightarrow> (x, slv)
      | None \<Rightarrow>
          (let (r, slv1) = solver_r env slv;
               x = map2 dual_sub r (self_s (attrs slv1))
           in (x, map_attrs (\<lambda>rc. rc\<lparr>cache_x := Some x\<rparr>) slv1)))"

definition weighted :: "real list \<Rightarrow> dual list \<Rightarrow> dual list" where
  "weighted ws xs = map2 (\<lambda>w x. dual_mul (float_dual w) x) ws xs"

definition solver_f :: "env \<Rightarrow> solver \<Rightarrow> dual \<times> solver" where
  "solver_f env slv =
     (case cache_f (attrs slv) of
        Some f \<Rightarrow> (f, slv)
      | None \<Rightarrow>
          (let (x, slv1) = solver_x env slv;
               f = dual_dot x (weighted (weights (attrs slv1)) x)
           in (f, map_attrs (\<lambda>rc. rc\<lparr>cache_f := Some f\<rparr>) slv1)))"

text \<open>
  \<open>np.array([rate.gradient(self.variables) for rate in self.r]).T\<close>, of shape (n, m):
  entry (i, j) is the derivative of rate j in variable i.
\<close>

definition gradients_T :: "dual list \<Rightarrow> string list \<Rightarrow> mat" where
  "gradients_T ds vs = Mat (length vs) (length ds) (\<lambda>i j. dgrad (ds ! j) (vs ! i))"

definition solver_J :: "env \<Rightarrow> solver \<Rightarrow> mat \<times> solver" where
  "solver_J env slv =
     (case cache_J (attrs slv) of
        Some J \<Rightarrow> (J, slv)
      | None \<Rightarrow>
          (let (r, slv1) = solver_r env slv;
               J = gradients_T r (variables slv1)
           in (J, map_attrs (\<lambda>rc. rc\<lparr>cache_J := Some J\<rparr>) slv1)))"

subsection \<open>The step algorithms: \<open>Solver._update_step_\<close>\<close>

definition real_dot :: "real list \<Rightarrow> real list \<Rightarrow> real" where
  "real_dot xs ys = sum_list (map2 (*) xs ys)"

definition np_add_duals :: "dual list \<Rightarrow> dual list \<Rightarrow> error + dual list" where
  "np_add_duals a b =
     (if length a = length b then Inr (map2 dual_add a b)
      else if length b = 1 then Inr (map (\<lambda>x. dual_add x (b ! 0)) a)
      else if length a = 1 then Inr (map (\<lambda>y. dual_add (a ! 0) y) b)
      else Inl ValueError_broadcast)"

text \<open>The matrix \<open>J W J\<^sup>T\<close> of the normal equations and their right-hand side.\<close>

definition normal_matrix :: "mat \<Rightarrow> mat \<Rightarrow> mat" where
  "normal_matrix J W = np_matmul J (np_matmul W (np_transpose J))"

definition minus_half_grad :: "dual \<Rightarrow> string list \<Rightarrow> mat" where
  "minus_half_grad f vs = column (map (\<lambda>g. - 0.5 * g) (gradient f vs))"

text \<open>
  With no instrument, \<open>self.J\<close> is a one-dimensional empty array and \<open>J.shape[1]\<close>
  raises an \<open>IndexError\<close>; \<open>self.f\<close> is a float of numpy and
  \<open>self.f.gradient\<close> raises an \<open>AttributeError\<close>, in the gradient descent before
  anything else, in the Levenberg-Marquardt step after \<open>self.lambd\<close> has been
  multiplied and \<open>self.J\<close> read. In the gradient descent a zero denominator of the
  step size gives a float that is not finite, and nothing is raised.
\<close>

definition update_step :: "env \<Rightarrow> string \<Rightarrow> solver \<Rightarrow> (error + dual list) \<times> solver" where
  "update_step env algo slv =
     (if algo = ''gradient_descent'' then
        (let (f, slv1) = solver_f env slv
         in if solver_m slv1 = 0 then (Inl (AttributeError ''gradient''), slv1)
            else
              (let grad_v_f = gradient f (variables slv1);
                   (J, slv2) = solver_J env slv1;
                   y = column0 (np_matmul (np_transpose J) (column grad_v_f));
                   (x, slv3) = solver_x env slv2;
                   num = dual_dot (map float_dual y) (weighted (weights (attrs slv3)) x);
                   den = real_dot y (map2 (*) (weights (attrs slv3)) y);
                   (v, slv4) = solver_v slv3
               in (np_add v (map (\<lambda>g. - (g * (dreal num / den))) grad_v_f), slv4)))
      else if algo = ''gauss_newton'' then
        (let (J, slv1) = solver_J env slv
         in if solver_m slv1 = 0 then (Inl IndexError, slv1)
            else
              (let (A, b, slv2) =
                 (if nrows J = ncols J then
                    (let (x, slv2) = solver_x env slv1
                     in (np_transpose J, column (map (\<lambda>xi. - dreal xi) x), slv2))
                  else
                    (let (f, slv2) = solver_f env slv1
                     in (normal_matrix J (solver_W slv2),
                         minus_half_grad f (variables slv2), slv2)))
               in (case linalg_solve env A b of
                     None \<Rightarrow> (Inl LinAlgError, slv2)
                   | Some X \<Rightarrow>
                       (let (v, slv3) = solver_v slv2 in (np_add v (column0 X), slv3)))))
      else if algo = ''levenberg_marquardt'' then
        (let (f, slv1) = solver_f env slv;
             slv2 = map_attrs (\<lambda>rc. rc\<lparr>lambd :=
                      lambd rc * (if f_prev rc < dreal f then 2 else 0.25)\<rparr>) slv1;
             (J, slv3) = solver_J env slv2;
             A = mat_add (normal_matrix J (solver_W slv3))
                         (mat_scale (lambd (attrs slv3)) (np_eye (solver_n slv3)));
             b = minus_half_grad f (variables slv3)
         in if solver_m slv3 = 0 then (Inl (AttributeError ''gradient''), slv3)
            else
              (case linalg_solve env A b of
                 None \<Rightarrow> (Inl LinAlgError, slv3)
               | Some X \<Rightarrow>
                   (let (v, slv4) = solver_v slv3 in (np_add v (column0 X), slv4))))
      else if algo = ''gauss_newton_final'' then
        (let (J, slv1) = solver_J env slv;
             (x, slv2) = solver_x env slv1;
             delta = dual_solve env (np_transpose J) (map dual_neg x);
             (v, slv3) = solver_v slv2
         in (np_add_duals v delta, slv3))
      else (Inl (NotImplementedError algo), slv))"

text \<open>
  What it means that \<open>X\<close> solves \<open>A X = B\<close>: the product has the shape and the
  entries of \<open>B\<close>.
\<close>

definition mat_eq :: "mat \<Rightarrow> mat \<Rightarrow> bool" where
  "mat_eq A B \<longleftrightarrow>
     nrows A = nrows B \<and> ncols A = ncols B
     \<and> list_all (\<lambda>i. list_all (\<lambda>j. ent A i j = ent B i j) [0..<ncols A]) [0..<nrows A]"

text \<open>
  The cached rates and the cached Jacobian, when present, have the shapes with which the
  properties compute them: \<open>m\<close> rates and an array of shape (n, m).
\<close>

definition cached_shapes :: "solver \<Rightarrow> bool" where
  "cached_shapes slv \<longleftrightarrow>
     (case cache_r (attrs slv) of None \<Rightarrow> True | Some r \<Rightarrow> length r = solver_m slv)
     \<and> (case cache_J (attrs slv) of
          None \<Rightarrow> True
        | Some J \<Rightarrow> nrows J = solver_n slv \<and> ncols J = solver_m slv)"

text \<open>
  The cached rates, errors and objective, when present, are the values that the
  properties compute from the current curves and targets.
\<close>

definition errors_of :: "env \<Rightarrow> solver \<Rightarrow> dual list" where
  "errors_of env slv = map2 dual_sub (price_all env slv) (self_s (attrs slv))"

definition objective_of :: "env \<Rightarrow> solver \<Rightarrow> dual" where
  "objective_of env slv =
     dual_dot (errors_of env slv) (weighted (weights (attrs slv)) (errors_of env slv))"

definition caches_current :: "env \<Rightarrow> solver \<Rightarrow> bool" where
  "caches_current env slv \<longleftrightarrow>
     (case cache_r (attrs slv) of None \<Rightarrow> True | Some r \<Rightarrow> r = price_all env slv)
     \<and> (case cache_x (attrs slv) of None \<Rightarrow> True | Some x \<Rightarrow> x = errors_of env slv)
     \<and> (case cache_f (attrs slv) of None \<Rightarrow> True | Some f \<Rightarrow> f = objective_of env slv)"

subsection \<open>The iteration controller: \<open>Solver.iterate\<close>\<close>

text \<open>
  \<open>iterate\<close> returns \<open>None\<close> on each of its three ways out and prints a message; the
  message, with the cycle count and the objective value it reports, is the result here.
\<close>

datatype message =
    SUCCESS_conv_tol nat real
  | SUCCESS_func_tol nat real
  | FAILURE_max_iter nat real

text \<open>
  The nodes a step writes: over the curves in order, each controlled node takes the real
  part of the next entry of \<open>v_1\<close> and keeps its own variable tags
  (\<open>DualType(v_1[_].real, curve.nodes[k].vars)\<close>). Where \<open>v_1\<close> has no entry left,
  \<open>v_1[_]\<close> raises an \<open>IndexError\<close> and the remaining nodes are not written.
\<close>

fun update_nodes :: "dual list \<Rightarrow> dual list \<Rightarrow> dual list" where
  "update_nodes v_1 [] = []"
| "update_nodes [] (old # olds) = old # olds"
| "update_nodes (new # v_1) (old # olds) =
     new_dual (dreal new) (dvars old) # update_nodes v_1 olds"

fun update_curves :: "dual list \<Rightarrow> curve list \<Rightarrow> curve list" where
  "update_curves v_1 [] = []"
| "update_curves v_1 (c # cs) =
     c\<lparr>nodes := take (ini_solve c) (nodes c)
              @ update_nodes v_1 (drop (ini_solve c) (nodes c))\<rparr>
     # update_curves (drop (length (nodes c) - ini_solve c) v_1) cs"

text \<open>
  One cycle of the loop, in two parts. The first part evaluates the objective, records
  it in \<open>f_list\<close> and tests the two convergence conditions, in the order of the source:
  \<open>conv_tol\<close> first, \<open>func_tol\<close> in the \<open>elif\<close>. The second part, reached when
  neither holds, stores the objective in \<open>f_prev\<close>, computes a step, writes the curves
  and resets the properties. The result \<open>Some msg\<close> is a return out of the loop,
  \<open>None\<close> the end of a cycle that has applied a step.
\<close>

definition apply_step :: "env \<Rightarrow> real \<Rightarrow> solver \<Rightarrow> (error + message option) \<times> solver" where
  "apply_step env f_val slv =
     (let slv1 = map_attrs (\<lambda>rc. rc\<lparr>f_prev := f_val\<rparr>) slv
      in (case update_step env (algorithm (attrs slv1)) slv1 of
            (Inl e, slv2) \<Rightarrow> (Inl e, slv2)
          | (Inr v_1, slv2) \<Rightarrow>
              (let slv3 = map_attrs
                            (\<lambda>rc. rc\<lparr>curves := update_curves v_1 (curves rc)\<rparr>) slv2
               in if length v_1 < length (controlled_nodes (curves (attrs slv2)))
                  then (Inl IndexError, slv3)
                  else (Inr None, reset_properties False slv3))))"

definition record_objective :: "env \<Rightarrow> solver \<Rightarrow> real \<times> solver" where
  "record_objective env slv =
     (let (f, slv1) = solver_f env slv;
          f_val = dreal f
      in (f_val, map_attrs (\<lambda>rc. rc\<lparr>f_list := f_list rc @ [f_val]\<rparr>) slv1))"

definition iterate_cycle :: "env \<Rightarrow> nat \<Rightarrow> solver \<Rightarrow> (error + message option) \<times> solver" where
  "iterate_cycle env i slv =
     (let (f_val, slv1) = record_objective env slv
      in if f_val < f_prev (attrs slv1) \<and> f_prev (attrs slv1) - f_val < conv_tol (attrs slv1)
         then (Inr (Some (SUCCESS_conv_tol i f_val)), slv1)
         else if f_val < func_tol (attrs slv1)
         then (Inr (Some (SUCCESS_func_tol i f_val)), slv1)
         else apply_step env f_val slv1)"

text \<open>
  \<open>for i in range(self.max_iter)\<close>: the first argument counts the cycles that remain,
  the second is \<open>i\<close>. After the last cycle the failure message reads \<open>self.f\<close> again.
\<close>

fun iterate_loop :: "env \<Rightarrow> nat \<Rightarrow> nat \<Rightarrow> solver \<Rightarrow> (error + message) \<times> solver" where
  "iterate_loop env 0 i slv =
     (let (f, slv1) = solver_f env slv
      in (Inr (FAILURE_max_iter (max_iter (attrs slv1)) (dreal f)), slv1))"
| "iterate_loop env (Suc k) i slv =
     (case iterate_cycle env i slv of
        (Inl e, slv1) \<Rightarrow> (Inl e, slv1)
      | (Inr (Some msg), slv1) \<Rightarrow> (Inr msg, slv1)
      | (Inr None, slv1) \<Rightarrow> iterate_loop env k (Suc i) slv1)"

text \<open>
  The state after \<open>k\<close> cycles from cycle \<open>i\<close> on, if each of them has applied a step:
  no convergence condition was met and nothing was raised.
\<close>

fun run_cycles :: "env \<Rightarrow> nat \<Rightarrow> nat \<Rightarrow> solver \<Rightarrow> solver option" where
  "run_cycles env 0 i slv = Some slv"
| "run_cycles env (Suc k) i slv =
     (case iterate_cycle env i slv of
        (Inr None, slv1) \<Rightarrow> run_cycles env k (Suc i) slv1
      | _ \<Rightarrow> None)"

definition iterate_start :: "solver \<Rightarrow> solver" where
  "iterate_start slv =
     reset_properties False
       (map_attrs (\<lambda>rc. rc\<lparr>f_prev := 10 ^ 10, f_list := [], lambd := 1000\<rparr>) slv)"

definition iterate :: "env \<Rightarrow> solver \<Rightarrow> (error + message) \<times> solver" where
  "iterate env slv = iterate_loop env (max_iter (attrs slv)) 0 (iterate_start slv)"

text \<open>
  The configuration of a solver: its attributes without those that \<open>iterate\<close>
  assigns, which are the node values of the curves, \<open>f_prev\<close>, \<open>f_list\<close>,
  \<open>lambd\<close> and the cached properties.
\<close>

definition configuration :: "solver \<Rightarrow> solver" where
  "configuration slv =
     reset_properties False
       (map_attrs (\<lambda>rc. rc\<lparr>curves := [], f_prev := 0, f_list := [], lambd := 0\<rparr>) slv)"

text \<open>
  \<open>_set_ad_order\<close> sets the order of the solver and of every solver of its chain. The
  conversion of the curve nodes and of the FX object to the scalar type of the order has
  no effect on the unified scalars of the model.
\<close>

fun set_ad_order :: "nat \<Rightarrow> solver \<Rightarrow> solver" where
  "set_ad_order order (Solver rc ps) = Solver (rc\<lparr>ad := order\<rparr>) (map (set_ad_order order) ps)"

subsection \<open>First-order sensitivities\<close>

text \<open>
  \<open>_grad_s_vT_final_iteration_analytical\<close>: the pseudo-inverse of \<open>J\<close>. With no
  instrument \<open>J\<close> is one-dimensional and \<open>np.linalg.pinv\<close> raises a \<open>ValueError\<close>.
\<close>

definition grad_s_vT_final_iteration_analytical ::
  "env \<Rightarrow> solver \<Rightarrow> (error + mat) \<times> solver" where
  "grad_s_vT_final_iteration_analytical env slv =
     (let (J, slv1) = solver_J env slv
      in if solver_m slv1 = 0 then (Inl ValueError_dimensions, slv1)
         else (Inr (linalg_pinv env J), slv1))"

text \<open>
  The targets re-tagged as variables \<open>s0\<close>, \<open>s1\<close>, ...:
  \<open>[Dual(v, f"s{i}") for i, v in enumerate(self.s)]\<close>, likewise with \<open>Dual2\<close>.
\<close>

definition s_vars :: "nat \<Rightarrow> string list" where
  "s_vars k = map (\<lambda>i. ''s'' @ string_of_nat i) [0..<k]"

definition tag_targets :: "dual list \<Rightarrow> dual list" where
  "tag_targets s = map (\<lambda>(i, v). new_dual (dreal v) [''s'' @ string_of_nat i]) (enumerate 0 s)"

text \<open>
  \<open>_grad_s_vT_final_iteration_dual(algorithm=None)\<close>. The targets are put back by the
  last statement before the return; there is no \<open>try\<close> around the step.
\<close>

definition grad_s_vT_final_iteration_dual ::
  "env \<Rightarrow> string option \<Rightarrow> solver \<Rightarrow> (error + mat) \<times> solver" where
  "grad_s_vT_final_iteration_dual env algo_arg slv =
     (let algo = (case algo_arg of
                    None \<Rightarrow> grad_s_vT_final_iteration_algo (attrs slv)
                  | Some a \<Rightarrow> if a = [] then grad_s_vT_final_iteration_algo (attrs slv) else a);
          s_old = self_s (attrs slv);
          slv1 = reset_properties False
                   (map_attrs (\<lambda>rc. rc\<lparr>self_s := tag_targets (self_s rc)\<rparr>) slv)
      in (case update_step env algo slv1 of
            (Inl e, slv2) \<Rightarrow> (Inl e, slv2)
          | (Inr v_1, slv2) \<Rightarrow>
              (Inr (gradients_T v_1 (s_vars (solver_m slv2))),
               map_attrs (\<lambda>rc. rc\<lparr>self_s := s_old\<rparr>) slv2)))"

text \<open>\<open>gradient(vars, order=2)\<close> and the slice \<open>A[r0:r1, c0:c1]\<close> that is read.\<close>

definition hessian :: "dual \<Rightarrow> string list \<Rightarrow> mat" where
  "hessian d vs = Mat (length vs) (length vs) (\<lambda>i j. dhess d (vs ! i) (vs ! j))"

definition submatrix :: "mat \<Rightarrow> nat \<Rightarrow> nat \<Rightarrow> nat \<Rightarrow> nat \<Rightarrow> mat" where
  "submatrix A r0 r1 c0 c1 =
     Mat (slice_len (nrows A) r0 r1) (slice_len (ncols A) c0 c1) (\<lambda>i j. ent A (r0 + i) (c0 + j))"

text \<open>
  \<open>_grad_s_vT_fixed_point_iteration\<close>. It ends by \<open>self.s = _s\<close>,
  \<open>self._set_ad_order(1)\<close> and \<open>self._reset_properties_()\<close>, again without a \<open>try\<close>.
  With no instrument \<open>self.f.gradient\<close> raises an \<open>AttributeError\<close>.
\<close>

definition grad_s_vT_fixed_point_iteration :: "env \<Rightarrow> solver \<Rightarrow> (error + mat) \<times> solver" where
  "grad_s_vT_fixed_point_iteration env slv =
     (let slv1 = reset_properties False (set_ad_order 2 slv);
          s_old = self_s (attrs slv1);
          slv2 = map_attrs (\<lambda>rc. rc\<lparr>self_s := tag_targets (self_s rc)\<rparr>) slv1;
          (f, slv3) = solver_f env slv2;
          n = solver_n slv3;
          grad2 = hessian f (variables slv3 @ s_vars (solver_m slv3));
          grad_v_vT_f = submatrix grad2 0 n 0 n;
          grad_s_vT_f = submatrix grad2 n (nrows grad2) 0 n
      in if solver_m slv3 = 0 then (Inl (AttributeError ''gradient''), slv3)
         else
           (case linalg_solve env grad_v_vT_f (mat_scale (- 1) (np_transpose grad_s_vT_f)) of
              None \<Rightarrow> (Inl LinAlgError, slv3)
            | Some X \<Rightarrow>
                (Inr (np_transpose X),
                 reset_properties False
                   (set_ad_order 1 (map_attrs (\<lambda>rc. rc\<lparr>self_s := s_old\<rparr>) slv3)))))"

text \<open>
  The property \<open>grad_s_vT\<close> calls the method that \<open>_grad_s_vT_method\<close> names
  (\<open>getattr(self, self._grad_s_vT_method)()\<close>); a name that is none of the three
  strategies is answered by an \<open>AttributeError\<close> here.
\<close>

definition grad_s_vT :: "env \<Rightarrow> solver \<Rightarrow> (error + mat) \<times> solver" where
  "grad_s_vT env slv =
     (case cache_grad_s_vT (attrs slv) of
        Some g \<Rightarrow> (Inr g, slv)
      | None \<Rightarrow>
          (let meth = grad_s_vT_method (attrs slv);
               res =
                 (if meth = ''_grad_s_vT_final_iteration_analytical'' then
                    grad_s_vT_final_iteration_analytical env slv
                  else if meth = ''_grad_s_vT_final_iteration_dual'' then
                    grad_s_vT_final_iteration_dual env None slv
                  else if meth = ''_grad_s_vT_fixed_point_iteration'' then
                    grad_s_vT_fixed_point_iteration env slv
                  else (Inl (AttributeError meth), slv))
           in (case res of
                 (Inl e, slv1) \<Rightarrow> (Inl e, slv1)
               | (Inr g, slv1) \<Rightarrow>
                   (Inr g, map_attrs (\<lambda>rc. rc\<lparr>cache_grad_s_vT := Some g\<rparr>) slv1))))"

text \<open>
  The property \<open>grad_s_vT_pre\<close>. The loop over \<open>self.pre_solvers\<close> carries the array
  under construction and the offsets \<open>i\<close>, \<open>j\<close>; the pre-solvers already visited
  (with the caches their properties have filled) are kept in \<open>visited\<close>. The slices
  are written as in the source: rows \<open>i:m\<close> and columns \<open>j:n\<close> with
  \<open>m, n = pre_solver.pre_m, pre_solver.pre_n\<close>, and \<open>-self.m:\<close> for the last columns
  and rows. The attributes \<open>pre_m\<close>, \<open>pre_n\<close> and \<open>pre_variables\<close> of a pre-solver
  are set by its constructor and never assigned again; they are read from the pre-solver
  as it is before its property is evaluated. After \<open>self.grad_s_vT\<close> the pre-solvers
  are those of the solver it leaves: the fixed-point strategy sets the order of every
  solver of the chain.
\<close>

function grad_s_vT_pre :: "env \<Rightarrow> solver \<Rightarrow> (error + mat) \<times> solver"
  and grad_s_vT_pre_loop ::
    "env \<Rightarrow> solver_rec \<Rightarrow> solver list \<Rightarrow> solver list \<Rightarrow> mat \<Rightarrow> nat \<Rightarrow> nat \<Rightarrow> (error + mat) \<times> solver"
where
  "grad_s_vT_pre env (Solver rc ps) =
     (if length ps = 0 then grad_s_vT env (Solver rc ps)
      else
        (case cache_grad_s_vT_pre rc of
           Some g \<Rightarrow> (Inr g, Solver rc ps)
         | None \<Rightarrow>
             (case grad_s_vT_pre_loop env rc [] ps
                     (np_zeros (pre_m (Solver rc ps)) (pre_n (Solver rc ps))) 0 0 of
                (Inl e, slv1) \<Rightarrow> (Inl e, slv1)
              | (Inr G, slv1) \<Rightarrow>
                  (case grad_s_vT env slv1 of
                     (Inl e, slv2) \<Rightarrow> (Inl e, slv2)
                   | (Inr g, slv2) \<Rightarrow>
                       (case setitem G (last_start (nrows G) (length (instruments rc))) (nrows G)
                                 (last_start (ncols G) (length (instruments rc))) (ncols G) g of
                          Inl e \<Rightarrow> (Inl e, slv2)
                        | Inr G1 \<Rightarrow>
                            (Inr G1,
                             map_attrs (\<lambda>rc. rc\<lparr>cache_grad_s_vT_pre := Some G1\<rparr>) slv2))))))"
| "grad_s_vT_pre_loop env rc visited [] G i j = (Inr G, Solver rc visited)"
| "grad_s_vT_pre_loop env rc visited (pre_solver # rest) G i j =
     (case grad_s_vT_pre env pre_solver of
        (Inl e, p1) \<Rightarrow> (Inl e, Solver rc (visited @ p1 # rest))
      | (Inr Gp, p1) \<Rightarrow>
          (case setitem G i (pre_m pre_solver) j (pre_n pre_solver) Gp of
             Inl e \<Rightarrow> (Inl e, Solver rc (visited @ p1 # rest))
           | Inr G1 \<Rightarrow>
               (let (r, slv1) = solver_r env (Solver rc (visited @ p1 # rest));
                    grad_v_r = gradients_T r (pre_variables pre_solver)
                in (case grad_s_vT env slv1 of
                      (Inl e, slv2) \<Rightarrow> (Inl e, slv2)
                    | (Inr g, slv2) \<Rightarrow>
                        (let block = mat_scale (- 1) (np_matmul Gp (np_matmul grad_v_r g))
                         in (case setitem G1 i (pre_m pre_solver)
                                    (last_start (ncols G1) (length (instruments rc)))
                                    (ncols G1) block of
                               Inl e \<Rightarrow> (Inl e, slv2)
                             | Inr G2 \<Rightarrow>
                                 grad_s_vT_pre_loop env (attrs slv2)
                                   (take (Suc (length visited)) (pre_solvers slv2))
                                   (drop (Suc (length visited)) (pre_solvers slv2)) G2
                                   (i + pre_m pre_solver) (j + pre_n pre_solver)))))))"
  by pat_completeness auto
termination
proof -
  have v: "pre_solvers (snd (solver_v s)) = pre_solvers s" for s
    by (simp add: solver_v_def map_attrs_def Let_def split: option.splits)
  have r: "pre_solvers (snd (solver_r env s)) = pre_solvers s" for env s
    by (simp add: solver_r_def map_attrs_def Let_def split: option.splits)
  have x: "pre_solvers (snd (solver_x env s)) = pre_solvers s" for env s
    by (simp add: solver_x_def map_attrs_def Let_def case_prod_beta r split: option.splits)
  have f: "pre_solvers (snd (solver_f env s)) = pre_solvers s" for env s
    by (simp add: solver_f_def map_attrs_def Let_def case_prod_beta x split: option.splits)
  have J: "pre_solvers (snd (solver_J env s)) = pre_solvers s" for env s
    by (simp add: solver_J_def map_attrs_def Let_def case_prod_beta r split: option.splits)
  have u: "pre_solvers (snd (update_step env algo s)) = pre_solvers s" for env algo s
    by (simp add: update_step_def map_attrs_def Let_def case_prod_beta v x f J
          split: option.splits)
  have o: "size (set_ad_order k s) = size s" for k s
  proof (induction s)
    case (Solver rc ps)
    then have "map (size \<circ> set_ad_order k) ps = map size ps" by simp
    then have "sum_list (map (size \<circ> set_ad_order k) ps) = sum_list (map size ps)"
      by (rule arg_cong)
    then show ?case by (simp add: size_list_conv_sum_list)
  qed
  have g: "map size (pre_solvers s') = map size (pre_solvers s)"
    if "(Inr g, s') = grad_s_vT env s" for env s g s'
  proof -
    have "pre_solvers (set_ad_order k s) = map (set_ad_order k) (pre_solvers s)" for k s
      by (cases s) simp
    with that [symmetric] show ?thesis
      by (auto simp add: grad_s_vT_def grad_s_vT_final_iteration_analytical_def
            grad_s_vT_final_iteration_dual_def grad_s_vT_fixed_point_iteration_def
            reset_properties_def map_attrs_def Let_def case_prod_beta u f J o
            split: option.splits if_splits sum.splits prod.splits)
  qed
  have d: "size_list size (drop (Suc (length visited)) (pre_solvers s')) = size_list size rest"
    if "(r, s) = solver_r env (Solver rc (visited @ p # rest))" and "(Inr g, s') = grad_s_vT env s"
    for env rc visited p rest r s g s'
  proof -
    from that(1) have "pre_solvers s = visited @ p # rest"
      using r [of env "Solver rc (visited @ p # rest)"] by (simp add: that(1) [symmetric])
    with g [OF that(2)] have "map size (pre_solvers s') = map size (visited @ p # rest)"
      by simp
    then have "map size (drop (Suc (length visited)) (pre_solvers s')) = map size rest"
      by (simp add: drop_map [symmetric])
    moreover from this have "length (drop (Suc (length visited)) (pre_solvers s')) = length rest"
      using length_map by metis
    ultimately show ?thesis by (simp add: size_list_conv_sum_list)
  qed
  show ?thesis
    by (relation "measure (\<lambda>a. case a of
                   Inl (env, slv) \<Rightarrow> size slv
                 | Inr (env, rc, visited, todo, G, i, j) \<Rightarrow> size_list size todo)")
       (auto simp add: d)
qed

subsection \<open>Second-order sensitivities\<close>

text \<open>
  \<open>np.transpose(np.array([rate.gradient(vars, order=2) for rate in rates]), (1, 2, 0))\<close>:
  entry (i, j, k) is the second derivative of rate k in the variables i and j.
\<close>

definition hessians_T :: "dual list \<Rightarrow> string list \<Rightarrow> tensor" where
  "hessians_T ds vs =
     Tensor (length vs) (length vs) (length ds) (\<lambda>i j k. dhess (ds ! k) (vs ! i) (vs ! j))"

text \<open>
  The property \<open>J2\<close>. The order is tested only when nothing is cached; the rates are
  priced afresh, not read from \<open>self.r\<close>. With no instrument the array of the second
  derivatives is one-dimensional and \<open>np.transpose(_, (1, 2, 0))\<close> raises a
  \<open>ValueError\<close>.
\<close>

definition solver_J2 :: "env \<Rightarrow> solver \<Rightarrow> (error + tensor) \<times> solver" where
  "solver_J2 env slv =
     (case cache_J2 (attrs slv) of
        Some T \<Rightarrow> (Inr T, slv)
      | None \<Rightarrow>
          (if ad (attrs slv) \<noteq> 2 then (Inl ValueError_ad_mode, slv)
           else if solver_m slv = 0 then (Inl ValueError_dimensions, slv)
           else
             (let rates = price_all env slv;
                  T = hessians_T rates (variables slv)
              in (Inr T, map_attrs (\<lambda>rc. rc\<lparr>cache_J2 := Some T\<rparr>) slv))))"

text \<open>
  The property \<open>J2_pre\<close>, with the slices \<open>J2[i:pre_n, i:pre_n, j:pre_m]\<close> of the
  source for each pre-solver and \<open>J2[:, :, -self.m:]\<close> for the solver's own rates.
\<close>

function J2_pre :: "env \<Rightarrow> solver \<Rightarrow> (error + tensor) \<times> solver"
  and J2_pre_loop ::
    "env \<Rightarrow> solver_rec \<Rightarrow> solver list \<Rightarrow> solver list \<Rightarrow> tensor \<Rightarrow> nat \<Rightarrow> nat \<Rightarrow>
       (error + tensor) \<times> solver"
where
  "J2_pre env (Solver rc ps) =
     (if length ps = 0 then solver_J2 env (Solver rc ps)
      else
        (case cache_J2_pre rc of
           Some T \<Rightarrow> (Inr T, Solver rc ps)
         | None \<Rightarrow>
             (if ad rc \<noteq> 2 then (Inl ValueError_ad_mode, Solver rc ps)
              else
                (case J2_pre_loop env rc [] ps
                        (np_zeros3 (pre_n (Solver rc ps)) (pre_n (Solver rc ps))
                           (pre_m (Solver rc ps))) 0 0 of
                   (Inl e, slv1) \<Rightarrow> (Inl e, slv1)
                 | (Inr T, slv1) \<Rightarrow>
                     (let rates = price_all env slv1;
                          H = hessians_T rates (pre_variables (Solver rc ps))
                      in if length (instruments rc) = 0 then (Inl ValueError_dimensions, slv1)
                         else
                           (case setitem3 T 0 (dim0 T) 0 (dim1 T)
                                   (last_start (dim2 T) (length (instruments rc))) (dim2 T) H of
                              Inl e \<Rightarrow> (Inl e, slv1)
                            | Inr T1 \<Rightarrow>
                                (Inr T1,
                                 map_attrs (\<lambda>rc. rc\<lparr>cache_J2_pre := Some T1\<rparr>) slv1)))))))"
| "J2_pre_loop env rc visited [] T i j = (Inr T, Solver rc visited)"
| "J2_pre_loop env rc visited (pre_slvr # rest) T i j =
     (case J2_pre env pre_slvr of
        (Inl e, p1) \<Rightarrow> (Inl e, Solver rc (visited @ p1 # rest))
      | (Inr Tp, p1) \<Rightarrow>
          (case setitem3 T i (pre_n pre_slvr) i (pre_n pre_slvr) j (pre_m pre_slvr) Tp of
             Inl e \<Rightarrow> (Inl e, Solver rc (visited @ p1 # rest))
           | Inr T1 \<Rightarrow>
               J2_pre_loop env rc (visited @ [p1]) rest T1
                 (i + pre_n pre_slvr) (j + pre_m pre_slvr)))"
  by pat_completeness auto
termination
  by (relation "measure (\<lambda>a. case a of
                   Inl (env, slv) \<Rightarrow> size slv
                 | Inr (env, rc, visited, todo, T, i, j) \<Rightarrow> size_list size todo)")
     auto

text \<open>
  \<open>_grad_s_s_vT_final_iteration_analytical(use_pre)\<close> and the properties
  \<open>grad_s_s_vT\<close> and \<open>grad_s_s_vT_pre\<close>.
\<close>

definition grad_s_s_vT_final_iteration_analytical ::
  "env \<Rightarrow> bool \<Rightarrow> solver \<Rightarrow> (error + tensor) \<times> solver" where
  "grad_s_s_vT_final_iteration_analytical env use_pre slv =
     (case (if use_pre then J2_pre env slv else solver_J2 env slv) of
        (Inl e, slv1) \<Rightarrow> (Inl e, slv1)
      | (Inr J2, slv1) \<Rightarrow>
          (case (if use_pre then grad_s_vT_pre env slv1 else grad_s_vT env slv1) of
             (Inl e, slv2) \<Rightarrow> (Inl e, slv2)
           | (Inr G, slv2) \<Rightarrow>
               (Inr (tensor_neg (tensordot_11 G (tensordot_10 G (tensordot_20 J2 G)))), slv2)))"

definition grad_s_s_vT :: "env \<Rightarrow> solver \<Rightarrow> (error + tensor) \<times> solver" where
  "grad_s_s_vT env slv =
     (case cache_grad_s_s_vT (attrs slv) of
        Some T \<Rightarrow> (Inr T, slv)
      | None \<Rightarrow>
          (case grad_s_s_vT_final_iteration_analytical env False slv of
             (Inl e, slv1) \<Rightarrow> (Inl e, slv1)
           | (Inr T, slv1) \<Rightarrow>
               (Inr T, map_attrs (\<lambda>rc. rc\<lparr>cache_grad_s_s_vT := Some T\<rparr>) slv1)))"

definition grad_s_s_vT_pre :: "env \<Rightarrow> solver \<Rightarrow> (error + tensor) \<times> solver" where
  "grad_s_s_vT_pre env slv =
     (if length (pre_solvers slv) = 0 then grad_s_s_vT env slv
      else
        (case cache_grad_s_s_vT_pre (attrs slv) of
           Some T \<Rightarrow> (Inr T, slv)
         | None \<Rightarrow>
             (case grad_s_s_vT_final_iteration_analytical env True slv of
                (Inl e, slv1) \<Rightarrow> (Inl e, slv1)
              | (Inr T, slv1) \<Rightarrow>
                  (Inr T, map_attrs (\<lambda>rc. rc\<lparr>cache_grad_s_s_vT_pre := Some T\<rparr>) slv1))))"

subsection \<open>Cross-gamma: \<open>Solver._gamma_inst_arr_local\<close> and \<open>Solver.gamma\<close>\<close>

text \<open>
  A valuation \<open>npv\<close> is a dictionary from currencies to scalars, here a list of pairs.
  The table that \<open>_gamma_inst_arr_local\<close> returns has the labels
  \<open>(ccy, "instruments", solver id, label)\<close> on its rows and on its columns, for every
  currency of \<open>npv\<close>, and holds one block of values per currency, on the rows and
  columns of that currency. The labels are built before the loop over the currencies.
\<close>

type_synonym gamma_label = "string \<times> string \<times> string \<times> string"

record gamma_table =
  index_labels :: "gamma_label list"
  column_labels :: "gamma_label list"
  blocks :: "(string \<times> mat) list"

definition outer_labels :: "string list \<Rightarrow> solver \<Rightarrow> gamma_label list" where
  "outer_labels ccys slv =
     concat (map (\<lambda>ccy. map (\<lambda>(sid, lbl). (ccy, ''instruments'', sid, lbl))
                           (pre_instrument_labels slv)) ccys)"

text \<open>The loop \<open>for ccy in npv\<close>: the block \<open>grad_s_sT_P * scalar / 10000\<close> of each currency.\<close>

fun gamma_blocks ::
  "env \<Rightarrow> (string \<times> dual) list \<Rightarrow> solver \<Rightarrow> (error + (string \<times> mat) list) \<times> solver" where
  "gamma_blocks env [] slv = (Inr [], slv)"
| "gamma_blocks env ((ccy, val) # rest) slv =
     (case grad_s_vT_pre env slv of
        (Inl e, slv1) \<Rightarrow> (Inl e, slv1)
      | (Inr G, slv1) \<Rightarrow>
          (case grad_s_s_vT_pre env slv1 of
             (Inl e, slv2) \<Rightarrow> (Inl e, slv2)
           | (Inr T, slv2) \<Rightarrow>
               (let P = mat_add
                          (np_matmul G (np_matmul (hessian val (pre_variables slv2))
                                          (np_transpose G)))
                          (tensor_vec T (gradient val (pre_variables slv2)));
                    sc = pre_rate_scalars slv2;
                    blk = Mat (nrows P) (ncols P)
                            (\<lambda>i j. ent P i j * (sc ! i * sc ! j) / 10000)
                in (case gamma_blocks env rest slv2 of
                      (Inl e, slv3) \<Rightarrow> (Inl e, slv3)
                    | (Inr bs, slv3) \<Rightarrow> (Inr ((ccy, blk) # bs), slv3)))))"

definition gamma_inst_arr_local ::
  "env \<Rightarrow> (string \<times> dual) list \<Rightarrow> solver \<Rightarrow> (error + gamma_table) \<times> solver" where
  "gamma_inst_arr_local env npv slv =
     (case gamma_blocks env npv slv of
        (Inl e, slv1) \<Rightarrow> (Inl e, slv1)
      | (Inr bs, slv1) \<Rightarrow>
          (Inr \<lparr>index_labels = outer_labels (map fst npv) slv,
                column_labels = outer_labels (map fst npv) slv,
                blocks = bs\<rparr>, slv1))"

text \<open>
  \<open>gamma(npv, base=None, fx=None)\<close>: the order is tested and the local table is
  returned. The statements that follow the \<open>return\<close> in the source are never reached.
\<close>

definition gamma ::
  "env \<Rightarrow> (string \<times> dual) list \<Rightarrow> string option \<Rightarrow> fx_object option \<Rightarrow> solver \<Rightarrow>
     (error + gamma_table) \<times> solver" where
  "gamma env npv base fx_arg slv =
     (if ad (attrs slv) \<noteq> 2 then (Inl ValueError_gamma_ad_order, slv)
      else gamma_inst_arr_local env npv slv)"


subsection \<open>The transfer matrix to another solver: \<open>Solver.jacobian\<close>\<close>

text \<open>
  \<open>jacobian(solver)\<close> prices the solver's own instruments with the keyword \<open>solver\<close>
  bound to the other solver and stores these rates as \<open>self.s\<close>, resets the properties
  and iterates. The rates of the other solver's instruments are priced with
  \<open>{"solver": self, **_[2]}\<close>, in which the keywords \<open>_[2]\<close> of a parsed instrument
  come last and carry a \<open>solver\<close> entry of their own, the other solver unless its
  caller chose differently. The result is the array of the returned table with its row
  and column labels. The other solver is a separate object, which the call does not
  change.

  \<open>DataFrame(values, index=..., columns=...)\<close> raises a \<open>ValueError\<close> unless the
  numbers of row and column labels are those of the rows and columns of the values. The
  labels are \<open>self.instrument_labels\<close> of the two solvers: none when the attribute is
  the consumed generator.
\<close>

definition labels_attribute :: "solver_rec \<Rightarrow> string list" where
  "labels_attribute rc = (if labels_given rc then instrument_labels rc else [])"

definition data_frame ::
  "mat \<Rightarrow> string list \<Rightarrow> string list \<Rightarrow> error + (mat \<times> string list \<times> string list)" where
  "data_frame values idx cols =
     (if length idx = nrows values \<and> length cols = ncols values then Inr (values, idx, cols)
      else Inl ValueError_frame_shape)"

definition jacobian ::
  "env \<Rightarrow> solver \<Rightarrow> solver \<Rightarrow> (error + (mat \<times> string list \<times> string list)) \<times> solver" where
  "jacobian env other slv =
     (let s_new = map (\<lambda>i. rate env i (pre_curves other)) (instruments (attrs slv));
          slv1 = reset_properties False (map_attrs (\<lambda>rc. rc\<lparr>self_s := s_new\<rparr>) slv)
      in (case iterate env slv1 of
            (Inl e, slv2) \<Rightarrow> (Inl e, slv2)
          | (Inr msg, slv2) \<Rightarrow>
              (let rates = price_all env other;
                   grad_v_rT = gradients_T rates (variables slv2)
               in (case grad_s_vT env slv2 of
                     (Inl e, slv3) \<Rightarrow> (Inl e, slv3)
                   | (Inr g, slv3) \<Rightarrow>
                       (data_frame (np_matmul g grad_v_rT) (labels_attribute (attrs slv3))
                          (labels_attribute (attrs other)), slv3)))))"

subsection \<open>A calibration of one node, for concrete evaluation\<close>

text \<open>
  An instrument named after a curve, whose rate is the value of the last node of that
  curve; the numeric routines restricted to one equation in one unknown, where they are a
  division; and a solver of one curve with a fixed first node and a controlled second
  node, one instrument, the target rate 0 and the weight 1, as the constructor leaves it
  before it calls \<open>iterate\<close>.
\<close>

definition last_node_rate :: "instrument \<Rightarrow> curve list \<Rightarrow> dual" where
  "last_node_rate i cs =
     (case filter (\<lambda>c. curve_id c = i) cs of [] \<Rightarrow> float_dual 0 | c # _ \<Rightarrow> last (nodes c))"

definition solve_1x1 :: "mat \<Rightarrow> mat \<Rightarrow> mat option" where
  "solve_1x1 A B =
     (if nrows A = 1 \<and> ncols A = 1 \<and> nrows B = 1 \<and> ent A 0 0 \<noteq> 0
      then Some (Mat 1 (ncols B) (\<lambda>i j. ent B 0 j / ent A 0 0))
      else None)"

definition pinv_1x1 :: "mat \<Rightarrow> mat" where
  "pinv_1x1 A =
     Mat (ncols A) (nrows A) (\<lambda>i j. if ent A j i = 0 then 0 else 1 / ent A j i)"

definition dual_solve_1x1 :: "mat \<Rightarrow> dual list \<Rightarrow> dual list" where
  "dual_solve_1x1 A b = map (dual_mul (float_dual (1 / ent A 0 0))) b"

definition env_1x1 :: env where
  "env_1x1 = \<lparr>rate = last_node_rate, linalg_solve = solve_1x1, linalg_pinv = pinv_1x1,
              dual_solve = dual_solve_1x1\<rparr>"

definition example_curve :: "string \<Rightarrow> real \<Rightarrow> curve" where
  "example_curve name x =
     \<lparr>curve_id = name,
      nodes = [new_dual 1 [name @ ''0''], new_dual x [name @ ''1'']],
      ini_solve = 1\<rparr>"

definition example_attrs :: "string \<Rightarrow> string \<Rightarrow> real \<Rightarrow> real \<Rightarrow> nat \<Rightarrow> solver_rec" where
  "example_attrs name algo ftol ctol iters =
     \<lparr>algorithm = algo, func_tol = ftol, conv_tol = ctol, max_iter = iters,
      solver_id = name @ ''_'', self_s = [float_dual 0], weights = [1],
      curves = [example_curve name 1], instruments = [name],
      instrument_labels = [name @ ''_0''], labels_given = True, rate_scalars = [1],
      fx = None, ad = 1,
      grad_s_vT_method = ''_grad_s_vT_final_iteration_analytical'',
      grad_s_vT_final_iteration_algo = ''gauss_newton_final'',
      f_prev = 10 ^ 10, f_list = [], lambd = 1000,
      cache_v = None, cache_r = None, cache_x = None, cache_f = None, cache_J = None,
      cache_grad_s_vT = None, cache_grad_s_vT_pre = None, cache_J2 = None,
      cache_J2_pre = None, cache_grad_s_s_vT = None, cache_grad_s_s_vT_pre = None\<rparr>"

definition example_solver :: "string \<Rightarrow> real \<Rightarrow> real \<Rightarrow> nat \<Rightarrow> solver" where
  "example_solver algo ftol ctol iters = Solver (example_attrs ''c'' algo ftol ctol iters) []"

text \<open>The same curve calibrated to two instruments: two rates for one variable.\<close>

definition example_solver_2x1 :: "string \<Rightarrow> solver" where
  "example_solver_2x1 algo =
     Solver ((example_attrs ''c'' algo (1 / 10 ^ 11) (1 / 10 ^ 14) 100)
               \<lparr>self_s := [float_dual 0, float_dual 0], weights := [1, 1],
                instruments := [''c'', ''c''], instrument_labels := [''c_0'', ''c_1''],
                rate_scalars := [1, 1]\<rparr>) []"

text \<open>
  A solver whose instrument reads no curve of the solver, so that its Jacobian is zero; the
  step of its dual-number strategy is the Gauss-Newton step, which calls
  \<open>np.linalg.solve\<close>.
\<close>

definition detached_solver :: solver where
  "detached_solver =
     Solver ((example_attrs ''c'' ''gauss_newton'' 0 0 1)
               \<lparr>instruments := [''zz''],
                grad_s_vT_final_iteration_algo := ''gauss_newton''\<rparr>) []"

text \<open>The example solver after its iteration has converged.\<close>

definition calibrated_solver :: solver where
  "calibrated_solver =
     snd (iterate env_1x1 (example_solver ''gauss_newton'' (1 / 10 ^ 11) (1 / 10 ^ 14) 100))"

text \<open>
  A chain of solvers of one curve each. Every instrument is a spread over the context: its
  rate is the sum of the last nodes of the curves of the solver that prices it, so that the
  rate of a solver with pre-solvers depends on their variables too. A link is calibrated
  when its target is that sum.
\<close>

definition sum_rate :: "instrument \<Rightarrow> curve list \<Rightarrow> dual" where
  "sum_rate i cs = foldl dual_add (float_dual 0) (map (\<lambda>c. last (nodes c)) cs)"

text \<open>
  The pseudo-inverse of a matrix of one row \<open>a\<close>, which is \<open>a\<^sup>T / (a a\<^sup>T)\<close>, and
  zero for the zero row.
\<close>

definition pinv_row :: "mat \<Rightarrow> mat" where
  "pinv_row A =
     Mat (ncols A) (nrows A)
       (\<lambda>i j. ent A j i / sum_list (map (\<lambda>k. ent A 0 k * ent A 0 k) [0..<ncols A]))"

definition env_chain :: env where
  "env_chain = \<lparr>rate = sum_rate, linalg_solve = solve_1x1, linalg_pinv = pinv_row,
                dual_solve = dual_solve_1x1\<rparr>"

definition chain_link :: "string \<Rightarrow> real \<Rightarrow> solver list \<Rightarrow> solver" where
  "chain_link name target ps =
     Solver ((example_attrs name ''gauss_newton'' (1 / 10 ^ 11) (1 / 10 ^ 14) 100)
               \<lparr>self_s := [float_dual target]\<rparr>) ps"

text \<open>The last solver of a chain with two instruments on its one variable.\<close>

definition two_rates_link :: "solver list \<Rightarrow> solver" where
  "two_rates_link ps =
     Solver ((example_attrs ''c'' ''gauss_newton'' (1 / 10 ^ 11) (1 / 10 ^ 14) 100)
               \<lparr>self_s := [float_dual 2, float_dual 2], weights := [1, 1],
                instruments := [''c'', ''c''], instrument_labels := [''c_0'', ''c_1''],
                rate_scalars := [1, 1]\<rparr>) ps"

text \<open>
  An instrument whose rate is the square of the last node of its curve, and the
  Levenberg-Marquardt calibration of that node, from the value 1, to the rate 50001, with
  two cycles allowed.
\<close>

definition square_rate :: "instrument \<Rightarrow> curve list \<Rightarrow> dual" where
  "square_rate i cs =
     (case filter (\<lambda>c. curve_id c = i) cs of
        [] \<Rightarrow> float_dual 0
      | c # _ \<Rightarrow> dual_mul (last (nodes c)) (last (nodes c)))"

definition env_square :: env where
  "env_square = \<lparr>rate = square_rate, linalg_solve = solve_1x1, linalg_pinv = pinv_1x1,
                 dual_solve = dual_solve_1x1\<rparr>"

definition overshoot_solver :: solver where
  "overshoot_solver =
     Solver ((example_attrs ''c'' ''levenberg_marquardt'' (1 / 10 ^ 11) (1 / 10 ^ 14) 2)
               \<lparr>self_s := [float_dual 50001]\<rparr>) []"



definition other_solver :: solver where
  "other_solver =
     Solver ((example_attrs ''c'' ''gauss_newton'' (1 / 10 ^ 11) (1 / 10 ^ 14) 100)
               \<lparr>self_s := [float_dual 5], curves := [example_curve ''c'' 5]\<rparr>) []"

section \<open>Properties\<close>

subsection \<open>What the cached properties leave unchanged\<close>

lemma reset_map_cache [simp]:
  "reset_properties False (map_attrs (\<lambda>rc. rc\<lparr>cache_v := a\<rparr>) slv) = reset_properties False slv"
  "reset_properties False (map_attrs (\<lambda>rc. rc\<lparr>cache_r := b\<rparr>) slv) = reset_properties False slv"
  "reset_properties False (map_attrs (\<lambda>rc. rc\<lparr>cache_x := c\<rparr>) slv) = reset_properties False slv"
  "reset_properties False (map_attrs (\<lambda>rc. rc\<lparr>cache_f := d\<rparr>) slv) = reset_properties False slv"
  "reset_properties False (map_attrs (\<lambda>rc. rc\<lparr>cache_J := e\<rparr>) slv) = reset_properties False slv"
  by (simp_all add: reset_properties_def map_attrs_def)

lemma solver_r_frame [simp]:
  "reset_properties False (snd (solver_r env slv)) = reset_properties False slv"
  by (simp add: solver_r_def Let_def split: option.splits)

lemma solver_x_frame [simp]:
  "reset_properties False (snd (solver_x env slv)) = reset_properties False slv"
  by (simp add: solver_x_def Let_def case_prod_beta split: option.splits)

lemma solver_f_frame [simp]:
  "reset_properties False (snd (solver_f env slv)) = reset_properties False slv"
  by (simp add: solver_f_def Let_def case_prod_beta split: option.splits)

lemma solver_J_frame [simp]:
  "reset_properties False (snd (solver_J env slv)) = reset_properties False slv"
  by (simp add: solver_J_def Let_def case_prod_beta split: option.splits)

lemma solver_v_frame [simp]:
  "reset_properties False (snd (solver_v slv)) = reset_properties False slv"
  by (simp add: solver_v_def Let_def split: option.splits)

text \<open>Two solvers that agree up to their cached properties agree on every other attribute.\<close>

lemma frame_fields:
  assumes h: "reset_properties False a = reset_properties False b"
  shows "f_prev (attrs a) = f_prev (attrs b)" "conv_tol (attrs a) = conv_tol (attrs b)"
    "func_tol (attrs a) = func_tol (attrs b)" "algorithm (attrs a) = algorithm (attrs b)"
    "curves (attrs a) = curves (attrs b)" "self_s (attrs a) = self_s (attrs b)"
    "max_iter (attrs a) = max_iter (attrs b)" "f_list (attrs a) = f_list (attrs b)"
    "lambd (attrs a) = lambd (attrs b)" "ad (attrs a) = ad (attrs b)"
    "weights (attrs a) = weights (attrs b)" "instruments (attrs a) = instruments (attrs b)"
    "grad_s_vT_method (attrs a) = grad_s_vT_method (attrs b)"
    "instrument_labels (attrs a) = instrument_labels (attrs b)"
    "pre_solvers a = pre_solvers b"
proof -
  have sel: "g (reset_properties False a) = g (reset_properties False b)" for g :: "solver \<Rightarrow> 'x"
    using h by simp
  show "f_prev (attrs a) = f_prev (attrs b)"
    using sel [of "\<lambda>s. f_prev (attrs s)"] by (simp add: reset_properties_def map_attrs_def)
  show "conv_tol (attrs a) = conv_tol (attrs b)"
    using sel [of "\<lambda>s. conv_tol (attrs s)"] by (simp add: reset_properties_def map_attrs_def)
  show "func_tol (attrs a) = func_tol (attrs b)"
    using sel [of "\<lambda>s. func_tol (attrs s)"] by (simp add: reset_properties_def map_attrs_def)
  show "algorithm (attrs a) = algorithm (attrs b)"
    using sel [of "\<lambda>s. algorithm (attrs s)"] by (simp add: reset_properties_def map_attrs_def)
  show "curves (attrs a) = curves (attrs b)"
    using sel [of "\<lambda>s. curves (attrs s)"] by (simp add: reset_properties_def map_attrs_def)
  show "self_s (attrs a) = self_s (attrs b)"
    using sel [of "\<lambda>s. self_s (attrs s)"] by (simp add: reset_properties_def map_attrs_def)
  show "max_iter (attrs a) = max_iter (attrs b)"
    using sel [of "\<lambda>s. max_iter (attrs s)"] by (simp add: reset_properties_def map_attrs_def)
  show "f_list (attrs a) = f_list (attrs b)"
    using sel [of "\<lambda>s. f_list (attrs s)"] by (simp add: reset_properties_def map_attrs_def)
  show "lambd (attrs a) = lambd (attrs b)"
    using sel [of "\<lambda>s. lambd (attrs s)"] by (simp add: reset_properties_def map_attrs_def)
  show "ad (attrs a) = ad (attrs b)"
    using sel [of "\<lambda>s. ad (attrs s)"] by (simp add: reset_properties_def map_attrs_def)
  show "weights (attrs a) = weights (attrs b)"
    using sel [of "\<lambda>s. weights (attrs s)"] by (simp add: reset_properties_def map_attrs_def)
  show "instruments (attrs a) = instruments (attrs b)"
    using sel [of "\<lambda>s. instruments (attrs s)"] by (simp add: reset_properties_def map_attrs_def)
  show "grad_s_vT_method (attrs a) = grad_s_vT_method (attrs b)"
    using sel [of "\<lambda>s. grad_s_vT_method (attrs s)"]
    by (simp add: reset_properties_def map_attrs_def)
  show "instrument_labels (attrs a) = instrument_labels (attrs b)"
    using sel [of "\<lambda>s. instrument_labels (attrs s)"]
    by (simp add: reset_properties_def map_attrs_def)
  show "pre_solvers a = pre_solvers b"
    using sel [of pre_solvers] by (simp add: reset_properties_def map_attrs_def)
qed

lemmas solver_v_fields [simp] = frame_fields [OF solver_v_frame]
lemmas solver_r_fields [simp] = frame_fields [OF solver_r_frame]
lemmas solver_x_fields [simp] = frame_fields [OF solver_x_frame]
lemmas solver_f_fields [simp] = frame_fields [OF solver_f_frame]
lemmas solver_J_fields [simp] = frame_fields [OF solver_J_frame]


subsection \<open>Keyword arguments of a parsed instrument\<close>

text \<open>
  C7. The claim: for every accepted specification, the keyword arguments of the parsed
  triple map \<open>solver\<close> to the owning solver and \<open>fx\<close> to the solver's FX object,
  whatever keyword arguments the caller supplied. The dictionary is built as
  \<open>{**ret2, **value[2]}\<close>, so an entry of the caller for \<open>solver\<close> or \<open>fx\<close>
  replaces the solver's: with the owning solver 0 and the caller's entry
  \<open>solver = 1\<close>, the parsed keyword arguments map \<open>solver\<close> to 1.
\<close>

theorem parse_instrument_solver_counterexample:
  "\<exists>r0 r1 kw. parse_instrument (0::nat) (None :: nat option)
      (Tuple [PyInstrument ''irs'', PyNone :: (string, nat, nat, nat, nat) pyobj,
              PyDict [''solver'' \<mapsto> SolverObj (1::nat)]])
        = Inr (r0, r1, kw)
     \<and> kw ''solver'' = Some (SolverObj 1) \<and> kw ''solver'' \<noteq> Some (SolverObj 0)"
  by (simp add: default_kwargs_def)

text \<open>
  C7, as amended. For every accepted specification, the keyword arguments of the parsed
  triple map \<open>solver\<close> to the owning solver and \<open>fx\<close> to the solver's FX object
  unless the caller's keyword arguments have an entry of that name, which is then kept.
\<close>

theorem parse_instrument_kwargs:
  assumes "parse_instrument self fx_obj spec = Inr (ret0, ret1, ret2)"
  shows "ret2 ''solver'' =
           (case supplied_kwargs spec ''solver'' of
              None \<Rightarrow> Some (SolverObj self) | Some v \<Rightarrow> Some v)
       \<and> ret2 ''fx'' =
           (case supplied_kwargs spec ''fx'' of
              None \<Rightarrow> Some (FxObj fx_obj) | Some v \<Rightarrow> Some v)"
proof (cases spec)
  case (Instrument i)
  with assms show ?thesis by (auto simp: default_kwargs_def)
next
  case (Tuple vs)
  with assms show ?thesis
    by (auto simp: default_kwargs_def Let_def map_add_def
             split: if_splits pyobj.splits option.splits)
qed

theorem parse_instrument_kwargs_witness:
  "parse_instrument (0::nat) (Some (7::nat))
      (Tuple [PyInstrument ''irs'', PyTuple [1::nat], PyDict [''other_arg'' \<mapsto> KwArg (10::nat)]])
     = Inr (PyInstrument ''irs'', PyTuple [1],
            [''solver'' \<mapsto> SolverObj 0, ''fx'' \<mapsto> FxObj (Some 7), ''other_arg'' \<mapsto> KwArg 10])
   \<and> ([''solver'' \<mapsto> SolverObj (0::nat), ''fx'' \<mapsto> FxObj (Some (7::nat)),
        ''other_arg'' \<mapsto> KwArg (10::nat)]) ''solver'' = Some (SolverObj 0)"
proof -
  have p: "parse_instrument (0::nat) (Some (7::nat))
      (Tuple [PyInstrument ''irs'', PyTuple [1::nat], PyDict [''other_arg'' \<mapsto> KwArg (10::nat)]])
     = Inr (PyInstrument ''irs'', PyTuple [1],
            [''solver'' \<mapsto> SolverObj 0, ''fx'' \<mapsto> FxObj (Some 7), ''other_arg'' \<mapsto> KwArg 10])"
    by (simp add: default_kwargs_def)
  from parse_instrument_kwargs [OF p] p show ?thesis by simp
qed

subsection \<open>What a cycle leaves unchanged\<close>

lemma variables_getters [simp]:
  "variables (snd (solver_v slv)) = variables slv"
  "variables (snd (solver_r env slv)) = variables slv"
  "variables (snd (solver_x env slv)) = variables slv"
  "variables (snd (solver_f env slv)) = variables slv"
  "variables (snd (solver_J env slv)) = variables slv"
  by (simp_all add: variables_def)

lemma pre_curves_frame:
  assumes "reset_properties False a = reset_properties False b"
  shows "pre_curves a = pre_curves b"
  using frame_fields(5,15) [OF assms] by (cases a; cases b) simp

lemma configuration_frame:
  assumes "reset_properties False a = reset_properties False b"
  shows "configuration a = configuration b"
proof -
  have "configuration s = map_attrs (\<lambda>rc. rc\<lparr>curves := [], f_prev := 0, f_list := [], lambd := 0\<rparr>) (reset_properties False s)" for s
    by (simp add: configuration_def reset_properties_def map_attrs_def)
  with assms show ?thesis by simp
qed

lemmas configuration_getters [simp] =
  configuration_frame [OF solver_v_frame] configuration_frame [OF solver_r_frame]
  configuration_frame [OF solver_x_frame] configuration_frame [OF solver_f_frame]
  configuration_frame [OF solver_J_frame]

lemma configuration_map [simp]:
  "configuration (map_attrs (\<lambda>rc. rc\<lparr>lambd := l rc\<rparr>) s) = configuration s"
  "configuration (map_attrs (\<lambda>rc. rc\<lparr>f_prev := p rc\<rparr>) s) = configuration s"
  "configuration (map_attrs (\<lambda>rc. rc\<lparr>f_list := q rc\<rparr>) s) = configuration s"
  "configuration (map_attrs (\<lambda>rc. rc\<lparr>curves := c rc\<rparr>) s) = configuration s"
  "configuration (reset_properties False s) = configuration s"
  by (simp_all add: configuration_def reset_properties_def map_attrs_def)

lemma update_step_configuration [simp]:
  "configuration (snd (update_step env algo slv)) = configuration slv"
  by (simp add: update_step_def Let_def case_prod_beta split: option.splits)

lemma update_step_curves [simp]:
  "curves (attrs (snd (update_step env algo slv))) = curves (attrs slv)"
  by (simp add: update_step_def Let_def case_prod_beta map_attrs_def split: option.splits)

lemma record_objective_configuration [simp]:
  "configuration (snd (record_objective env slv)) = configuration slv"
  by (simp add: record_objective_def Let_def case_prod_beta)

lemma apply_step_configuration [simp]:
  "configuration (snd (apply_step env f_val slv)) = configuration slv"
  by (simp add: apply_step_def Let_def case_prod_beta split: sum.splits)

lemma iterate_cycle_configuration [simp]:
  "configuration (snd (iterate_cycle env i slv)) = configuration slv"
  by (simp add: iterate_cycle_def Let_def case_prod_beta)

lemma run_cycles_configuration:
  "run_cycles env k i slv = Some slv' \<Longrightarrow> configuration slv' = configuration slv"
proof (induction k arbitrary: i slv)
  case 0
  then show ?case by simp
next
  case (Suc k)
  obtain res s1 where c: "iterate_cycle env i slv = (res, s1)" by (cases "iterate_cycle env i slv")
  with Suc.prems have "res = Inr None" and r: "run_cycles env k (Suc i) s1 = Some slv'"
    by (auto split: sum.splits option.splits)
  from Suc.IH [OF r] have "configuration slv' = configuration s1" .
  moreover have "configuration s1 = configuration slv"
    using iterate_cycle_configuration [of env i slv] c by simp
  ultimately show ?case by simp
qed

lemma configuration_fields:
  assumes h: "configuration a = configuration b"
  shows "max_iter (attrs a) = max_iter (attrs b)" "self_s (attrs a) = self_s (attrs b)"
    "algorithm (attrs a) = algorithm (attrs b)" "func_tol (attrs a) = func_tol (attrs b)"
    "conv_tol (attrs a) = conv_tol (attrs b)" "ad (attrs a) = ad (attrs b)"
    "instruments (attrs a) = instruments (attrs b)"
    "grad_s_vT_method (attrs a) = grad_s_vT_method (attrs b)"
    "instrument_labels (attrs a) = instrument_labels (attrs b)"
    "pre_solvers a = pre_solvers b"
proof -
  have sel: "g (configuration a) = g (configuration b)" for g :: "solver \<Rightarrow> 'x"
    using h by simp
  show "max_iter (attrs a) = max_iter (attrs b)"
    using sel [of "\<lambda>s. max_iter (attrs s)"]
    by (simp add: configuration_def reset_properties_def map_attrs_def)
  show "self_s (attrs a) = self_s (attrs b)"
    using sel [of "\<lambda>s. self_s (attrs s)"]
    by (simp add: configuration_def reset_properties_def map_attrs_def)
  show "algorithm (attrs a) = algorithm (attrs b)"
    using sel [of "\<lambda>s. algorithm (attrs s)"]
    by (simp add: configuration_def reset_properties_def map_attrs_def)
  show "func_tol (attrs a) = func_tol (attrs b)"
    using sel [of "\<lambda>s. func_tol (attrs s)"]
    by (simp add: configuration_def reset_properties_def map_attrs_def)
  show "conv_tol (attrs a) = conv_tol (attrs b)"
    using sel [of "\<lambda>s. conv_tol (attrs s)"]
    by (simp add: configuration_def reset_properties_def map_attrs_def)
  show "ad (attrs a) = ad (attrs b)"
    using sel [of "\<lambda>s. ad (attrs s)"]
    by (simp add: configuration_def reset_properties_def map_attrs_def)
  show "instruments (attrs a) = instruments (attrs b)"
    using sel [of "\<lambda>s. instruments (attrs s)"]
    by (simp add: configuration_def reset_properties_def map_attrs_def)
  show "grad_s_vT_method (attrs a) = grad_s_vT_method (attrs b)"
    using sel [of "\<lambda>s. grad_s_vT_method (attrs s)"]
    by (simp add: configuration_def reset_properties_def map_attrs_def)
  show "instrument_labels (attrs a) = instrument_labels (attrs b)"
    using sel [of "\<lambda>s. instrument_labels (attrs s)"]
    by (simp add: configuration_def reset_properties_def map_attrs_def)
  show "pre_solvers a = pre_solvers b"
    using sel [of pre_solvers]
    by (simp add: configuration_def reset_properties_def map_attrs_def)
qed

lemma iterate_loop_run:
  "run_cycles env k i slv = Some slv' \<Longrightarrow> iterate_loop env k i slv = iterate_loop env 0 (i + k) slv'"
proof (induction k arbitrary: i slv)
  case 0
  then show ?case by simp
next
  case (Suc k)
  obtain res s1 where c: "iterate_cycle env i slv = (res, s1)" by (cases "iterate_cycle env i slv")
  with Suc.prems have res: "res = Inr None" and r: "run_cycles env k (Suc i) s1 = Some slv'"
    by (auto split: sum.splits option.splits)
  from Suc.IH [OF r] c res show ?case by simp
qed

subsection \<open>The cycles of the iteration\<close>

lemma length_update_nodes [simp]: "length (update_nodes v olds) = length olds"
  by (induction v olds rule: update_nodes.induct) simp_all

lemma update_nodes_values:
  "length olds \<le> length v \<Longrightarrow> map dreal (update_nodes v olds) = take (length olds) (map dreal v)"
  by (induction v olds rule: update_nodes.induct) (simp_all add: new_dual_def)

lemma controlled_nodes_Cons:
  "controlled_nodes (c # cs) = drop (ini_solve c) (nodes c) @ controlled_nodes cs"
  by (simp add: controlled_nodes_def)

lemma update_curves_values:
  "length (controlled_nodes cs) \<le> length v_1 \<Longrightarrow>
     map dreal (controlled_nodes (update_curves v_1 cs))
       = take (length (controlled_nodes cs)) (map dreal v_1)"
proof (induction cs arbitrary: v_1)
  case Nil
  then show ?case by (simp add: controlled_nodes_def)
next
  case (Cons c cs)
  let ?k = "length (nodes c) - ini_solve c"
  have len: "length (drop (ini_solve c) (nodes c)) = ?k" by simp
  from Cons.prems have l1: "?k \<le> length v_1"
    and l2: "length (controlled_nodes cs) \<le> length (drop ?k v_1)"
    by (simp_all add: controlled_nodes_Cons)
  have "map dreal (controlled_nodes (update_curves v_1 (c # cs)))
        = map dreal (update_nodes v_1 (drop (ini_solve c) (nodes c)))
          @ map dreal (controlled_nodes (update_curves (drop ?k v_1) cs))"
    by (cases "ini_solve c \<le> length (nodes c)") (simp_all add: controlled_nodes_Cons min_def)
  also have "\<dots> = take ?k (map dreal v_1)
                  @ take (length (controlled_nodes cs)) (map dreal (drop ?k v_1))"
    using update_nodes_values [of "drop (ini_solve c) (nodes c)" v_1] l1 Cons.IH [OF l2]
    by simp
  also have "\<dots> = take (?k + length (controlled_nodes cs)) (map dreal v_1)"
    by (simp add: take_add drop_map)
  finally show ?case by (simp add: controlled_nodes_Cons)
qed

lemma run_cycles_snoc:
  "run_cycles env (Suc k) i slv =
     (case run_cycles env k i slv of
        None \<Rightarrow> None
      | Some s1 \<Rightarrow>
          (case iterate_cycle env (i + k) s1 of (Inr None, s2) \<Rightarrow> Some s2 | _ \<Rightarrow> None))"
proof (induction k arbitrary: i slv)
  case 0
  show ?case by (simp split: prod.splits sum.splits option.splits)
next
  case (Suc k)
  show ?case
  proof (cases "iterate_cycle env i slv")
    case (Pair res s1)
    show ?thesis
    proof (cases "res = Inr None")
      case True
      with Pair Suc.IH [of "Suc i" s1] show ?thesis by (simp split: option.splits)
    next
      case False
      with Pair show ?thesis by (auto split: sum.splits option.splits)
    qed
  qed
qed

text \<open>The step of a cycle that ends with an applied step, and the nodes it leaves.\<close>

lemma iterate_cycle_step:
  assumes "iterate_cycle env i slv = (Inr None, slv')"
  shows "\<exists>v_1. fst (update_step env (algorithm (attrs slv))
                    (map_attrs (\<lambda>rc. rc\<lparr>f_prev := fst (record_objective env slv)\<rparr>)
                       (snd (record_objective env slv)))) = Inr v_1
             \<and> curves (attrs slv') = update_curves v_1 (curves (attrs slv))
             \<and> length (controlled_nodes (curves (attrs slv))) \<le> length v_1"
proof -
  let ?ro = "record_objective env slv"
  let ?s1 = "map_attrs (\<lambda>rc. rc\<lparr>f_prev := fst ?ro\<rparr>) (snd ?ro)"
  have alg: "algorithm (attrs ?s1) = algorithm (attrs slv)"
    by (simp add: record_objective_def Let_def case_prod_beta map_attrs_def)
  have cur: "curves (attrs ?s1) = curves (attrs slv)"
    by (simp add: record_objective_def Let_def case_prod_beta map_attrs_def)
  from assms have ap: "apply_step env (fst ?ro) (snd ?ro) = (Inr None, slv')"
    by (simp add: iterate_cycle_def Let_def case_prod_beta split: if_splits)
  obtain res su where us: "update_step env (algorithm (attrs ?s1)) ?s1 = (res, su)"
    by (cases "update_step env (algorithm (attrs ?s1)) ?s1")
  have cu: "curves (attrs su) = curves (attrs slv)"
    using update_step_curves [of env "algorithm (attrs ?s1)" ?s1] us cur by simp
  from ap us obtain v_1 where r: "res = Inr v_1"
    by (cases res) (simp_all add: apply_step_def Let_def)
  from ap us r cu have "\<not> length v_1 < length (controlled_nodes (curves (attrs slv)))"
    and "slv' = reset_properties False
                  (map_attrs (\<lambda>rc. rc\<lparr>curves := update_curves v_1 (curves rc)\<rparr>) su)"
    by (simp_all add: apply_step_def Let_def split: if_splits)
  then have "curves (attrs slv') = update_curves v_1 (curves (attrs slv))"
    and "length (controlled_nodes (curves (attrs slv))) \<le> length v_1"
    using cu by (simp_all add: reset_properties_def map_attrs_def)
  with us r alg show ?thesis by auto
qed

text \<open>Unfolding the definitions evaluates the model at a concrete solver.\<close>

lemmas example_defs =
  example_solver_def example_attrs_def example_curve_def env_1x1_def last_node_rate_def
  solve_1x1_def pinv_1x1_def dual_solve_1x1_def

lemmas dual_defs =
  dual_dot_def weighted_def dual_sub_def dual_add_def dual_neg_def dual_mul_def
  float_dual_def new_dual_def union_vars_def gradient_def

lemmas array_defs =
  gradients_T_def normal_matrix_def np_matmul_def np_transpose_def np_diag_def mat_add_def
  mat_scale_def np_eye_def minus_half_grad_def column_def column0_def np_add_def
  np_add_duals_def real_dot_def

lemmas solver_defs =
  reset_properties_def map_attrs_def solver_f_def solver_x_def solver_r_def solver_J_def
  solver_v_def price_all_def variables_def curve_variables_def controlled_nodes_def
  solver_W_def solver_n_def solver_m_def string_of_nat.simps

lemmas iterate_defs =
  iterate_def iterate_start_def iterate_cycle_def record_objective_def apply_step_def
  update_step_def Let_def eval_nat_numeral

subsection \<open>The convergence tests of a cycle\<close>

text \<open>
  C1. The claim: a cycle ends in the function-value state if the objective is below
  \<open>func_tol\<close>, in the tolerance state if the decrease from the previous objective is
  positive and below \<open>conv_tol\<close>, and otherwise computes and applies a step; in
  particular an objective below \<open>func_tol\<close> is reported as function-value convergence.
  The source tests the tolerance condition first and \<open>func_tol\<close> only in the
  \<open>elif\<close>. With \<open>func_tol = conv_tol = 1\<close> the Levenberg-Marquardt iteration of the
  one-node calibration takes one step, from the objective 1 to \<open>(250/251)\<^sup>2\<close>, which is
  below \<open>func_tol\<close>; the second cycle reports the tolerance outcome.
\<close>

theorem iterate_conv_tol_first_counterexample:
  "fst (iterate env_1x1 (example_solver ''levenberg_marquardt'' 1 1 5))
     = Inr (SUCCESS_conv_tol 1 ((250 / 251)\<^sup>2))
   \<and> (250 / 251)\<^sup>2 < func_tol (attrs (example_solver ''levenberg_marquardt'' 1 1 5))"
  by (simp add: example_defs dual_defs array_defs solver_defs iterate_defs power2_eq_square)

text \<open>
  C1, as amended. In every cycle, with the objective value \<open>f_val\<close>: if \<open>f_val\<close> is
  below \<open>f_prev\<close> and the decrease is below \<open>conv_tol\<close>, the cycle ends in the
  tolerance state; otherwise, if \<open>f_val\<close> is below \<open>func_tol\<close>, it ends in the
  function-value state; otherwise it computes and applies a step, which never ends in a
  convergence message.
\<close>

theorem iterate_cycle_outcome:
  "fst (iterate_cycle env i slv) =
     (let f_val = dreal (fst (solver_f env slv))
      in if f_val < f_prev (attrs slv) \<and> f_prev (attrs slv) - f_val < conv_tol (attrs slv)
         then Inr (Some (SUCCESS_conv_tol i f_val))
         else if f_val < func_tol (attrs slv)
         then Inr (Some (SUCCESS_func_tol i f_val))
         else fst (apply_step env f_val (snd (record_objective env slv))))
   \<and> (\<forall>f_val s msg. fst (apply_step env f_val s) \<noteq> Inr (Some msg))"
proof
  show "fst (iterate_cycle env i slv) =
     (let f_val = dreal (fst (solver_f env slv))
      in if f_val < f_prev (attrs slv) \<and> f_prev (attrs slv) - f_val < conv_tol (attrs slv)
         then Inr (Some (SUCCESS_conv_tol i f_val))
         else if f_val < func_tol (attrs slv)
         then Inr (Some (SUCCESS_func_tol i f_val))
         else fst (apply_step env f_val (snd (record_objective env slv))))"
    by (simp add: iterate_cycle_def record_objective_def Let_def map_attrs_def case_prod_beta)
  show "\<forall>f_val s msg. fst (apply_step env f_val s) \<noteq> Inr (Some msg)"
    by (simp add: apply_step_def Let_def case_prod_beta split: sum.splits)
qed

subsection \<open>The iteration budget\<close>

text \<open>
  C8. When each of the \<open>max_iter\<close> cycles applies a step (no convergence condition is
  met and nothing is raised), \<open>iterate\<close> returns normally, with the failure message,
  and leaves the curves as the last cycle wrote them: the controlled nodes hold the real
  parts of the vector that the last call of \<open>_update_step_\<close> returned.
\<close>

theorem iterate_max_iter_exhausted:
  assumes "run_cycles env (max_iter (attrs slv)) 0 (iterate_start slv) = Some slv'"
  shows "fst (iterate env slv)
           = Inr (FAILURE_max_iter (max_iter (attrs slv)) (dreal (fst (solver_f env slv'))))
       \<and> curves (attrs (snd (iterate env slv))) = curves (attrs slv')
       \<and> (case max_iter (attrs slv) of
            0 \<Rightarrow> curves (attrs slv') = curves (attrs slv)
          | Suc k \<Rightarrow>
              (\<exists>slv_k v_1.
                 run_cycles env k 0 (iterate_start slv) = Some slv_k
               \<and> fst (update_step env (algorithm (attrs slv_k))
                        (map_attrs (\<lambda>rc. rc\<lparr>f_prev := fst (record_objective env slv_k)\<rparr>)
                           (snd (record_objective env slv_k)))) = Inr v_1
               \<and> curves (attrs slv') = update_curves v_1 (curves (attrs slv_k))
               \<and> map dreal (controlled_nodes (curves (attrs slv')))
                   = take (length (controlled_nodes (curves (attrs slv_k)))) (map dreal v_1)))"
proof -
  have mi: "max_iter (attrs (iterate_start slv)) = max_iter (attrs slv)"
    by (simp add: iterate_start_def reset_properties_def map_attrs_def)
  have cs: "curves (attrs (iterate_start slv)) = curves (attrs slv)"
    by (simp add: iterate_start_def reset_properties_def map_attrs_def)
  have mi': "max_iter (attrs slv') = max_iter (attrs slv)"
    using configuration_fields(1) [OF run_cycles_configuration [OF assms]] mi by simp
  have it: "iterate env slv = iterate_loop env 0 (0 + max_iter (attrs slv)) slv'"
    using iterate_loop_run [OF assms] by (simp add: iterate_def)
  have a: "fst (iterate env slv)
             = Inr (FAILURE_max_iter (max_iter (attrs slv)) (dreal (fst (solver_f env slv'))))"
    using it mi' by (simp add: case_prod_beta Let_def)
  have b: "curves (attrs (snd (iterate env slv))) = curves (attrs slv')"
    using it by (simp add: case_prod_beta Let_def)
  have c: "(case max_iter (attrs slv) of
            0 \<Rightarrow> curves (attrs slv') = curves (attrs slv)
          | Suc k \<Rightarrow>
              (\<exists>slv_k v_1.
                 run_cycles env k 0 (iterate_start slv) = Some slv_k
               \<and> fst (update_step env (algorithm (attrs slv_k))
                        (map_attrs (\<lambda>rc. rc\<lparr>f_prev := fst (record_objective env slv_k)\<rparr>)
                           (snd (record_objective env slv_k)))) = Inr v_1
               \<and> curves (attrs slv') = update_curves v_1 (curves (attrs slv_k))
               \<and> map dreal (controlled_nodes (curves (attrs slv')))
                   = take (length (controlled_nodes (curves (attrs slv_k)))) (map dreal v_1)))"
  proof (cases "max_iter (attrs slv)")
    case 0
    with assms cs show ?thesis by simp
  next
    case (Suc k)
    with assms have r: "run_cycles env (Suc k) 0 (iterate_start slv) = Some slv'" by simp
    then obtain slv_k where rk: "run_cycles env k 0 (iterate_start slv) = Some slv_k"
      and cy: "iterate_cycle env (0 + k) slv_k = (Inr None, slv')"
      unfolding run_cycles_snoc [of env k 0 "iterate_start slv"]
      by (auto split: option.splits prod.splits sum.splits)
    from iterate_cycle_step [OF cy] obtain v_1 where
      st: "fst (update_step env (algorithm (attrs slv_k))
                 (map_attrs (\<lambda>rc. rc\<lparr>f_prev := fst (record_objective env slv_k)\<rparr>)
                    (snd (record_objective env slv_k)))) = Inr v_1"
      and cu: "curves (attrs slv') = update_curves v_1 (curves (attrs slv_k))"
      and le: "length (controlled_nodes (curves (attrs slv_k))) \<le> length v_1"
      by blast
    from update_curves_values [OF le] cu
    have "map dreal (controlled_nodes (curves (attrs slv')))
            = take (length (controlled_nodes (curves (attrs slv_k)))) (map dreal v_1)"
      by simp
    with Suc rk st cu show ?thesis by auto
  qed
  from a b c show ?thesis by blast
qed
theorem iterate_max_iter_exhausted_witness:
  "\<exists>slv'. run_cycles env_1x1
             (max_iter (attrs (example_solver ''levenberg_marquardt'' (1 / 10 ^ 11) (1 / 10 ^ 14) 1)))
             0 (iterate_start (example_solver ''levenberg_marquardt'' (1 / 10 ^ 11) (1 / 10 ^ 14) 1))
             = Some slv'
         \<and> fst (iterate env_1x1 (example_solver ''levenberg_marquardt'' (1 / 10 ^ 11) (1 / 10 ^ 14) 1))
             = Inr (FAILURE_max_iter 1 (dreal (fst (solver_f env_1x1 slv'))))
         \<and> map dreal (controlled_nodes (curves (attrs slv'))) = [250 / 251]"
proof -
  let ?ex = "example_solver ''levenberg_marquardt'' (1 / 10 ^ 11) (1 / 10 ^ 14) 1"
  have "run_cycles env_1x1 (max_iter (attrs ?ex)) 0 (iterate_start ?ex) \<noteq> None"
    by (simp add: example_defs dual_defs array_defs solver_defs iterate_defs)
  then obtain slv' where
    r: "run_cycles env_1x1 (max_iter (attrs ?ex)) 0 (iterate_start ?ex) = Some slv'"
    by auto
  have m: "max_iter (attrs ?ex) = 1" by (simp add: example_defs)
  have v: "map dreal (controlled_nodes (curves (attrs slv'))) = [250 / 251]"
    using r by (auto simp add: example_defs dual_defs array_defs solver_defs iterate_defs)
  from iterate_max_iter_exhausted [OF r] r m v show ?thesis by simp
qed

subsection \<open>The values of the properties along a step\<close>

lemma price_all_map_attrs:
  "curves (g (attrs slv)) = curves (attrs slv) \<Longrightarrow> instruments (g (attrs slv)) = instruments (attrs slv)
    \<Longrightarrow> price_all env (map_attrs g slv) = price_all env slv"
  by (cases slv) (simp add: price_all_def map_attrs_def)

lemma variables_map_attrs:
  "curves (g (attrs slv)) = curves (attrs slv) \<Longrightarrow> variables (map_attrs g slv) = variables slv"
  by (simp add: variables_def map_attrs_def)

lemma solver_J_after_f [simp]:
  "fst (solver_J env (snd (solver_f env slv))) = fst (solver_J env slv)"
  by (cases slv)
     (simp add: solver_J_def solver_f_def solver_x_def solver_r_def Let_def case_prod_beta
                price_all_def variables_def map_attrs_def split: option.splits)

lemma solver_x_after_J [simp]:
  "fst (solver_x env (snd (solver_J env slv))) = fst (solver_x env slv)"
  by (cases slv)
     (simp add: solver_J_def solver_f_def solver_x_def solver_r_def Let_def case_prod_beta
                price_all_def variables_def map_attrs_def split: option.splits)

lemma solver_f_after_J [simp]:
  "fst (solver_f env (snd (solver_J env slv))) = fst (solver_f env slv)"
  by (cases slv)
     (simp add: solver_J_def solver_f_def solver_x_def solver_r_def Let_def case_prod_beta
                price_all_def variables_def map_attrs_def split: option.splits)

lemma solver_J_lambd [simp]:
  "fst (solver_J env (map_attrs (\<lambda>rc. rc\<lparr>lambd := l rc\<rparr>) slv)) = fst (solver_J env slv)"
  by (cases slv)
     (simp add: solver_J_def solver_r_def Let_def case_prod_beta
                price_all_def variables_def map_attrs_def split: option.splits)

lemma cache_v_getters [simp]:
  "cache_v (attrs (snd (solver_r env slv))) = cache_v (attrs slv)"
  "cache_v (attrs (snd (solver_x env slv))) = cache_v (attrs slv)"
  "cache_v (attrs (snd (solver_f env slv))) = cache_v (attrs slv)"
  "cache_v (attrs (snd (solver_J env slv))) = cache_v (attrs slv)"
  by (simp_all add: solver_J_def solver_f_def solver_x_def solver_r_def Let_def case_prod_beta
                map_attrs_def split: option.splits)

lemma solver_v_cong:
  "cache_v (attrs a) = cache_v (attrs b) \<Longrightarrow> curves (attrs a) = curves (attrs b)
     \<Longrightarrow> fst (solver_v a) = fst (solver_v b)"
  by (simp add: solver_v_def Let_def split: option.splits)

lemma solver_W_frame:
  "weights (attrs a) = weights (attrs b) \<Longrightarrow> solver_W a = solver_W b"
  by (simp add: solver_W_def)

lemma solver_n_frame:
  "curves (attrs a) = curves (attrs b) \<Longrightarrow> solver_n a = solver_n b"
  by (simp add: solver_n_def variables_def)

lemma variables_frame:
  "curves (attrs a) = curves (attrs b) \<Longrightarrow> variables a = variables b"
  by (simp add: variables_def)

lemma solver_J_shape:
  assumes "cached_shapes slv"
  shows "nrows (fst (solver_J env slv)) = solver_n slv \<and> ncols (fst (solver_J env slv)) = solver_m slv"
  using assms
  by (cases slv)
     (auto simp add: cached_shapes_def solver_J_def solver_r_def Let_def case_prod_beta
           gradients_T_def price_all_def solver_n_def solver_m_def variables_def map_attrs_def
           split: option.splits)

subsection \<open>The Gauss-Newton and the Levenberg-Marquardt step\<close>

text \<open>The solver of one equation returns a solution.\<close>

lemma solve_1x1_sound:
  assumes "linalg_solve env_1x1 A B = Some X"
  shows "mat_eq (np_matmul A X) B"
proof -
  from assms have a: "nrows A = 1" "ncols A = 1" "nrows B = 1" "ent A 0 0 \<noteq> 0"
    and x: "X = Mat 1 (ncols B) (\<lambda>i j. ent B 0 j / ent A 0 0)"
    by (auto simp add: env_1x1_def solve_1x1_def split: if_splits)
  show ?thesis
    using a by (simp add: x mat_eq_def np_matmul_def list_all_iff)
qed

text \<open>
  C4. A Gauss-Newton step that returns \<open>v_1\<close> has passed to \<open>np.linalg.solve\<close> the
  system \<open>J\<^sup>T \<delta> = -x\<close> when the numbers of instruments and of variables agree, and
  the normal equations \<open>(J W J\<^sup>T) \<delta> = -\<onehalf> \<nabla>f\<close> otherwise; the solver's answer
  solves that system, provided the library routine is sound, and \<open>v_1 = v + \<delta>\<close>.
\<close>

theorem gauss_newton_step:
  assumes step: "fst (update_step env ''gauss_newton'' slv) = Inr v_1"
    and shapes: "cached_shapes slv"
    and sound: "\<And>A B X. linalg_solve env A B = Some X \<Longrightarrow> mat_eq (np_matmul A X) B"
  shows "let J = fst (solver_J env slv);
             A = (if solver_m slv = solver_n slv then np_transpose J
                  else normal_matrix J (solver_W slv));
             b = (if solver_m slv = solver_n slv
                  then column (map (\<lambda>xi. - dreal xi) (fst (solver_x env slv)))
                  else minus_half_grad (fst (solver_f env slv)) (variables slv))
         in \<exists>X. linalg_solve env A b = Some X
              \<and> mat_eq (np_matmul A X) b
              \<and> np_add (fst (solver_v slv)) (column0 X) = Inr v_1"
proof -
  let ?J = "fst (solver_J env slv)"
  let ?s1 = "snd (solver_J env slv)"
  have sh: "nrows ?J = solver_n slv" "ncols ?J = solver_m slv"
    using solver_J_shape [OF shapes] by simp_all
  have m1: "solver_m ?s1 = solver_m slv" by (simp add: solver_m_def)
  have sq: "(nrows ?J = ncols ?J) = (solver_m slv = solver_n slv)"
    using sh by auto
  have c2: "curves (attrs (snd (solver_x env ?s1))) = curves (attrs slv)"
           "curves (attrs (snd (solver_f env ?s1))) = curves (attrs slv)" by simp_all
  have w2: "weights (attrs (snd (solver_f env ?s1))) = weights (attrs slv)" by simp
  have cv2: "cache_v (attrs (snd (solver_x env ?s1))) = cache_v (attrs slv)"
            "cache_v (attrs (snd (solver_f env ?s1))) = cache_v (attrs slv)" by simp_all
  have v2: "fst (solver_v (snd (solver_x env ?s1))) = fst (solver_v slv)"
           "fst (solver_v (snd (solver_f env ?s1))) = fst (solver_v slv)"
    by (rule solver_v_cong [OF cv2(1) c2(1)], rule solver_v_cong [OF cv2(2) c2(2)])
  show ?thesis
  proof (cases "solver_m slv = solver_n slv")
    case True
    with step sq m1 v2 sound show ?thesis
      by (auto simp add: update_step_def Let_def case_prod_beta split: option.splits if_splits)
  next
    case False
    with step sq m1 v2 solver_W_frame [OF w2] variables_frame [OF c2(2)] sound show ?thesis
      by (auto simp add: update_step_def Let_def case_prod_beta split: option.splits if_splits)
  qed
qed

theorem gauss_newton_step_witness:
  "(\<exists>X. linalg_solve env_1x1
           (np_transpose (fst (solver_J env_1x1 (iterate_start (example_solver ''gauss_newton'' 0 0 1)))))
           (column (map (\<lambda>xi. - dreal xi)
              (fst (solver_x env_1x1 (iterate_start (example_solver ''gauss_newton'' 0 0 1)))))) = Some X
        \<and> column0 X = [- 1])
   \<and> map dreal (projr (fst (update_step env_1x1 ''gauss_newton''
                               (iterate_start (example_solver ''gauss_newton'' 0 0 1))))) = [0]
   \<and> (\<exists>X. linalg_solve env_1x1
           (normal_matrix (fst (solver_J env_1x1 (example_solver_2x1 ''gauss_newton'')))
              (solver_W (example_solver_2x1 ''gauss_newton'')))
           (minus_half_grad (fst (solver_f env_1x1 (example_solver_2x1 ''gauss_newton'')))
              (variables (example_solver_2x1 ''gauss_newton''))) = Some X
        \<and> column0 X = [- 1])
   \<and> map dreal (projr (fst (update_step env_1x1 ''gauss_newton''
                               (example_solver_2x1 ''gauss_newton'')))) = [0]"
proof -
  let ?sq = "iterate_start (example_solver ''gauss_newton'' 0 0 1)"
  let ?ns = "example_solver_2x1 ''gauss_newton''"
  have s1: "fst (update_step env_1x1 ''gauss_newton'' ?sq) = Inr [Dual 0 [''c1''] (\<lambda>t. if t = ''c1'' then 1 else 0) (\<lambda>t u. 0)]"
    by (simp add: example_defs dual_defs array_defs solver_defs iterate_defs)
  have c1: "cached_shapes ?sq"
    by (simp add: cached_shapes_def example_defs solver_defs iterate_defs)
  have s2: "fst (update_step env_1x1 ''gauss_newton'' ?ns) = Inr [Dual 0 [''c1''] (\<lambda>t. if t = ''c1'' then 1 else 0) (\<lambda>t u. 0)]"
    by (simp add: example_solver_2x1_def example_defs dual_defs array_defs solver_defs iterate_defs)
  have c2: "cached_shapes ?ns"
    by (simp add: cached_shapes_def example_solver_2x1_def example_defs solver_defs iterate_defs)
  have m1: "solver_m ?sq = solver_n ?sq"
    by (simp add: example_defs solver_defs iterate_defs)
  have m2: "solver_m ?ns \<noteq> solver_n ?ns"
    by (simp add: example_solver_2x1_def example_defs solver_defs iterate_defs)
  from gauss_newton_step [OF s1 c1 solve_1x1_sound] m1
  obtain X1 where x1: "linalg_solve env_1x1 (np_transpose (fst (solver_J env_1x1 ?sq)))
           (column (map (\<lambda>xi. - dreal xi) (fst (solver_x env_1x1 ?sq)))) = Some X1"
    by (auto simp add: Let_def)
  from gauss_newton_step [OF s2 c2 solve_1x1_sound] m2
  obtain X2 where x2: "linalg_solve env_1x1
           (normal_matrix (fst (solver_J env_1x1 ?ns)) (solver_W ?ns))
           (minus_half_grad (fst (solver_f env_1x1 ?ns)) (variables ?ns)) = Some X2"
    by (auto simp add: Let_def)
  have v1: "column0 X1 = [- 1]"
    using x1 by (auto simp add: example_defs dual_defs array_defs solver_defs iterate_defs)
  have v2: "column0 X2 = [- 1]"
    using x2
    by (auto simp add: example_solver_2x1_def example_defs dual_defs array_defs solver_defs
                  iterate_defs)
  from x1 v1 x2 v2 s1 s2 show ?thesis by simp
qed

subsection \<open>Cached values that are current\<close>

lemma pre_curves_set_ad_order [simp]: "pre_curves (set_ad_order k slv) = pre_curves slv"
  by (induction slv) (simp add: map_idI cong: map_cong)

lemma set_ad_order_twice [simp]: "set_ad_order k (set_ad_order l slv) = set_ad_order k slv"
  by (induction slv) simp

lemma attrs_set_ad_order: "attrs (set_ad_order k slv) = (attrs slv)\<lparr>ad := k\<rparr>"
  by (cases slv) simp

lemma price_all_frame:
  assumes "reset_properties False a = reset_properties False b"
  shows "price_all env a = price_all env b"
  using pre_curves_frame [OF assms] frame_fields(12) [OF assms] by (simp add: price_all_def)

lemma caches_current_reset [simp]: "caches_current env (reset_properties False slv)"
  by (simp add: caches_current_def reset_properties_def map_attrs_def)

lemma caches_current_getters [simp]:
  "caches_current env slv \<Longrightarrow> caches_current env (snd (solver_v slv))"
  "caches_current env slv \<Longrightarrow> caches_current env (snd (solver_r env slv))"
  "caches_current env slv \<Longrightarrow> caches_current env (snd (solver_x env slv))"
  "caches_current env slv \<Longrightarrow> caches_current env (snd (solver_f env slv))"
  "caches_current env slv \<Longrightarrow> caches_current env (snd (solver_J env slv))"
  by (cases slv;
      simp add: caches_current_def errors_of_def objective_of_def solver_v_def solver_r_def
                solver_x_def solver_f_def solver_J_def Let_def case_prod_beta price_all_def
                map_attrs_def split: option.splits)+

lemma caches_current_lambd [simp]:
  "caches_current env (map_attrs (\<lambda>rc. rc\<lparr>lambd := l rc\<rparr>) slv) = caches_current env slv"
  by (cases slv)
     (simp add: caches_current_def errors_of_def objective_of_def price_all_def map_attrs_def
           split: option.splits)

lemma caches_current_update_step:
  "caches_current env slv \<Longrightarrow> caches_current env (snd (update_step env algo slv))"
  by (simp add: update_step_def Let_def case_prod_beta split: option.splits)

subsection \<open>Real parts\<close>

lemma dreal_tag_targets: "map dreal (tag_targets s) = map dreal s"
proof -
  have "map dreal (tag_targets s) = map dreal (map snd (enumerate 0 s))"
    unfolding tag_targets_def map_map by (rule map_cong) (auto simp: new_dual_def)
  then show ?thesis by simp
qed

lemma dreal_dual_sub [simp]: "dreal (dual_sub a b) = dreal a - dreal b"
  by (simp add: dual_sub_def dual_add_def dual_neg_def)

lemma dreal_dual_mul [simp]: "dreal (dual_mul a b) = dreal a * dreal b"
  by (simp add: dual_mul_def)

lemma dreal_errors:
  "map dreal (map2 dual_sub r s) = map2 (-) (map dreal r) (map dreal s)"
  by (induction r arbitrary: s) (auto split: list.splits simp: zip_Cons1)

lemma dreal_foldl_add:
  "dreal (foldl dual_add acc xs) = dreal acc + sum_list (map dreal xs)"
  by (induction xs arbitrary: acc) (simp_all add: dual_add_def)

lemma dreal_weighted:
  "map dreal (weighted w x) = map2 (*) w (map dreal x)"
  by (induction w arbitrary: x) (auto simp: weighted_def float_dual_def split: list.splits simp: zip_Cons1)

lemma dreal_dual_dot:
  "dreal (dual_dot xs ys) = sum_list (map2 (*) (map dreal xs) (map dreal ys))"
proof -
  have "map dreal (map2 dual_mul xs ys) = map2 (*) (map dreal xs) (map dreal ys)"
    by (induction xs arbitrary: ys) (auto split: list.splits simp: zip_Cons1)
  then show ?thesis by (simp add: dual_dot_def dreal_foldl_add float_dual_def)
qed

lemma dreal_objective:
  "map dreal a = map dreal b \<Longrightarrow>
     dreal (dual_dot a (weighted w a)) = dreal (dual_dot b (weighted w b))"
  by (simp add: dreal_dual_dot dreal_weighted)

subsection \<open>The strategies for the first-order sensitivity\<close>

lemma observed_after_retag:
  assumes cur: "caches_current env slv2"
    and re: "map dreal (self_s (attrs slv2)) = map dreal s_old"
  shows "fst (solver_r env (map_attrs (\<lambda>rc. rc\<lparr>self_s := s_old\<rparr>) slv2)) = price_all env slv2"
    and "map dreal (fst (solver_x env (map_attrs (\<lambda>rc. rc\<lparr>self_s := s_old\<rparr>) slv2)))
           = map dreal (map2 dual_sub (price_all env slv2) s_old)"
    and "dreal (fst (solver_f env (map_attrs (\<lambda>rc. rc\<lparr>self_s := s_old\<rparr>) slv2)))
           = dreal (dual_dot (map2 dual_sub (price_all env slv2) s_old)
                      (weighted (weights (attrs slv2)) (map2 dual_sub (price_all env slv2) s_old)))"
proof -
  let ?s' = "map_attrs (\<lambda>rc. rc\<lparr>self_s := s_old\<rparr>) slv2"
  let ?P = "price_all env slv2"
  have p: "price_all env ?s' = ?P"
    by (cases slv2) (simp add: price_all_def map_attrs_def)
  show r: "fst (solver_r env ?s') = ?P"
    using cur p
    by (cases slv2)
       (auto simp add: caches_current_def solver_r_def map_attrs_def Let_def split: option.splits)
  have xt: "map dreal (errors_of env slv2) = map dreal (map2 dual_sub ?P s_old)"
    by (simp only: errors_of_def dreal_errors re)
  have sx: "fst (solver_x env ?s') =
             (case cache_x (attrs slv2) of Some x \<Rightarrow> x | None \<Rightarrow> map2 dual_sub ?P s_old)"
    using r by (simp add: solver_x_def Let_def case_prod_beta map_attrs_def split: option.splits)
  show x: "map dreal (fst (solver_x env ?s')) = map dreal (map2 dual_sub ?P s_old)"
    using cur xt by (auto simp add: sx caches_current_def split: option.splits)
  have sf: "fst (solver_f env ?s') =
             (case cache_f (attrs slv2) of
                Some f \<Rightarrow> f
              | None \<Rightarrow> dual_dot (fst (solver_x env ?s'))
                          (weighted (weights (attrs slv2)) (fst (solver_x env ?s'))))"
    by (simp add: solver_f_def Let_def case_prod_beta map_attrs_def split: option.splits)
  show "dreal (fst (solver_f env ?s'))
           = dreal (dual_dot (map2 dual_sub ?P s_old)
                      (weighted (weights (attrs slv2)) (map2 dual_sub ?P s_old)))"
  proof (cases "cache_f (attrs slv2)")
    case None
    then show ?thesis using dreal_objective [OF x] by (simp add: sf)
  next
    case (Some f)
    with cur have "f = objective_of env slv2" by (simp add: caches_current_def)
    then show ?thesis using Some dreal_objective [OF xt] by (simp add: sf objective_of_def)
  qed
qed

lemma price_all_eq:
  "curves (attrs a) = curves (attrs b) \<Longrightarrow> pre_solvers a = pre_solvers b
     \<Longrightarrow> instruments (attrs a) = instruments (attrs b) \<Longrightarrow> price_all env a = price_all env b"
  by (cases a; cases b) (simp add: price_all_def)

lemma dual_strategy_return:
  assumes ret: "fst (grad_s_vT_final_iteration_dual env algo slv) = Inr g"
  shows "self_s (attrs (snd (grad_s_vT_final_iteration_dual env algo slv))) = self_s (attrs slv)"
    and "ad (attrs (snd (grad_s_vT_final_iteration_dual env algo slv))) = ad (attrs slv)"
    and "fst (solver_r env (snd (grad_s_vT_final_iteration_dual env algo slv))) = price_all env slv"
    and "map dreal (fst (solver_x env (snd (grad_s_vT_final_iteration_dual env algo slv))))
           = map dreal (errors_of env slv)"
    and "dreal (fst (solver_f env (snd (grad_s_vT_final_iteration_dual env algo slv))))
           = dreal (objective_of env slv)"
proof -
  let ?a = "case algo of
              None \<Rightarrow> grad_s_vT_final_iteration_algo (attrs slv)
            | Some a \<Rightarrow> if a = [] then grad_s_vT_final_iteration_algo (attrs slv) else a"
  let ?s1 = "reset_properties False
               (map_attrs (\<lambda>rc. rc\<lparr>self_s := tag_targets (self_s rc)\<rparr>) slv)"
  let ?s2 = "snd (update_step env ?a ?s1)"
  let ?s' = "map_attrs (\<lambda>rc. rc\<lparr>self_s := self_s (attrs slv)\<rparr>) ?s2"
  from ret have fin: "snd (grad_s_vT_final_iteration_dual env algo slv) = ?s'"
    by (simp add: grad_s_vT_final_iteration_dual_def Let_def case_prod_beta
             split: sum.splits prod.splits)
  have cur: "caches_current env ?s2" by (rule caches_current_update_step) simp
  have cf: "configuration ?s2 = configuration ?s1" by simp
  have s1: "self_s (attrs ?s1) = tag_targets (self_s (attrs slv))"
       "ad (attrs ?s1) = ad (attrs slv)" "curves (attrs ?s1) = curves (attrs slv)"
       "pre_solvers ?s1 = pre_solvers slv" "instruments (attrs ?s1) = instruments (attrs slv)"
       "weights (attrs ?s1) = weights (attrs slv)"
    by (simp_all add: reset_properties_def map_attrs_def)
  have s2: "self_s (attrs ?s2) = tag_targets (self_s (attrs slv))"
       "ad (attrs ?s2) = ad (attrs slv)" "pre_solvers ?s2 = pre_solvers slv"
       "instruments (attrs ?s2) = instruments (attrs slv)"
    using configuration_fields [OF cf] s1 by simp_all
  have c2: "curves (attrs ?s2) = curves (attrs slv)" using s1 by simp
  have w2: "weights (attrs ?s2) = weights (attrs slv)"
  proof -
    have "g (configuration ?s2) = g (configuration ?s1)" for g :: "solver \<Rightarrow> real list"
      using cf by simp
    from this [of "\<lambda>s. weights (attrs s)"] s1 show ?thesis
      by (simp add: configuration_def reset_properties_def map_attrs_def)
  qed
  have p2: "price_all env ?s2 = price_all env slv"
    by (rule price_all_eq [OF c2 s2(3) s2(4)])
  have re: "map dreal (self_s (attrs ?s2)) = map dreal (self_s (attrs slv))"
    by (simp add: s2 dreal_tag_targets)
  note obs = observed_after_retag [OF cur re]
  show "self_s (attrs (snd (grad_s_vT_final_iteration_dual env algo slv))) = self_s (attrs slv)"
    by (simp add: fin map_attrs_def)
  show "ad (attrs (snd (grad_s_vT_final_iteration_dual env algo slv))) = ad (attrs slv)"
    using s2 by (simp add: fin map_attrs_def)
  show "fst (solver_r env (snd (grad_s_vT_final_iteration_dual env algo slv))) = price_all env slv"
    using obs(1) p2 by (simp only: fin)
  show "map dreal (fst (solver_x env (snd (grad_s_vT_final_iteration_dual env algo slv))))
           = map dreal (errors_of env slv)"
    using obs(2) p2 by (simp only: fin errors_of_def)
  show "dreal (fst (solver_f env (snd (grad_s_vT_final_iteration_dual env algo slv))))
           = dreal (objective_of env slv)"
    using obs(3) p2 w2 by (simp only: fin errors_of_def objective_of_def)
qed

lemma fixed_point_return:
  assumes ret: "fst (grad_s_vT_fixed_point_iteration env slv) = Inr g"
  shows "snd (grad_s_vT_fixed_point_iteration env slv) = reset_properties False (set_ad_order 1 slv)"
proof -
  let ?s1 = "reset_properties False (set_ad_order 2 slv)"
  let ?s2 = "map_attrs (\<lambda>rc. rc\<lparr>self_s := tag_targets (self_s rc)\<rparr>) ?s1"
  let ?s3 = "snd (solver_f env ?s2)"
  from ret have fin: "snd (grad_s_vT_fixed_point_iteration env slv)
      = reset_properties False (set_ad_order 1
          (map_attrs (\<lambda>rc. rc\<lparr>self_s := self_s (attrs ?s1)\<rparr>) ?s3))"
    by (simp add: grad_s_vT_fixed_point_iteration_def Let_def case_prod_beta
             split: option.splits if_splits)
  have f3: "reset_properties False ?s3 = reset_properties False ?s2" by simp
  have "reset_properties False (set_ad_order 1 (map_attrs (\<lambda>rc. rc\<lparr>self_s := s0\<rparr>) a))
        = reset_properties False (set_ad_order 1 (map_attrs (\<lambda>rc. rc\<lparr>self_s := s0\<rparr>) b))"
    if "reset_properties False a = reset_properties False b" for a b s0
  proof -
    have "reset_properties False (set_ad_order 1 (map_attrs (\<lambda>rc. rc\<lparr>self_s := s0\<rparr>) c))
          = set_ad_order 1 (map_attrs (\<lambda>rc. rc\<lparr>self_s := s0\<rparr>) (reset_properties False c))" for c
      by (cases c) (simp add: reset_properties_def map_attrs_def)
    with that show ?thesis by simp
  qed
  from this [OF f3] have "snd (grad_s_vT_fixed_point_iteration env slv)
      = reset_properties False (set_ad_order 1
          (map_attrs (\<lambda>rc. rc\<lparr>self_s := self_s (attrs ?s1)\<rparr>) ?s2))"
    by (simp only: fin)
  also have "\<dots> = reset_properties False (set_ad_order 1 slv)"
    by (cases slv) (simp add: reset_properties_def map_attrs_def)
  finally show ?thesis .
qed

lemma price_all_reset_set_ad [simp]:
  "price_all env (reset_properties False (set_ad_order k slv)) = price_all env slv"
proof -
  have "price_all env (reset_properties False (set_ad_order k slv))
          = price_all env (set_ad_order k slv)"
    by (rule price_all_frame) (simp add: reset_properties_def map_attrs_def)
  then show ?thesis by (simp add: price_all_def attrs_set_ad_order)
qed

lemma dual_strategy_raise:
  assumes "fst (grad_s_vT_final_iteration_dual env algo slv) = Inl e"
  shows "self_s (attrs (snd (grad_s_vT_final_iteration_dual env algo slv)))
           = tag_targets (self_s (attrs slv))"
    and "ad (attrs (snd (grad_s_vT_final_iteration_dual env algo slv))) = ad (attrs slv)"
proof -
  let ?a = "case algo of
              None \<Rightarrow> grad_s_vT_final_iteration_algo (attrs slv)
            | Some a \<Rightarrow> if a = [] then grad_s_vT_final_iteration_algo (attrs slv) else a"
  let ?s1 = "reset_properties False
               (map_attrs (\<lambda>rc. rc\<lparr>self_s := tag_targets (self_s rc)\<rparr>) slv)"
  let ?s2 = "snd (update_step env ?a ?s1)"
  from assms have fin: "snd (grad_s_vT_final_iteration_dual env algo slv) = ?s2"
    by (simp add: grad_s_vT_final_iteration_dual_def Let_def case_prod_beta
             split: sum.splits prod.splits)
  have cf: "configuration ?s2 = configuration ?s1" by simp
  have s1: "self_s (attrs ?s1) = tag_targets (self_s (attrs slv))"
       "ad (attrs ?s1) = ad (attrs slv)"
    by (simp_all add: reset_properties_def map_attrs_def)
  show "self_s (attrs (snd (grad_s_vT_final_iteration_dual env algo slv)))
           = tag_targets (self_s (attrs slv))"
    using configuration_fields(2) [OF cf] s1 by (simp only: fin)
  show "ad (attrs (snd (grad_s_vT_final_iteration_dual env algo slv))) = ad (attrs slv)"
    using configuration_fields(6) [OF cf] s1 by (simp only: fin)
qed

lemma fixed_point_raise:
  assumes "fst (grad_s_vT_fixed_point_iteration env slv) = Inl e"
  shows "self_s (attrs (snd (grad_s_vT_fixed_point_iteration env slv)))
           = tag_targets (self_s (attrs slv))"
    and "ad (attrs (snd (grad_s_vT_fixed_point_iteration env slv))) = 2"
proof -
  let ?s1 = "reset_properties False (set_ad_order 2 slv)"
  let ?s2 = "map_attrs (\<lambda>rc. rc\<lparr>self_s := tag_targets (self_s rc)\<rparr>) ?s1"
  let ?s3 = "snd (solver_f env ?s2)"
  from assms have fin: "snd (grad_s_vT_fixed_point_iteration env slv) = ?s3"
    by (simp add: grad_s_vT_fixed_point_iteration_def Let_def case_prod_beta
             split: option.splits if_splits)
  have s2: "self_s (attrs ?s2) = tag_targets (self_s (attrs slv))" "ad (attrs ?s2) = 2"
    by (simp_all add: reset_properties_def map_attrs_def attrs_set_ad_order)
  show "self_s (attrs (snd (grad_s_vT_fixed_point_iteration env slv)))
           = tag_targets (self_s (attrs slv))"
    using s2 by (simp add: fin)
  show "ad (attrs (snd (grad_s_vT_fixed_point_iteration env slv))) = 2"
    using s2 by (simp add: fin)
qed

text \<open>
  C5. The claim: both strategies restore the targets (and the second one the
  differentiation order) on every path out, also when the computation inside raises, and
  the rates, errors and objective observed afterwards reflect the original targets. The
  source has no \<open>try\<close>: the restoring statements are the last ones before the
  \<open>return\<close>, and the second strategy ends with \<open>_set_ad_order(1)\<close> whatever the order
  was. With an instrument that reads no curve of the solver the Jacobian is zero and
  \<open>np.linalg.solve\<close> raises, in the Gauss-Newton step of the dual-number strategy and in
  the fixed-point strategy: the first leaves the re-tagged targets in place and the second
  leaves them and the order 2. On a solver of order 2 the fixed-point strategy returns
  with the order 1.
\<close>

theorem strategies_restore_counterexample:
  "fst (grad_s_vT_final_iteration_dual env_1x1 None detached_solver) = Inl LinAlgError
 \<and> self_s (attrs (snd (grad_s_vT_final_iteration_dual env_1x1 None detached_solver)))
     \<noteq> self_s (attrs detached_solver)
 \<and> fst (grad_s_vT_fixed_point_iteration env_1x1 detached_solver) = Inl LinAlgError
 \<and> self_s (attrs (snd (grad_s_vT_fixed_point_iteration env_1x1 detached_solver)))
     \<noteq> self_s (attrs detached_solver)
 \<and> ad (attrs detached_solver) = 1
 \<and> ad (attrs (snd (grad_s_vT_fixed_point_iteration env_1x1 detached_solver))) = 2
 \<and> \<not> isl (fst (grad_s_vT_fixed_point_iteration env_1x1
                 (set_ad_order 2 (example_solver ''gauss_newton'' 0 0 1))))
 \<and> ad (attrs (set_ad_order 2 (example_solver ''gauss_newton'' 0 0 1))) = 2
 \<and> ad (attrs (snd (grad_s_vT_fixed_point_iteration env_1x1
                      (set_ad_order 2 (example_solver ''gauss_newton'' 0 0 1))))) = 1"
proof -
  note dual_eval = grad_s_vT_final_iteration_dual_def tag_targets_def s_vars_def
    enumerate_eq_zip detached_solver_def example_defs dual_defs array_defs solver_defs
    update_step_def Let_def
  note fixed_eval = grad_s_vT_fixed_point_iteration_def tag_targets_def s_vars_def hessian_def
    submatrix_def slice_len_def enumerate_eq_zip detached_solver_def example_defs dual_defs
    array_defs solver_defs Let_def
  let ?o2 = "set_ad_order 2 (example_solver ''gauss_newton'' 0 0 1)"
  have a: "fst (grad_s_vT_final_iteration_dual env_1x1 None detached_solver) = Inl LinAlgError"
    by (simp add: dual_eval)
  have b: "self_s (attrs (snd (grad_s_vT_final_iteration_dual env_1x1 None detached_solver)))
             \<noteq> self_s (attrs detached_solver)"
    by (simp add: dual_eval)
  have c: "fst (grad_s_vT_fixed_point_iteration env_1x1 detached_solver) = Inl LinAlgError"
    by (simp add: fixed_eval)
  have d: "self_s (attrs (snd (grad_s_vT_fixed_point_iteration env_1x1 detached_solver)))
             \<noteq> self_s (attrs detached_solver)"
    by (simp add: fixed_eval)
  have e: "ad (attrs detached_solver) = 1" by (simp add: detached_solver_def example_defs)
  have f: "ad (attrs (snd (grad_s_vT_fixed_point_iteration env_1x1 detached_solver))) = 2"
    by (simp add: fixed_eval)
  have g: "\<not> isl (fst (grad_s_vT_fixed_point_iteration env_1x1 ?o2))"
    by (simp add: fixed_eval)
  have h: "ad (attrs ?o2) = 2" by (simp add: example_defs)
  have i: "ad (attrs (snd (grad_s_vT_fixed_point_iteration env_1x1 ?o2))) = 1"
    by (simp add: fixed_eval)
  from a b c d e f g h i show ?thesis by blast
qed

text \<open>
  C5, as amended. When the dual-number strategy returns, the targets are the ones before
  the call and the order is unchanged; the rates observed afterwards are those of the
  curves, and the errors and the objective observed afterwards have the real parts that
  belong to the original targets (the cached errors may still carry the tags \<open>s0\<close>,
  \<open>s1\<close>, ...). When the fixed-point strategy returns, the solver is the one before the
  call with the order set to 1 and every cached property reset, so that the rates, errors
  and objective observed afterwards are computed from the original targets. When the
  computation inside raises, nothing is restored: the targets are left as the re-tagged
  ones, with the order unchanged after the dual-number strategy and 2 after the
  fixed-point strategy.
\<close>

theorem strategies_restore_only_on_return:
  "(\<forall>g. fst (grad_s_vT_final_iteration_dual env algo slv) = Inr g \<longrightarrow>
      (let slv' = snd (grad_s_vT_final_iteration_dual env algo slv)
       in self_s (attrs slv') = self_s (attrs slv) \<and> ad (attrs slv') = ad (attrs slv)
        \<and> fst (solver_r env slv') = price_all env slv
        \<and> map dreal (fst (solver_x env slv')) = map dreal (errors_of env slv)
        \<and> dreal (fst (solver_f env slv')) = dreal (objective_of env slv)))
 \<and> (\<forall>e. fst (grad_s_vT_final_iteration_dual env algo slv) = Inl e \<longrightarrow>
      (let slv' = snd (grad_s_vT_final_iteration_dual env algo slv)
       in self_s (attrs slv') = tag_targets (self_s (attrs slv))
        \<and> ad (attrs slv') = ad (attrs slv)))
 \<and> (\<forall>g. fst (grad_s_vT_fixed_point_iteration env slv) = Inr g \<longrightarrow>
      (let slv' = snd (grad_s_vT_fixed_point_iteration env slv)
       in slv' = reset_properties False (set_ad_order 1 slv)
        \<and> self_s (attrs slv') = self_s (attrs slv) \<and> ad (attrs slv') = 1
        \<and> fst (solver_r env slv') = price_all env slv
        \<and> fst (solver_x env slv') = errors_of env slv
        \<and> fst (solver_f env slv') = objective_of env slv))
 \<and> (\<forall>e. fst (grad_s_vT_fixed_point_iteration env slv) = Inl e \<longrightarrow>
      (let slv' = snd (grad_s_vT_fixed_point_iteration env slv)
       in self_s (attrs slv') = tag_targets (self_s (attrs slv)) \<and> ad (attrs slv') = 2))"
proof (intro conjI allI impI)
  fix g assume "fst (grad_s_vT_final_iteration_dual env algo slv) = Inr g"
  from dual_strategy_return [OF this]
  show "let slv' = snd (grad_s_vT_final_iteration_dual env algo slv)
       in self_s (attrs slv') = self_s (attrs slv) \<and> ad (attrs slv') = ad (attrs slv)
        \<and> fst (solver_r env slv') = price_all env slv
        \<and> map dreal (fst (solver_x env slv')) = map dreal (errors_of env slv)
        \<and> dreal (fst (solver_f env slv')) = dreal (objective_of env slv)"
    by (simp add: Let_def)
next
  fix e assume "fst (grad_s_vT_final_iteration_dual env algo slv) = Inl e"
  from dual_strategy_raise [OF this]
  show "let slv' = snd (grad_s_vT_final_iteration_dual env algo slv)
       in self_s (attrs slv') = tag_targets (self_s (attrs slv))
        \<and> ad (attrs slv') = ad (attrs slv)"
    by (simp add: Let_def)
next
  fix g assume "fst (grad_s_vT_fixed_point_iteration env slv) = Inr g"
  from fixed_point_return [OF this]
  have fin: "snd (grad_s_vT_fixed_point_iteration env slv)
               = reset_properties False (set_ad_order 1 slv)" .
  let ?s' = "reset_properties False (set_ad_order 1 slv)"
  have a: "self_s (attrs ?s') = self_s (attrs slv)" "ad (attrs ?s') = 1"
          "weights (attrs ?s') = weights (attrs slv)"
    by (simp_all add: reset_properties_def map_attrs_def attrs_set_ad_order)
  have c: "cache_r (attrs ?s') = None" "cache_x (attrs ?s') = None" "cache_f (attrs ?s') = None"
    by (simp_all add: reset_properties_def map_attrs_def)
  have r: "fst (solver_r env ?s') = price_all env slv"
    using c by (simp add: solver_r_def Let_def)
  have x: "fst (solver_x env ?s') = errors_of env slv"
    using c r a by (simp add: solver_x_def Let_def case_prod_beta errors_of_def)
  have f: "fst (solver_f env ?s') = objective_of env slv"
    using c x a by (simp add: solver_f_def Let_def case_prod_beta objective_of_def)
  show "let slv' = snd (grad_s_vT_fixed_point_iteration env slv)
       in slv' = reset_properties False (set_ad_order 1 slv)
        \<and> self_s (attrs slv') = self_s (attrs slv) \<and> ad (attrs slv') = 1
        \<and> fst (solver_r env slv') = price_all env slv
        \<and> fst (solver_x env slv') = errors_of env slv
        \<and> fst (solver_f env slv') = objective_of env slv"
    using a r x f by (simp add: Let_def fin)
next
  fix e assume "fst (grad_s_vT_fixed_point_iteration env slv) = Inl e"
  from fixed_point_raise [OF this]
  show "let slv' = snd (grad_s_vT_fixed_point_iteration env slv)
       in self_s (attrs slv') = tag_targets (self_s (attrs slv)) \<and> ad (attrs slv') = 2"
    by (simp add: Let_def)
qed

theorem strategies_restore_only_on_return_witness:
  "\<not> isl (fst (grad_s_vT_final_iteration_dual env_1x1 None (example_solver ''gauss_newton'' 0 0 1)))
   \<and> self_s (attrs (snd (grad_s_vT_final_iteration_dual env_1x1 None
                            (example_solver ''gauss_newton'' 0 0 1)))) = [float_dual 0]
   \<and> \<not> isl (fst (grad_s_vT_fixed_point_iteration env_1x1 (example_solver ''gauss_newton'' 0 0 1)))
   \<and> snd (grad_s_vT_fixed_point_iteration env_1x1 (example_solver ''gauss_newton'' 0 0 1))
       = reset_properties False (set_ad_order 1 (example_solver ''gauss_newton'' 0 0 1))
   \<and> isl (fst (grad_s_vT_final_iteration_dual env_1x1 None detached_solver))
   \<and> self_s (attrs (snd (grad_s_vT_final_iteration_dual env_1x1 None detached_solver)))
       = [new_dual 0 [''s0'']]
   \<and> isl (fst (grad_s_vT_fixed_point_iteration env_1x1 detached_solver))
   \<and> self_s (attrs (snd (grad_s_vT_fixed_point_iteration env_1x1 detached_solver)))
       = [new_dual 0 [''s0'']]
   \<and> ad (attrs (snd (grad_s_vT_fixed_point_iteration env_1x1 detached_solver))) = 2"
proof -
  let ?ex = "example_solver ''gauss_newton'' 0 0 1"
  note dual_eval = grad_s_vT_final_iteration_dual_def tag_targets_def s_vars_def
    enumerate_eq_zip detached_solver_def example_defs dual_defs array_defs solver_defs
    iterate_defs
  note fixed_eval = grad_s_vT_fixed_point_iteration_def tag_targets_def s_vars_def hessian_def
    submatrix_def slice_len_def enumerate_eq_zip detached_solver_def example_defs dual_defs
    array_defs solver_defs iterate_defs
  have d: "\<not> isl (fst (grad_s_vT_final_iteration_dual env_1x1 None ?ex))"
    by (simp add: dual_eval)
  have f: "\<not> isl (fst (grad_s_vT_fixed_point_iteration env_1x1 ?ex))"
    by (simp add: fixed_eval)
  have d': "isl (fst (grad_s_vT_final_iteration_dual env_1x1 None detached_solver))"
    by (simp add: dual_eval)
  have f': "isl (fst (grad_s_vT_fixed_point_iteration env_1x1 detached_solver))"
    by (simp add: fixed_eval)
  have tg: "tag_targets (self_s (attrs detached_solver)) = [new_dual 0 [''s0'']]"
    by (simp add: tag_targets_def enumerate_eq_zip detached_solver_def example_defs
          float_dual_def string_of_nat.simps)
  from d obtain g1 where g1: "fst (grad_s_vT_final_iteration_dual env_1x1 None ?ex) = Inr g1"
    by (cases "fst (grad_s_vT_final_iteration_dual env_1x1 None ?ex)") simp_all
  from f obtain g2 where g2: "fst (grad_s_vT_fixed_point_iteration env_1x1 ?ex) = Inr g2"
    by (cases "fst (grad_s_vT_fixed_point_iteration env_1x1 ?ex)") simp_all
  from d' obtain e1 where
    e1: "fst (grad_s_vT_final_iteration_dual env_1x1 None detached_solver) = Inl e1"
    by (cases "fst (grad_s_vT_final_iteration_dual env_1x1 None detached_solver)") simp_all
  from f' obtain e2 where
    e2: "fst (grad_s_vT_fixed_point_iteration env_1x1 detached_solver) = Inl e2"
    by (cases "fst (grad_s_vT_fixed_point_iteration env_1x1 detached_solver)") simp_all
  note th = strategies_restore_only_on_return [of env_1x1 None ?ex]
  note th' = strategies_restore_only_on_return [of env_1x1 None detached_solver]
  from th g1 have "self_s (attrs (snd (grad_s_vT_final_iteration_dual env_1x1 None ?ex)))
                     = self_s (attrs ?ex)"
    by (simp add: Let_def)
  then have s: "self_s (attrs (snd (grad_s_vT_final_iteration_dual env_1x1 None ?ex))) = [float_dual 0]"
    by (simp add: example_defs)
  from th g2 have r: "snd (grad_s_vT_fixed_point_iteration env_1x1 ?ex)
                       = reset_properties False (set_ad_order 1 ?ex)"
    by (simp add: Let_def)
  from th' e1 have s1: "self_s (attrs (snd (grad_s_vT_final_iteration_dual env_1x1 None
                                             detached_solver))) = [new_dual 0 [''s0'']]"
    by (simp add: Let_def tg)
  from th' e2 have s2: "self_s (attrs (snd (grad_s_vT_fixed_point_iteration env_1x1
                                             detached_solver))) = [new_dual 0 [''s0'']]"
    and o2: "ad (attrs (snd (grad_s_vT_fixed_point_iteration env_1x1 detached_solver))) = 2"
    by (simp_all add: Let_def tg)
  from d f s r d' f' s1 s2 o2 show ?thesis by blast
qed

lemma reset_map_cache2 [simp]:
  "reset_properties False (map_attrs (\<lambda>rc. rc\<lparr>cache_J2 := a\<rparr>) slv) = reset_properties False slv"
  "reset_properties False (map_attrs (\<lambda>rc. rc\<lparr>cache_grad_s_vT := b\<rparr>) slv) = reset_properties False slv"
  "reset_properties False (map_attrs (\<lambda>rc. rc\<lparr>cache_grad_s_s_vT := c\<rparr>) slv) = reset_properties False slv"
  "reset_properties False (map_attrs (\<lambda>rc. rc\<lparr>cache_grad_s_vT_pre := d\<rparr>) slv) = reset_properties False slv"
  "reset_properties False (map_attrs (\<lambda>rc. rc\<lparr>cache_J2_pre := e\<rparr>) slv) = reset_properties False slv"
  "reset_properties False (map_attrs (\<lambda>rc. rc\<lparr>cache_grad_s_s_vT_pre := f\<rparr>) slv) = reset_properties False slv"
  by (simp_all add: reset_properties_def map_attrs_def)

text \<open>A solver without pre-solvers, of order 2, with the analytical strategy.\<close>

lemma grad_s_vT_analytical:
  assumes "grad_s_vT_method (attrs slv) = ''_grad_s_vT_final_iteration_analytical''"
    and "instruments (attrs slv) \<noteq> []"
  shows "\<exists>g. fst (grad_s_vT env slv) = Inr g"
    and "reset_properties False (snd (grad_s_vT env slv)) = reset_properties False slv"
  using assms
  by (simp_all add: grad_s_vT_def grad_s_vT_final_iteration_analytical_def Let_def
        solver_m_def case_prod_beta split: option.splits)

lemma solver_J2_order_2:
  assumes "ad (attrs slv) = 2" and "instruments (attrs slv) \<noteq> []"
  shows "\<exists>T. fst (solver_J2 env slv) = Inr T"
    and "reset_properties False (snd (solver_J2 env slv)) = reset_properties False slv"
  using assms by (simp_all add: solver_J2_def solver_m_def Let_def split: option.splits)

subsection \<open>The errors that the sensitivities can raise\<close>

lemma update_step_no_fx_error:
  "fst (update_step env algo slv) \<noteq> Inl ValueError_base_without_fx"
  by (simp add: update_step_def np_add_def np_add_duals_def Let_def case_prod_beta
           split: option.splits)

lemma grad_s_vT_no_fx_error:
  "fst (grad_s_vT env slv) \<noteq> Inl ValueError_base_without_fx"
  using update_step_no_fx_error
  by (auto simp add: grad_s_vT_def grad_s_vT_final_iteration_dual_def
        grad_s_vT_fixed_point_iteration_def grad_s_vT_final_iteration_analytical_def
        Let_def case_prod_beta split: option.splits sum.splits prod.splits)

lemma setitem_no_fx_error:
  "setitem A r0 r1 c0 c1 B \<noteq> Inl ValueError_base_without_fx"
  "setitem3 T a0 a1 b0 b1 d0 d1 U \<noteq> Inl ValueError_base_without_fx"
  by (simp_all add: setitem_def setitem3_def)

lemma grad_s_vT_no_fx_error':
  "grad_s_vT env slv = (Inl e, s') \<Longrightarrow> e \<noteq> ValueError_base_without_fx"
  using grad_s_vT_no_fx_error [of env slv] by auto

lemma setitem_no_fx_error':
  "setitem A r0 r1 c0 c1 B = Inl e \<Longrightarrow> e \<noteq> ValueError_base_without_fx"
  "setitem3 T a0 a1 b0 b1 d0 d1 U = Inl e \<Longrightarrow> e \<noteq> ValueError_base_without_fx"
  using setitem_no_fx_error by auto

lemma grad_s_vT_pre_no_fx_error:
  "fst (grad_s_vT_pre env slv) \<noteq> Inl ValueError_base_without_fx"
  "fst (grad_s_vT_pre_loop env rc visited todo G i j) \<noteq> Inl ValueError_base_without_fx"
proof (induction env slv and env rc visited todo G i j
       rule: grad_s_vT_pre_grad_s_vT_pre_loop.induct)
  case (1 env rc ps)
  then show ?case
    using grad_s_vT_no_fx_error
    by (auto simp add: Let_def split: option.splits sum.splits prod.splits
             dest: grad_s_vT_no_fx_error' setitem_no_fx_error')
next
  case (2 env rc visited G i j)
  then show ?case by simp
next
  case (3 env rc visited pre_solver rest G i j)
  then show ?case
    by (auto simp add: Let_def split: option.splits sum.splits prod.splits
             dest: grad_s_vT_no_fx_error' setitem_no_fx_error')
qed

lemma solver_J2_no_fx_error':
  "solver_J2 env slv = (Inl e, s') \<Longrightarrow> e \<noteq> ValueError_base_without_fx"
  by (auto simp add: solver_J2_def Let_def split: option.splits if_splits)

lemma J2_pre_no_fx_error:
  "fst (J2_pre env slv) \<noteq> Inl ValueError_base_without_fx"
  "fst (J2_pre_loop env rc visited todo T i j) \<noteq> Inl ValueError_base_without_fx"
proof (induction env slv and env rc visited todo T i j rule: J2_pre_J2_pre_loop.induct)
  case (1 env rc ps)
  show ?case
  proof (cases "ps = []")
    case True
    then show ?thesis
      using solver_J2_no_fx_error' [of env "Solver rc []"]
      by (cases "solver_J2 env (Solver rc [])") auto
  next
    case False
    with 1 show ?thesis
      by (auto simp add: Let_def split: option.splits sum.splits prod.splits
               dest: setitem_no_fx_error')
  qed
next
  case (2 env rc visited T i j)
  then show ?case by simp
next
  case (3 env rc visited pre_slvr rest T i j)
  then show ?case
    by (auto simp add: Let_def split: option.splits sum.splits prod.splits
             dest: setitem_no_fx_error')
qed

lemma grad_s_vT_pre_no_fx_error':
  "grad_s_vT_pre env slv = (Inl e, s') \<Longrightarrow> e \<noteq> ValueError_base_without_fx"
  using grad_s_vT_pre_no_fx_error(1) [of env slv] by auto

lemma J2_pre_no_fx_error':
  "J2_pre env slv = (Inl e, s') \<Longrightarrow> e \<noteq> ValueError_base_without_fx"
  using J2_pre_no_fx_error(1) [of env slv] by auto

lemma grad_s_s_vT_pre_no_fx_error':
  "grad_s_s_vT_pre env slv = (Inl e, s') \<Longrightarrow> e \<noteq> ValueError_base_without_fx"
  by (auto simp add: grad_s_s_vT_pre_def grad_s_s_vT_def
        grad_s_s_vT_final_iteration_analytical_def
        split: option.splits sum.splits prod.splits if_splits
        dest: solver_J2_no_fx_error' J2_pre_no_fx_error' grad_s_vT_no_fx_error'
              grad_s_vT_pre_no_fx_error')

lemma gamma_blocks_no_fx_error':
  "gamma_blocks env npv slv = (Inl e, s') \<Longrightarrow> e \<noteq> ValueError_base_without_fx"
proof (induction npv arbitrary: slv s' e)
  case Nil
  then show ?case by simp
next
  case (Cons p npv)
  obtain ccy v where p: "p = (ccy, v)" by (cases p)
  from Cons.prems Cons.IH show ?case
    by (auto simp add: p Let_def split: sum.splits prod.splits
             dest: grad_s_vT_pre_no_fx_error' grad_s_s_vT_pre_no_fx_error')
qed

lemma gamma_blocks_currencies':
  "gamma_blocks env npv slv = (Inr bs, s') \<Longrightarrow> map fst bs = map fst npv"
proof (induction npv arbitrary: slv bs s')
  case Nil
  then show ?case by simp
next
  case (Cons p npv)
  obtain ccy v where p: "p = (ccy, v)" by (cases p)
  from Cons.prems Cons.IH show ?case
    by (auto simp add: p Let_def split: sum.splits prod.splits)
qed

lemma outer_labels_currencies:
  "list_all (\<lambda>l. fst l \<in> set ccys) (outer_labels ccys slv)"
  by (auto simp add: outer_labels_def list_all_iff)

subsection \<open>Cross-gamma of a solver without pre-solvers\<close>

lemma grad_s_vT_pre_no_chain:
  "pre_solvers slv = [] \<Longrightarrow> grad_s_vT_pre env slv = grad_s_vT env slv"
  by (cases slv) simp

lemma grad_s_vT_analytical':
  assumes "grad_s_vT_method (attrs slv) = ''_grad_s_vT_final_iteration_analytical''"
    and "instruments (attrs slv) \<noteq> []"
  obtains g s1 where "grad_s_vT env slv = (Inr g, s1)"
    and "reset_properties False s1 = reset_properties False slv"
  using grad_s_vT_analytical [OF assms, of env] by (cases "grad_s_vT env slv") auto

lemma solver_J2_order_2':
  assumes "ad (attrs slv) = 2" and "instruments (attrs slv) \<noteq> []"
  obtains T s1 where "solver_J2 env slv = (Inr T, s1)"
    and "reset_properties False s1 = reset_properties False slv"
  using solver_J2_order_2 [OF assms, of env] by (cases "solver_J2 env slv") auto

lemma grad_s_s_vT_pre_succeeds:
  assumes ps: "pre_solvers slv = []" and o2: "ad (attrs slv) = 2"
    and an: "grad_s_vT_method (attrs slv) = ''_grad_s_vT_final_iteration_analytical''"
    and ne: "instruments (attrs slv) \<noteq> []"
  obtains T s' where "grad_s_s_vT_pre env slv = (Inr T, s')"
    and "reset_properties False s' = reset_properties False slv"
proof -
  obtain J2 s1 where j: "solver_J2 env slv = (Inr J2, s1)"
    and f1: "reset_properties False s1 = reset_properties False slv"
    by (rule solver_J2_order_2' [OF o2 ne])
  have an1: "grad_s_vT_method (attrs s1) = ''_grad_s_vT_final_iteration_analytical''"
    using frame_fields(13) [OF f1] an by simp
  have ne1: "instruments (attrs s1) \<noteq> []"
    using frame_fields(12) [OF f1] ne by simp
  obtain g s2 where k: "grad_s_vT env s1 = (Inr g, s2)"
    and f2: "reset_properties False s2 = reset_properties False s1"
    by (rule grad_s_vT_analytical' [OF an1 ne1])
  show ?thesis
  proof (cases "cache_grad_s_s_vT (attrs slv)")
    case None
    let ?T = "tensor_neg (tensordot_11 g (tensordot_10 g (tensordot_20 J2 g)))"
    have "grad_s_s_vT_pre env slv
            = (Inr ?T, map_attrs (\<lambda>rc. rc\<lparr>cache_grad_s_s_vT := Some ?T\<rparr>) s2)"
      using ps j k None
      by (simp add: grad_s_s_vT_pre_def grad_s_s_vT_def
            grad_s_s_vT_final_iteration_analytical_def)
    moreover have "reset_properties False
                     (map_attrs (\<lambda>rc. rc\<lparr>cache_grad_s_s_vT := Some ?T\<rparr>) s2)
                   = reset_properties False slv"
      using f1 f2 by simp
    ultimately show ?thesis by (rule that)
  next
    case (Some T)
    have "grad_s_s_vT_pre env slv = (Inr T, slv)"
      using ps Some by (simp add: grad_s_s_vT_pre_def grad_s_s_vT_def)
    then show ?thesis by (rule that) simp
  qed
qed

lemma gamma_blocks_succeeds:
  assumes "pre_solvers slv = []" and "ad (attrs slv) = 2"
    and "grad_s_vT_method (attrs slv) = ''_grad_s_vT_final_iteration_analytical''"
    and "instruments (attrs slv) \<noteq> []"
  shows "\<exists>bs. fst (gamma_blocks env npv slv) = Inr bs"
  using assms
proof (induction npv arbitrary: slv)
  case Nil
  show ?case by simp
next
  case (Cons p npv)
  obtain ccy v where p: "p = (ccy, v)" by (cases p)
  obtain G s1 where a0: "grad_s_vT env slv = (Inr G, s1)"
    and f1: "reset_properties False s1 = reset_properties False slv"
    by (rule grad_s_vT_analytical' [OF Cons.prems(3,4)])
  have i1: "pre_solvers s1 = []" "ad (attrs s1) = 2"
           "grad_s_vT_method (attrs s1) = ''_grad_s_vT_final_iteration_analytical''"
           "instruments (attrs s1) \<noteq> []"
    using frame_fields(15,10,13,12) [OF f1] Cons.prems by simp_all
  obtain T s2 where b: "grad_s_s_vT_pre env s1 = (Inr T, s2)"
    and f2: "reset_properties False s2 = reset_properties False s1"
    by (rule grad_s_s_vT_pre_succeeds [OF i1])
  have i2: "pre_solvers s2 = []" "ad (attrs s2) = 2"
           "grad_s_vT_method (attrs s2) = ''_grad_s_vT_final_iteration_analytical''"
           "instruments (attrs s2) \<noteq> []"
    using frame_fields(15,10,13,12) [OF f2] i1 by simp_all
  obtain bs s3 where c: "gamma_blocks env npv s2 = (Inr bs, s3)"
    using Cons.IH [OF i2] by (cases "gamma_blocks env npv s2") auto
  have a: "grad_s_vT_pre env slv = (Inr G, s1)"
    using a0 grad_s_vT_pre_no_chain [OF Cons.prems(1)] by simp
  show ?case using a b c by (simp add: p Let_def)
qed

text \<open>
  C9. Whatever \<open>base\<close> and \<open>fx\<close> are, \<open>gamma\<close> returns what it returns without
  them: with the order 2 the result of \<open>_gamma_inst_arr_local\<close>, whose row and column
  labels and blocks belong to the currencies of the valuation only; the error about a
  base currency without an FX object is never raised.
\<close>

theorem gamma_ignores_base_and_fx:
  "gamma env npv base fx_arg slv = gamma env npv None None slv
 \<and> fst (gamma env npv base fx_arg slv) \<noteq> Inl ValueError_base_without_fx
 \<and> (if ad (attrs slv) = 2
     then gamma env npv base fx_arg slv = gamma_inst_arr_local env npv slv
     else gamma env npv base fx_arg slv = (Inl ValueError_gamma_ad_order, slv))
 \<and> (case fst (gamma env npv base fx_arg slv) of
       Inl e \<Rightarrow> True
     | Inr tbl \<Rightarrow>
         column_labels tbl = outer_labels (map fst npv) slv
       \<and> index_labels tbl = outer_labels (map fst npv) slv
       \<and> list_all (\<lambda>l. fst l \<in> set (map fst npv)) (column_labels tbl)
       \<and> map fst (blocks tbl) = map fst npv)"
proof -
  have a: "gamma env npv base fx_arg slv = gamma env npv None None slv"
    by (simp add: gamma_def)
  have b: "fst (gamma env npv base fx_arg slv) \<noteq> Inl ValueError_base_without_fx"
    by (cases "gamma_blocks env npv slv")
       (auto simp add: gamma_def gamma_inst_arr_local_def split: sum.splits
             dest: gamma_blocks_no_fx_error')
  have c: "if ad (attrs slv) = 2
     then gamma env npv base fx_arg slv = gamma_inst_arr_local env npv slv
     else gamma env npv base fx_arg slv = (Inl ValueError_gamma_ad_order, slv)"
    by (simp add: gamma_def)
  have d: "case fst (gamma env npv base fx_arg slv) of
       Inl e \<Rightarrow> True
     | Inr tbl \<Rightarrow>
         column_labels tbl = outer_labels (map fst npv) slv
       \<and> index_labels tbl = outer_labels (map fst npv) slv
       \<and> list_all (\<lambda>l. fst l \<in> set (map fst npv)) (column_labels tbl)
       \<and> map fst (blocks tbl) = map fst npv"
    using outer_labels_currencies [of "map fst npv" slv]
    by (cases "gamma_blocks env npv slv")
       (auto simp add: gamma_def gamma_inst_arr_local_def split: sum.splits
             dest: gamma_blocks_currencies')
  from a b c d show ?thesis by blast
qed

theorem gamma_ignores_base_and_fx_witness:
  "gamma env_1x1 [(''usd'', new_dual 5 [''c1''])] (Some ''eur'') None
       (set_ad_order 2 (example_solver ''gauss_newton'' 0 0 1))
     = gamma env_1x1 [(''usd'', new_dual 5 [''c1''])] None None
         (set_ad_order 2 (example_solver ''gauss_newton'' 0 0 1))
   \<and> map fst (blocks (projr (fst (gamma env_1x1 [(''usd'', new_dual 5 [''c1''])] (Some ''eur'') None
                                    (set_ad_order 2 (example_solver ''gauss_newton'' 0 0 1))))))
       = [''usd'']
   \<and> column_labels (projr (fst (gamma env_1x1 [(''usd'', new_dual 5 [''c1''])] (Some ''eur'') None
                                    (set_ad_order 2 (example_solver ''gauss_newton'' 0 0 1)))))
       = [(''usd'', ''instruments'', ''c_'', ''c_0'')]"
proof -
  let ?s = "set_ad_order 2 (example_solver ''gauss_newton'' 0 0 1)"
  let ?npv = "[(''usd'', new_dual 5 [''c1''])]"
  note th = gamma_ignores_base_and_fx [of env_1x1 ?npv "Some ''eur''" None ?s]
  have i: "pre_solvers ?s = []" "ad (attrs ?s) = 2"
    "grad_s_vT_method (attrs ?s) = ''_grad_s_vT_final_iteration_analytical''"
    "instruments (attrs ?s) \<noteq> []"
    by (simp_all add: example_defs)
  from gamma_blocks_succeeds [OF i, of env_1x1 ?npv]
  obtain bs s' where bs: "gamma_blocks env_1x1 ?npv ?s = (Inr bs, s')"
    by (cases "gamma_blocks env_1x1 ?npv ?s") auto
  then have g: "fst (gamma env_1x1 ?npv (Some ''eur'') None ?s)
      = Inr \<lparr>index_labels = outer_labels (map fst ?npv) ?s,
             column_labels = outer_labels (map fst ?npv) ?s, blocks = bs\<rparr>"
    using i(2) by (simp add: gamma_def gamma_inst_arr_local_def)
  have l: "outer_labels (map fst ?npv) ?s = [(''usd'', ''instruments'', ''c_'', ''c_0'')]"
    by (simp add: outer_labels_def example_defs)
  from th have eq: "gamma env_1x1 ?npv (Some ''eur'') None ?s = gamma env_1x1 ?npv None None ?s"
    by blast
  from th have "case fst (gamma env_1x1 ?npv (Some ''eur'') None ?s) of
       Inl e \<Rightarrow> True
     | Inr tbl \<Rightarrow>
         column_labels tbl = outer_labels (map fst ?npv) ?s
       \<and> index_labels tbl = outer_labels (map fst ?npv) ?s
       \<and> list_all (\<lambda>l. fst l \<in> set (map fst ?npv)) (column_labels tbl)
       \<and> map fst (blocks tbl) = map fst ?npv"
    by blast
  then have "map fst bs = map fst ?npv" unfolding g by simp
  then have c2: "map fst (blocks (projr (fst (gamma env_1x1 ?npv (Some ''eur'') None ?s))))
                   = [''usd'']"
    unfolding g by simp
  have c3: "column_labels (projr (fst (gamma env_1x1 ?npv (Some ''eur'') None ?s)))
              = [(''usd'', ''instruments'', ''c_'', ''c_0'')]"
    using l unfolding g by simp
  from eq c2 c3 show ?thesis by blast
qed

subsection \<open>The targets after \<open>jacobian\<close>\<close>

lemma iterate_loop_configuration:
  "configuration (snd (iterate_loop env k i slv)) = configuration slv"
proof (induction k arbitrary: i slv)
  case 0
  show ?case by (simp add: case_prod_beta Let_def)
next
  case (Suc k)
  obtain res s1 where c: "iterate_cycle env i slv = (res, s1)"
    by (cases "iterate_cycle env i slv")
  have s1: "configuration s1 = configuration slv"
    using iterate_cycle_configuration [of env i slv] c by simp
  show ?case
  proof (cases res)
    case (Inl e)
    with c s1 show ?thesis by simp
  next
    case (Inr m)
    with c s1 Suc.IH [of "Suc i" s1] show ?thesis by (cases m) simp_all
  qed
qed

lemma iterate_configuration:
  "configuration (snd (iterate env slv)) = configuration slv"
proof -
  have "configuration (iterate_start slv) = configuration slv"
    by (simp add: iterate_start_def configuration_def reset_properties_def map_attrs_def)
  then show ?thesis by (simp add: iterate_def iterate_loop_configuration)
qed

lemma grad_s_vT_self_s:
  assumes "fst (grad_s_vT env slv) = Inr g"
  shows "self_s (attrs (snd (grad_s_vT env slv))) = self_s (attrs slv)"
proof (cases "cache_grad_s_vT (attrs slv)")
  case (Some g')
  then show ?thesis by (simp add: grad_s_vT_def)
next
  case None
  let ?m = "grad_s_vT_method (attrs slv)"
  consider (an) "?m = ''_grad_s_vT_final_iteration_analytical''"
    | (du) "?m \<noteq> ''_grad_s_vT_final_iteration_analytical''" "?m = ''_grad_s_vT_final_iteration_dual''"
    | (fp) "?m \<noteq> ''_grad_s_vT_final_iteration_analytical''" "?m \<noteq> ''_grad_s_vT_final_iteration_dual''"
           "?m = ''_grad_s_vT_fixed_point_iteration''"
    | (no) "?m \<noteq> ''_grad_s_vT_final_iteration_analytical''" "?m \<noteq> ''_grad_s_vT_final_iteration_dual''"
           "?m \<noteq> ''_grad_s_vT_fixed_point_iteration''"
    by blast
  then show ?thesis
  proof cases
    case an
    with None show ?thesis
      by (simp add: grad_s_vT_def grad_s_vT_final_iteration_analytical_def Let_def
            case_prod_beta map_attrs_def)
  next
    case du
    obtain r s1 where d: "grad_s_vT_final_iteration_dual env None slv = (r, s1)"
      by (cases "grad_s_vT_final_iteration_dual env None slv")
    with assms None du obtain g1 where r: "r = Inr g1"
      by (cases r) (simp_all add: grad_s_vT_def Let_def)
    from dual_strategy_return(1) [of env None slv g1] d r
    have "self_s (attrs s1) = self_s (attrs slv)" by simp
    with None du d r show ?thesis by (simp add: grad_s_vT_def Let_def map_attrs_def)
  next
    case fp
    obtain r s1 where d: "grad_s_vT_fixed_point_iteration env slv = (r, s1)"
      by (cases "grad_s_vT_fixed_point_iteration env slv")
    with assms None fp obtain g1 where r: "r = Inr g1"
      by (cases r) (simp_all add: grad_s_vT_def Let_def)
    from fixed_point_return [of env slv g1] d r
    have "s1 = reset_properties False (set_ad_order 1 slv)" by simp
    then have "self_s (attrs s1) = self_s (attrs slv)"
      by (simp add: reset_properties_def map_attrs_def attrs_set_ad_order)
    with None fp d r show ?thesis by (simp add: grad_s_vT_def Let_def map_attrs_def)
  next
    case no
    with assms None show ?thesis by (simp add: grad_s_vT_def Let_def)
  qed
qed

lemma update_step_history [simp]:
  "f_list (attrs (snd (update_step env algo slv))) = f_list (attrs slv)"
  by (simp add: update_step_def Let_def case_prod_beta map_attrs_def split: option.splits)

text \<open>
  What \<open>grad_s_vT\<close> leaves of the iteration when it returns, and of the targets in every
  case.
\<close>

lemma grad_s_vT_iteration_state:
  assumes "fst (grad_s_vT env slv) = Inr g"
  shows "curves (attrs (snd (grad_s_vT env slv))) = curves (attrs slv)"
    and "f_list (attrs (snd (grad_s_vT env slv))) = f_list (attrs slv)"
proof -
  have "curves (attrs (snd (grad_s_vT env slv))) = curves (attrs slv)
      \<and> f_list (attrs (snd (grad_s_vT env slv))) = f_list (attrs slv)"
  proof (cases "cache_grad_s_vT (attrs slv)")
    case (Some g')
    then show ?thesis by (simp add: grad_s_vT_def)
  next
    case None
    let ?m = "grad_s_vT_method (attrs slv)"
    consider (an) "?m = ''_grad_s_vT_final_iteration_analytical''"
      | (du) "?m \<noteq> ''_grad_s_vT_final_iteration_analytical''" "?m = ''_grad_s_vT_final_iteration_dual''"
      | (fp) "?m \<noteq> ''_grad_s_vT_final_iteration_analytical''" "?m \<noteq> ''_grad_s_vT_final_iteration_dual''"
             "?m = ''_grad_s_vT_fixed_point_iteration''"
      | (no) "?m \<noteq> ''_grad_s_vT_final_iteration_analytical''" "?m \<noteq> ''_grad_s_vT_final_iteration_dual''"
             "?m \<noteq> ''_grad_s_vT_fixed_point_iteration''"
      by blast
    then show ?thesis
    proof cases
      case an
      with None show ?thesis
        by (simp add: grad_s_vT_def grad_s_vT_final_iteration_analytical_def Let_def
              case_prod_beta map_attrs_def)
    next
      case du
      let ?s1 = "reset_properties False
                   (map_attrs (\<lambda>rc. rc\<lparr>self_s := tag_targets (self_s rc)\<rparr>) slv)"
      have "curves (attrs (snd (update_step env a ?s1))) = curves (attrs slv)
          \<and> f_list (attrs (snd (update_step env a ?s1))) = f_list (attrs slv)" for a
        by (simp add: reset_properties_def map_attrs_def)
      with None du show ?thesis
        by (simp add: grad_s_vT_def grad_s_vT_final_iteration_dual_def Let_def
              case_prod_beta map_attrs_def split: sum.splits prod.splits)
    next
      case fp
      obtain r s1 where d: "grad_s_vT_fixed_point_iteration env slv = (r, s1)"
        by (cases "grad_s_vT_fixed_point_iteration env slv")
      with assms None fp obtain g1 where r: "r = Inr g1"
        by (cases r) (simp_all add: grad_s_vT_def Let_def)
      from fixed_point_return [of env slv g1] d r
      have "s1 = reset_properties False (set_ad_order 1 slv)" by simp
      then have "curves (attrs s1) = curves (attrs slv) \<and> f_list (attrs s1) = f_list (attrs slv)"
        by (simp add: reset_properties_def map_attrs_def attrs_set_ad_order)
      with None fp d r show ?thesis by (simp add: grad_s_vT_def Let_def map_attrs_def)
    next
      case no
      with assms None show ?thesis by (simp add: grad_s_vT_def Let_def)
    qed
  qed
  then show "curves (attrs (snd (grad_s_vT env slv))) = curves (attrs slv)"
    and "f_list (attrs (snd (grad_s_vT env slv))) = f_list (attrs slv)"
    by simp_all
qed

lemma grad_s_vT_target_values:
  "map dreal (self_s (attrs (snd (grad_s_vT env slv)))) = map dreal (self_s (attrs slv))"
proof (cases "fst (grad_s_vT env slv)")
  case (Inr g)
  from grad_s_vT_self_s [OF this] show ?thesis by simp
next
  case (Inl e)
  show ?thesis
  proof (cases "cache_grad_s_vT (attrs slv)")
    case (Some g')
    then show ?thesis by (simp add: grad_s_vT_def)
  next
    case None
    let ?m = "grad_s_vT_method (attrs slv)"
    consider (an) "?m = ''_grad_s_vT_final_iteration_analytical''"
      | (du) "?m \<noteq> ''_grad_s_vT_final_iteration_analytical''" "?m = ''_grad_s_vT_final_iteration_dual''"
      | (fp) "?m \<noteq> ''_grad_s_vT_final_iteration_analytical''" "?m \<noteq> ''_grad_s_vT_final_iteration_dual''"
             "?m = ''_grad_s_vT_fixed_point_iteration''"
      | (no) "?m \<noteq> ''_grad_s_vT_final_iteration_analytical''" "?m \<noteq> ''_grad_s_vT_final_iteration_dual''"
             "?m \<noteq> ''_grad_s_vT_fixed_point_iteration''"
      by blast
    then show ?thesis
    proof cases
      case an
      with None show ?thesis
        by (simp add: grad_s_vT_def grad_s_vT_final_iteration_analytical_def Let_def
              case_prod_beta map_attrs_def)
    next
      case du
      obtain r s1 where d: "grad_s_vT_final_iteration_dual env None slv = (r, s1)"
        by (cases "grad_s_vT_final_iteration_dual env None slv")
      with Inl None du obtain e1 where r: "r = Inl e1"
        by (cases r) (simp_all add: grad_s_vT_def Let_def)
      from dual_strategy_raise(1) [of env None slv e1] d r
      have "self_s (attrs s1) = tag_targets (self_s (attrs slv))" by simp
      with None du d r show ?thesis
        by (simp add: grad_s_vT_def Let_def dreal_tag_targets)
    next
      case fp
      obtain r s1 where d: "grad_s_vT_fixed_point_iteration env slv = (r, s1)"
        by (cases "grad_s_vT_fixed_point_iteration env slv")
      with Inl None fp obtain e1 where r: "r = Inl e1"
        by (cases r) (simp_all add: grad_s_vT_def Let_def)
      from fixed_point_raise(1) [of env slv e1] d r
      have "self_s (attrs s1) = tag_targets (self_s (attrs slv))" by simp
      with None fp d r show ?thesis
        by (simp add: grad_s_vT_def Let_def dreal_tag_targets)
    next
      case no
      with None show ?thesis by (simp add: grad_s_vT_def Let_def)
    qed
  qed
qed

text \<open>
  C10. The claim: every call of \<open>jacobian\<close> overwrites the targets with the rates of the
  solver's instruments under the other solver, iterates again, restores nothing, and so
  leaves a solver that differs from the one before the call. The first three hold for every
  call that returns. The last does not: a solver that has been put through
  \<open>jacobian\<close> with another solver, and is put through it again with the same one, is
  given the targets it already has, converges in the first cycle without a step, and is
  left exactly as it was.
\<close>

theorem jacobian_repeated_counterexample:
  "\<not> isl (fst (jacobian env_1x1 calibrated_solver
               (snd (jacobian env_1x1 calibrated_solver calibrated_solver))))
 \<and> snd (jacobian env_1x1 calibrated_solver
          (snd (jacobian env_1x1 calibrated_solver calibrated_solver)))
     = snd (jacobian env_1x1 calibrated_solver calibrated_solver)"
proof -
  note jacobian_eval = calibrated_solver_def jacobian_def data_frame_def
    labels_attribute_def grad_s_vT_def
    grad_s_vT_final_iteration_analytical_def gradients_T_def
    example_defs dual_defs array_defs solver_defs iterate_defs Let_def
  have a: "\<not> isl (fst (jacobian env_1x1 calibrated_solver
                      (snd (jacobian env_1x1 calibrated_solver calibrated_solver))))"
    by (simp add: jacobian_eval)
  have b: "snd (jacobian env_1x1 calibrated_solver
                 (snd (jacobian env_1x1 calibrated_solver calibrated_solver)))
             = snd (jacobian env_1x1 calibrated_solver calibrated_solver)"
    by (simp add: jacobian_eval)
  from a b show ?thesis by blast
qed

text \<open>
  C10, as amended. Every call of \<open>jacobian\<close> leaves as targets the values of the rates
  of the solver's instruments under the other solver. When the call returns, the targets
  are these rates, the iteration against them has returned, and the curves and the history
  of the objective are those that this iteration has left: the targets are not restored.
  The solver differs from the one before the call whenever these rates differ from the
  targets before the call.
\<close>

theorem jacobian_overwrites_targets:
  "(let new = map (\<lambda>i. rate env i (pre_curves other)) (instruments (attrs slv));
        started = reset_properties False (map_attrs (\<lambda>rc. rc\<lparr>self_s := new\<rparr>) slv);
        slv' = snd (jacobian env other slv)
    in map dreal (self_s (attrs slv')) = map dreal new
     \<and> (\<forall>res. fst (jacobian env other slv) = Inr res \<longrightarrow>
            self_s (attrs slv') = new
          \<and> (\<exists>msg. fst (iterate env started) = Inr msg)
          \<and> curves (attrs slv') = curves (attrs (snd (iterate env started)))
          \<and> f_list (attrs slv') = f_list (attrs (snd (iterate env started)))
          \<and> (new \<noteq> self_s (attrs slv) \<longrightarrow> slv' \<noteq> slv)))"
proof -
  define new where "new = map (\<lambda>i. rate env i (pre_curves other)) (instruments (attrs slv))"
  define started where
    "started = reset_properties False (map_attrs (\<lambda>rc. rc\<lparr>self_s := new\<rparr>) slv)"
  obtain r2 s2 where it: "iterate env started = (r2, s2)" by (cases "iterate env started")
  obtain r3 s3 where gr: "grad_s_vT env s2 = (r3, s3)" by (cases "grad_s_vT env s2")
  have s0: "self_s (attrs started) = new"
    by (simp add: started_def reset_properties_def map_attrs_def)
  have s2: "self_s (attrs s2) = new"
    using configuration_fields(2) [OF iterate_configuration [of env started]] it s0 by simp
  have v3: "map dreal (self_s (attrs s3)) = map dreal new"
    using grad_s_vT_target_values [of env s2] gr s2 by simp
  have a: "map dreal (self_s (attrs (snd (jacobian env other slv)))) = map dreal new"
  proof (cases r2)
    case (Inl e)
    with it s2 show ?thesis
      by (simp add: jacobian_def Let_def new_def [symmetric] started_def [symmetric])
  next
    case (Inr msg)
    with it gr v3 show ?thesis
      by (cases r3)
         (simp_all add: jacobian_def Let_def new_def [symmetric] started_def [symmetric])
  qed
  have b: "self_s (attrs (snd (jacobian env other slv))) = new
          \<and> (\<exists>msg. fst (iterate env started) = Inr msg)
          \<and> curves (attrs (snd (jacobian env other slv))) = curves (attrs (snd (iterate env started)))
          \<and> f_list (attrs (snd (jacobian env other slv))) = f_list (attrs (snd (iterate env started)))
          \<and> (new \<noteq> self_s (attrs slv) \<longrightarrow> snd (jacobian env other slv) \<noteq> slv)"
    if ret: "fst (jacobian env other slv) = Inr res" for res
  proof -
    from ret it obtain msg where r2: "r2 = Inr msg"
      by (cases r2)
         (simp_all add: jacobian_def Let_def new_def [symmetric] started_def [symmetric])
    from ret it r2 gr obtain g where r3: "r3 = Inr g"
      by (cases r3)
         (simp_all add: jacobian_def Let_def new_def [symmetric] started_def [symmetric])
    have fin: "snd (jacobian env other slv) = s3"
      using it r2 gr r3
      by (simp add: jacobian_def Let_def new_def [symmetric] started_def [symmetric])
    have g3: "fst (grad_s_vT env s2) = Inr g" using gr r3 by simp
    have "self_s (attrs s3) = new"
      using grad_s_vT_self_s [OF g3] gr s2 by simp
    moreover have "curves (attrs s3) = curves (attrs s2)" "f_list (attrs s3) = f_list (attrs s2)"
      using grad_s_vT_iteration_state [OF g3] gr by simp_all
    ultimately show ?thesis using it r2 by (auto simp add: fin)
  qed
  from a b show ?thesis
    unfolding Let_def new_def [symmetric] started_def [symmetric] by blast
qed

theorem jacobian_overwrites_targets_witness:
  "(\<exists>res. fst (jacobian env_1x1 other_solver calibrated_solver) = Inr res)
 \<and> map dreal (self_s (attrs calibrated_solver)) = [0]
 \<and> self_s (attrs (snd (jacobian env_1x1 other_solver calibrated_solver)))
     = [new_dual 5 [''c1'']]
 \<and> map dreal (controlled_nodes (curves (attrs calibrated_solver))) = [0]
 \<and> map dreal (controlled_nodes (curves (attrs
       (snd (jacobian env_1x1 other_solver calibrated_solver))))) = [5]
 \<and> f_list (attrs (snd (jacobian env_1x1 other_solver calibrated_solver))) = [25, 0]
 \<and> snd (jacobian env_1x1 other_solver calibrated_solver) \<noteq> calibrated_solver"
proof -
  note jacobian_eval = calibrated_solver_def other_solver_def jacobian_def data_frame_def
    labels_attribute_def grad_s_vT_def grad_s_vT_final_iteration_analytical_def
    gradients_T_def example_defs dual_defs array_defs solver_defs iterate_defs Let_def
  let ?new = "map (\<lambda>i. rate env_1x1 i (pre_curves other_solver))
                (instruments (attrs calibrated_solver))"
  let ?started = "reset_properties False
                    (map_attrs (\<lambda>rc. rc\<lparr>self_s := ?new\<rparr>) calibrated_solver)"
  have "\<not> isl (fst (jacobian env_1x1 other_solver calibrated_solver))"
    by (simp add: jacobian_eval)
  then obtain res where r: "fst (jacobian env_1x1 other_solver calibrated_solver) = Inr res"
    by (cases "fst (jacobian env_1x1 other_solver calibrated_solver)") simp_all
  have n: "?new = [new_dual 5 [''c1'']]" by (simp add: jacobian_eval)
  have o: "map dreal (self_s (attrs calibrated_solver)) = [0]" by (simp add: jacobian_eval)
  have d: "?new \<noteq> self_s (attrs calibrated_solver)" by (simp add: jacobian_eval)
  have c0: "map dreal (controlled_nodes (curves (attrs calibrated_solver))) = [0]"
    by (simp add: jacobian_eval)
  have c1: "map dreal (controlled_nodes (curves (attrs (snd (iterate env_1x1 ?started))))) = [5]"
    by (simp add: jacobian_eval)
  have h1: "f_list (attrs (snd (iterate env_1x1 ?started))) = [25, 0]"
    by (simp add: jacobian_eval)
  note th = jacobian_overwrites_targets [of env_1x1 other_solver calibrated_solver,
      unfolded Let_def, THEN conjunct2, rule_format, OF r]
  from th have t1: "self_s (attrs (snd (jacobian env_1x1 other_solver calibrated_solver))) = ?new"
    and t2: "curves (attrs (snd (jacobian env_1x1 other_solver calibrated_solver)))
               = curves (attrs (snd (iterate env_1x1 ?started)))"
    and t3: "f_list (attrs (snd (jacobian env_1x1 other_solver calibrated_solver)))
               = f_list (attrs (snd (iterate env_1x1 ?started)))"
    and t4: "?new \<noteq> self_s (attrs calibrated_solver)
               \<longrightarrow> snd (jacobian env_1x1 other_solver calibrated_solver) \<noteq> calibrated_solver"
    by blast+
  from r o t1 n c0 t2 c1 t3 h1 t4 d show ?thesis by (simp only:) blast
qed

subsection \<open>The chain-aggregated first-order sensitivity\<close>

text \<open>A slice assignment whose value has the shape of the slice.\<close>

lemma setitem_fits:
  assumes "nrows B = r1 - r0" "ncols B = c1 - c0" "r1 \<le> nrows A" "c1 \<le> ncols A"
  shows "setitem A r0 r1 c0 c1 B
           = Inr (Mat (nrows A) (ncols A)
                   (\<lambda>i j. if r0 \<le> i \<and> i < r1 \<and> c0 \<le> j \<and> j < c1
                          then ent B (i - r0) (j - c0) else ent A i j))"
proof -
  have "(if r0 \<le> i \<and> i < min r1 (nrows A) \<and> c0 \<le> j \<and> j < min c1 (ncols A)
         then ent B (if nrows B = 1 then 0 else i - r0) (if ncols B = 1 then 0 else j - c0)
         else ent A i j)
      = (if r0 \<le> i \<and> i < r1 \<and> c0 \<le> j \<and> j < c1
         then ent B (i - r0) (j - c0) else ent A i j)" for i j
  proof -
    have "i - r0 = 0" if "nrows B = 1" "i < r1" using that assms(1) by simp
    moreover have "j - c0 = 0" if "ncols B = 1" "j < c1" using that assms(2) by simp
    ultimately show ?thesis using assms(3,4) by (simp add: min_absorb1)
  qed
  moreover have "nrows B = slice_len (nrows A) r0 r1" "ncols B = slice_len (ncols A) c0 c1"
    using assms by (simp_all add: slice_len_def min_def)
  ultimately show ?thesis by (simp add: setitem_def)
qed

text \<open>A returned \<open>grad_s_vT\<close> is cached, and the solver keeps its pre-solvers in number.\<close>

lemma grad_s_vT_cached:
  assumes "grad_s_vT env slv = (Inr g, slv')"
  shows "grad_s_vT env slv' = (Inr g, slv')"
proof -
  from assms have "cache_grad_s_vT (attrs slv') = Some g"
    by (auto simp add: grad_s_vT_def Let_def map_attrs_def
          split: option.splits sum.splits prod.splits)
  then show ?thesis by (simp add: grad_s_vT_def)
qed

lemma pre_solvers_set_ad_order:
  "pre_solvers (set_ad_order k slv) = map (set_ad_order k) (pre_solvers slv)"
  by (cases slv) simp

lemma pre_solvers_reset [simp]:
  "pre_solvers (reset_properties b slv) = pre_solvers slv"
  "pre_solvers (map_attrs h slv) = pre_solvers slv"
  by (simp_all add: reset_properties_def map_attrs_def)

lemma grad_s_vT_pre_solvers:
  assumes "grad_s_vT env slv = (Inr g, slv')"
  shows "length (pre_solvers slv') = length (pre_solvers slv)"
proof -
  have u: "pre_solvers (snd (update_step env algo s)) = pre_solvers s" for algo s
    using configuration_fields(10) [OF update_step_configuration] .
  have f: "pre_solvers (snd (solver_f env s)) = pre_solvers s" for s
    using frame_fields(15) [OF solver_f_frame] .
  have J: "pre_solvers (snd (solver_J env s)) = pre_solvers s" for s
    using frame_fields(15) [OF solver_J_frame] .
  from assms show ?thesis
    by (auto simp add: grad_s_vT_def grad_s_vT_final_iteration_analytical_def
          grad_s_vT_final_iteration_dual_def grad_s_vT_fixed_point_iteration_def
          Let_def case_prod_beta u f J pre_solvers_set_ad_order
          split: option.splits if_splits sum.splits prod.splits)
qed

lemma mat_eq_ent:
  assumes "mat_eq A B" "i < nrows A" "j < ncols A"
  shows "ent A i j = ent B i j"
  using assms by (simp add: mat_eq_def list_all_iff)

text \<open>
  C2. The claim: for a solver with pre-solvers, \<open>grad_s_vT_pre\<close> has the shape
  (\<open>pre_m\<close>, \<open>pre_n\<close>), with each link's own \<open>grad_s_vT_pre\<close> on the diagonal, the
  solver's \<open>grad_s_vT\<close> at the bottom right and the coupling blocks off the diagonal, for
  any number of pre-solvers. The loop advances the offsets \<open>i\<close>, \<open>j\<close> by the sizes of
  each link, but slices the rows as \<open>i:m\<close> and the columns as \<open>j:n\<close>, with the sizes
  and not the ends of the link, and takes the last \<open>self.m\<close> columns for the solver's
  own variables. With the two links \<open>a\<close> and \<open>b\<close> of one instrument and one variable
  each, the slices of the second link are empty: nothing is written, and the second
  diagonal entry is 0 and not the 1 that is the sensitivity of \<open>b\<close>. With a second link
  of two solvers the slice has one row for a block of two, and the assignment raises.
  With one link and a solver of two instruments on one variable, the last two columns are
  all the columns: the coupling block overwrites the diagonal entry of the link, which is 1,
  with -1. The coupling blocks are written in the rows of the link and the last columns,
  above the diagonal.
\<close>

theorem grad_s_vT_pre_misplaced_blocks:
  "\<not> isl (fst (grad_s_vT_pre env_chain
               (chain_link ''c'' 3 [chain_link ''a'' 1 [], chain_link ''b'' 1 []])))
 \<and> ent (projr (fst (grad_s_vT_pre env_chain
               (chain_link ''c'' 3 [chain_link ''a'' 1 [], chain_link ''b'' 1 []])))) 1 1 = 0
 \<and> \<not> isl (fst (grad_s_vT_pre env_chain (chain_link ''b'' 1 [])))
 \<and> ent (projr (fst (grad_s_vT_pre env_chain (chain_link ''b'' 1 [])))) 0 0 = 1
 \<and> fst (grad_s_vT_pre env_chain
          (chain_link ''c'' 4
             [chain_link ''a'' 1 [], chain_link ''b'' 2 [chain_link ''d'' 1 []]]))
     = Inl ValueError_broadcast
 \<and> \<not> isl (fst (grad_s_vT_pre env_chain (two_rates_link [chain_link ''a'' 1 []])))
 \<and> ent (projr (fst (grad_s_vT_pre env_chain (two_rates_link [chain_link ''a'' 1 []])))) 0 0
     = - 1
 \<and> \<not> isl (fst (grad_s_vT_pre env_chain (chain_link ''a'' 1 [])))
 \<and> ent (projr (fst (grad_s_vT_pre env_chain (chain_link ''a'' 1 [])))) 0 0 = 1"
proof -
  note chain_eval = chain_link_def two_rates_link_def env_chain_def sum_rate_def pinv_row_def
    example_defs dual_defs
    array_defs solver_defs grad_s_vT_def grad_s_vT_final_iteration_analytical_def
    gradients_T_def setitem_def slice_len_def last_start_def np_zeros_def Let_def
  let ?two = "chain_link ''c'' 3 [chain_link ''a'' 1 [], chain_link ''b'' 1 []]"
  let ?deep = "chain_link ''c'' 4
                 [chain_link ''a'' 1 [], chain_link ''b'' 2 [chain_link ''d'' 1 []]]"
  let ?wide = "two_rates_link [chain_link ''a'' 1 []]"
  have d: "\<not> isl (fst (grad_s_vT_pre env_chain ?two))" by (simp add: chain_eval)
  have e: "ent (projr (fst (grad_s_vT_pre env_chain ?two))) 1 1 = 0"
    by (simp add: chain_eval)
  have f: "\<not> isl (fst (grad_s_vT_pre env_chain (chain_link ''b'' 1 [])))"
    by (simp add: chain_eval)
  have g: "ent (projr (fst (grad_s_vT_pre env_chain (chain_link ''b'' 1 [])))) 0 0 = 1"
    by (simp add: chain_eval)
  have h: "fst (grad_s_vT_pre env_chain ?deep) = Inl ValueError_broadcast"
    by (simp add: chain_eval)
  have i: "\<not> isl (fst (grad_s_vT_pre env_chain ?wide))" by (simp add: chain_eval)
  have j: "ent (projr (fst (grad_s_vT_pre env_chain ?wide))) 0 0 = - 1"
    by (simp add: chain_eval)
  have k: "\<not> isl (fst (grad_s_vT_pre env_chain (chain_link ''a'' 1 [])))"
    by (simp add: chain_eval)
  have l: "ent (projr (fst (grad_s_vT_pre env_chain (chain_link ''a'' 1 [])))) 0 0 = 1"
    by (simp add: chain_eval)
  from d e f g h i j k l show ?thesis by blast
qed

text \<open>
  With one pre-solver, at least one instrument and as many variables as instruments, the
  slices are those of the blocks. When the link's \<open>grad_s_vT_pre\<close> and the solver's
  \<open>grad_s_vT\<close> return arrays of the shapes (\<open>pre_m\<close>, \<open>pre_n\<close>) of the link and
  (\<open>m\<close>, \<open>n\<close>), the property returns an array of shape (\<open>pre_m\<close>, \<open>pre_n\<close>): the top
  left block is the link's \<open>grad_s_vT_pre\<close>, the bottom right block is the solver's
  \<open>grad_s_vT\<close>, the top right block is minus the link's sensitivity times (the gradient
  of the solver's rates in the link's variables times the solver's \<open>grad_s_vT\<close>), and
  the bottom left block is zero.
\<close>

lemma grad_s_vT_pre_one_link:
  assumes no_cache: "cache_grad_s_vT_pre rc = None"
    and instr: "instruments rc \<noteq> []"
    and square: "solver_n (Solver rc [p]) = solver_m (Solver rc [p])"
    and link: "grad_s_vT_pre env p = (Inr Gp, p1)"
    and rates: "solver_r env (Solver rc [p1]) = (r, slv1)"
    and own: "grad_s_vT env slv1 = (Inr g, slv2)"
    and link_shape: "nrows Gp = pre_m p" "ncols Gp = pre_n p"
    and own_shape: "nrows g = solver_m (Solver rc [p])" "ncols g = solver_n (Solver rc [p])"
  shows "\<exists>G. fst (grad_s_vT_pre env (Solver rc [p])) = Inr G
           \<and> nrows G = pre_m (Solver rc [p]) \<and> ncols G = pre_n (Solver rc [p])
           \<and> mat_eq (submatrix G 0 (pre_m p) 0 (pre_n p)) Gp
           \<and> mat_eq (submatrix G 0 (pre_m p) (pre_n p) (pre_n (Solver rc [p])))
                 (mat_scale (- 1)
                    (np_matmul Gp (np_matmul (gradients_T r (pre_variables p)) g)))
           \<and> mat_eq (submatrix G (pre_m p) (pre_m (Solver rc [p]))
                           (pre_n p) (pre_n (Solver rc [p]))) g
           \<and> mat_eq (submatrix G (pre_m p) (pre_m (Solver rc [p])) 0 (pre_n p))
                 (np_zeros (solver_m (Solver rc [p])) (pre_n p))"
proof -
  define m where "m = length (instruments rc)"
  define a where "a = pre_m p"
  define b where "b = pre_n p"
  define B where "B = mat_scale (- 1) (np_matmul Gp (np_matmul (gradients_T r (pre_variables p)) g))"
  have m: "solver_m (Solver rc [p]) = m" "solver_n (Solver rc [p]) = m" "0 < m"
    using square instr by (simp_all add: solver_m_def m_def)
  have pm: "pre_m (Solver rc [p]) = a + m" and pn: "pre_n (Solver rc [p]) = b + m"
    by (simp_all add: m a_def b_def)
  have Gp: "nrows Gp = a" "ncols Gp = b" using link_shape by (simp_all add: a_def b_def)
  have g: "nrows g = m" "ncols g = m" using own_shape by (simp_all add: m)
  have Bs: "nrows B = a" "ncols B = m"
    by (simp_all add: B_def mat_scale_def np_matmul_def Gp g)
  define G0 where "G0 = np_zeros (a + m) (b + m)"
  define G1 where "G1 = Mat (a + m) (b + m)
      (\<lambda>i j. if 0 \<le> i \<and> i < a \<and> 0 \<le> j \<and> j < b then ent Gp (i - 0) (j - 0) else ent G0 i j)"
  define G2 where "G2 = Mat (a + m) (b + m)
      (\<lambda>i j. if 0 \<le> i \<and> i < a \<and> b \<le> j \<and> j < b + m then ent B (i - 0) (j - b) else ent G1 i j)"
  define G3 where "G3 = Mat (a + m) (b + m)
      (\<lambda>i j. if a \<le> i \<and> i < a + m \<and> b \<le> j \<and> j < b + m then ent g (i - a) (j - b) else ent G2 i j)"
  have s1: "setitem G0 0 a 0 b Gp = Inr G1"
    using setitem_fits [of Gp a 0 b 0 G0] Gp by (simp add: G0_def G1_def np_zeros_def)
  have s2: "setitem G1 0 a (last_start (ncols G1) m) (ncols G1) B = Inr G2"
    using setitem_fits [of B a 0 "b + m" b G1] Bs m(3)
    by (simp add: G1_def G2_def last_start_def)
  have s3: "setitem G2 (last_start (nrows G2) m) (nrows G2) (last_start (ncols G2) m) (ncols G2) g
              = Inr G3"
    using setitem_fits [of g "a + m" a "b + m" b G2] g m(3)
    by (simp add: G2_def G3_def last_start_def)
  have ps1: "pre_solvers slv1 = [p1]"
    using frame_fields(15) [OF solver_r_frame, of env "Solver rc [p1]"] rates by simp
  have ps2: "length (pre_solvers slv2) = 1"
    using grad_s_vT_pre_solvers [OF own] ps1 by simp
  then obtain p2 where p2: "pre_solvers slv2 = [p2]"
    by (cases "pre_solvers slv2") simp_all
  have slv2: "Solver (attrs slv2) [p2] = slv2" using p2 by (cases slv2) simp
  have loop: "grad_s_vT_pre_loop env rc [] [p] G0 0 0 = (Inr G2, slv2)"
    using link rates own s1 s2 p2 slv2
    by (simp add: B_def [symmetric] a_def [symmetric] b_def [symmetric] m_def [symmetric])
  have res: "fst (grad_s_vT_pre env (Solver rc [p])) = Inr G3"
    by (simp add: no_cache pm pn G0_def [symmetric] loop grad_s_vT_cached [OF own]
          m_def [symmetric] s3
          del: grad_s_vT_pre_loop.simps pre_m.simps pre_n.simps)
  have e1: "mat_eq (submatrix G3 0 a 0 b) Gp"
    by (simp add: mat_eq_def submatrix_def slice_len_def list_all_iff G3_def G2_def G1_def Gp)
  have e2: "mat_eq (submatrix G3 0 a b (b + m)) B"
    by (simp add: mat_eq_def submatrix_def slice_len_def list_all_iff G3_def G2_def G1_def Bs)
  have e3: "mat_eq (submatrix G3 a (a + m) b (b + m)) g"
    by (simp add: mat_eq_def submatrix_def slice_len_def list_all_iff G3_def G2_def G1_def g)
  have e4: "mat_eq (submatrix G3 a (a + m) 0 b) (np_zeros m b)"
    by (simp add: mat_eq_def submatrix_def slice_len_def list_all_iff G3_def G2_def G1_def
          G0_def np_zeros_def)
  have sh: "nrows G3 = a + m" "ncols G3 = b + m" by (simp_all add: G3_def)
  from res sh e1 e2 e3 e4 show ?thesis
    unfolding pm pn m a_def [symmetric] b_def [symmetric] B_def [symmetric] by blast
qed

lemma grad_s_vT_pre_one_link_example:
  "\<exists>G. fst (grad_s_vT_pre env_chain (chain_link ''c'' 2 [chain_link ''a'' 1 []])) = Inr G
      \<and> nrows G = 2 \<and> ncols G = 2
      \<and> ent G 0 0 = 1 \<and> ent G 0 1 = - 1 \<and> ent G 1 0 = 0 \<and> ent G 1 1 = 1"
proof -
  note chain_eval = chain_link_def env_chain_def sum_rate_def pinv_row_def example_defs
    dual_defs array_defs solver_defs grad_s_vT_def grad_s_vT_final_iteration_analytical_def
    gradients_T_def Let_def
  let ?P = "chain_link ''a'' 1 []"
  define rc where "rc = attrs (chain_link ''c'' 2 [])"
  define Gp where "Gp = projr (fst (grad_s_vT_pre env_chain ?P))"
  define p1 where "p1 = snd (grad_s_vT_pre env_chain ?P)"
  define r where "r = fst (solver_r env_chain (Solver rc [p1]))"
  define slv1 where "slv1 = snd (solver_r env_chain (Solver rc [p1]))"
  define g where "g = projr (fst (grad_s_vT env_chain slv1))"
  define slv2 where "slv2 = snd (grad_s_vT env_chain slv1)"
  have top: "chain_link ''c'' 2 [?P] = Solver rc [?P]"
    by (simp add: rc_def chain_link_def)
  have "\<not> isl (fst (grad_s_vT_pre env_chain ?P))" by (simp add: chain_eval)
  then have link: "grad_s_vT_pre env_chain ?P = (Inr Gp, p1)"
    unfolding Gp_def p1_def by (metis prod.collapse sum.collapse(2))
  have rates: "solver_r env_chain (Solver rc [p1]) = (r, slv1)"
    by (simp add: r_def slv1_def)
  have "\<not> isl (fst (grad_s_vT env_chain slv1))"
    by (simp add: slv1_def p1_def rc_def chain_eval)
  then have own: "grad_s_vT env_chain slv1 = (Inr g, slv2)"
    unfolding g_def slv2_def by (metis prod.collapse sum.collapse(2))
  have h1: "cache_grad_s_vT_pre rc = None" by (simp add: rc_def chain_eval)
  have h2: "instruments rc \<noteq> []" by (simp add: rc_def chain_eval)
  have h3: "solver_n (Solver rc [?P]) = solver_m (Solver rc [?P])"
    by (simp add: rc_def chain_eval)
  have h4: "nrows Gp = pre_m ?P" "ncols Gp = pre_n ?P"
    by (simp_all add: Gp_def chain_eval)
  have h5: "nrows g = solver_m (Solver rc [?P])" "ncols g = solver_n (Solver rc [?P])"
    by (simp_all add: g_def slv1_def p1_def rc_def chain_eval)
  have sizes: "pre_m ?P = 1" "pre_n ?P = 1" "pre_m (Solver rc [?P]) = 2"
    "pre_n (Solver rc [?P]) = 2"
    by (simp_all add: rc_def chain_eval)
  have v1: "ent Gp 0 0 = 1" by (simp add: Gp_def chain_eval)
  have v2: "ent (mat_scale (- 1)
                   (np_matmul Gp (np_matmul (gradients_T r (pre_variables ?P)) g))) 0 0 = - 1"
    by (simp add: Gp_def g_def r_def slv1_def p1_def rc_def chain_eval)
  have v3: "ent g 0 0 = 1" by (simp add: g_def slv1_def p1_def rc_def chain_eval)
  from grad_s_vT_pre_one_link [OF h1 h2 h3 link rates own h4 h5]
  obtain G where G: "fst (grad_s_vT_pre env_chain (Solver rc [?P])) = Inr G"
      "nrows G = 2" "ncols G = 2"
      "mat_eq (submatrix G 0 1 0 1) Gp"
      "mat_eq (submatrix G 0 1 1 2)
         (mat_scale (- 1) (np_matmul Gp (np_matmul (gradients_T r (pre_variables ?P)) g)))"
      "mat_eq (submatrix G 1 2 1 2) g"
      "mat_eq (submatrix G 1 2 0 1) (np_zeros (solver_m (Solver rc [?P])) 1)"
    unfolding sizes by blast
  have "ent G 0 0 = 1"
    using mat_eq_ent [OF G(4), of 0 0] v1 G(2,3) by (simp add: submatrix_def slice_len_def)
  moreover have "ent G 0 1 = - 1"
    using mat_eq_ent [OF G(5), of 0 0] v2 G(2,3) by (simp add: submatrix_def slice_len_def)
  moreover have "ent G 1 1 = 1"
    using mat_eq_ent [OF G(6), of 0 0] v3 G(2,3) by (simp add: submatrix_def slice_len_def)
  moreover have "ent G 1 0 = 0"
    using mat_eq_ent [OF G(7), of 0 0] G(2,3)
    by (simp add: submatrix_def slice_len_def np_zeros_def)
  ultimately show ?thesis using G(1,2,3) unfolding top by blast
qed

subsection \<open>The damping factor of the Levenberg-Marquardt iteration\<close>

lemma solver_f_cached:
  "cache_f (attrs (snd (solver_f env slv))) = Some (fst (solver_f env slv))"
  by (simp add: solver_f_def Let_def case_prod_beta map_attrs_def split: option.splits)

text \<open>
  A cycle of \<open>iterate\<close> under Levenberg-Marquardt that applies a step has multiplied the
  damping factor by 0.25, whatever the objective was in the cycle before: \<open>f_prev\<close> is
  assigned the current objective before \<open>_update_step_\<close> compares the two.
\<close>

lemma levenberg_marquardt_cycle_quarters:
  assumes lm: "algorithm (attrs slv) = ''levenberg_marquardt''"
    and cy: "iterate_cycle env i slv = (Inr None, slv')"
  shows "lambd (attrs slv') = lambd (attrs slv) * 0.25"
proof -
  let ?f = "fst (solver_f env slv)"
  let ?s0 = "snd (solver_f env slv)"
  let ?s1 = "map_attrs (\<lambda>rc. rc\<lparr>f_prev := dreal ?f\<rparr>)
               (map_attrs (\<lambda>rc. rc\<lparr>f_list := f_list rc @ [dreal ?f]\<rparr>) ?s0)"
  have c1: "cache_f (attrs ?s1) = Some ?f"
    using solver_f_cached [of env slv] by (simp add: map_attrs_def)
  have f1: "solver_f env ?s1 = (?f, ?s1)"
    using c1 by (simp add: solver_f_def)
  have a1: "algorithm (attrs ?s1) = ''levenberg_marquardt''"
       "f_prev (attrs ?s1) = dreal ?f" "lambd (attrs ?s1) = lambd (attrs slv)"
    using lm by (simp_all add: map_attrs_def)
  from cy have ap: "apply_step env (dreal ?f)
                      (map_attrs (\<lambda>rc. rc\<lparr>f_list := f_list rc @ [dreal ?f]\<rparr>) ?s0)
                    = (Inr None, slv')"
    by (simp add: iterate_cycle_def record_objective_def Let_def case_prod_beta
          split: if_splits)
  obtain res su where us: "update_step env ''levenberg_marquardt'' ?s1 = (res, su)"
    by (cases "update_step env ''levenberg_marquardt'' ?s1")
  let ?s2 = "map_attrs (\<lambda>rc. rc\<lparr>lambd := lambd rc * (if f_prev rc < dreal ?f then 2 else 0.25)\<rparr>) ?s1"
  have l2: "lambd (attrs ?s2) = lambd (attrs slv) * 0.25"
    using a1 by (simp add: map_attrs_def)
  have "lambd (attrs (snd (update_step env ''levenberg_marquardt'' ?s1))) = lambd (attrs ?s2)"
    using f1 by (simp add: update_step_def Let_def case_prod_beta split: option.splits)
  with us l2 have lu: "lambd (attrs su) = lambd (attrs slv) * 0.25" by simp
  from ap us a1 obtain v_1 where
    "slv' = reset_properties False
              (map_attrs (\<lambda>rc. rc\<lparr>curves := update_curves v_1 (curves rc)\<rparr>) su)"
    by (cases res) (auto simp add: apply_step_def Let_def split: if_splits)
  then show ?thesis using lu by (simp add: reset_properties_def map_attrs_def)
qed

text \<open>
  C3. The claim: the damping factor starts at 1000, is doubled exactly when the latest
  objective is not an improvement over the one of the previous iteration, and is quartered
  otherwise; the step solves \<open>(J W J\<^sup>T + \<lambda> I) \<delta> = -\<onehalf> \<nabla>f\<close> and
  \<open>v' = v + \<delta>\<close>. The source doubles when \<open>self.f_prev < self.f.real\<close>, but
  \<open>iterate\<close> assigns \<open>self.f_prev = self.f.real\<close> in the statement before it calls
  \<open>_update_step_\<close>: the two are equal at the test and the factor is quartered in every
  cycle. In the calibration of a node to a squared rate, the first step overshoots: the
  objective rises from 2500000000 in the first cycle to more than 11000000000 in the
  second. The factor is 250 after the first cycle and 62.5 after the second, where the
  claim has it doubled to 500.
\<close>

theorem levenberg_marquardt_never_doubles:
  "f_list (attrs (snd (iterate env_square overshoot_solver)))
     = [2500000000, 2911289062500000000 / 260144641]
 \<and> (2500000000 :: real) < 2911289062500000000 / 260144641
 \<and> lambd (attrs (snd (iterate env_square overshoot_solver))) = 1000 * (1 / 4) * (1 / 4)"
proof -
  note lm_eval = overshoot_solver_def env_square_def square_rate_def example_defs dual_defs
    array_defs solver_defs iterate_defs
  have a: "f_list (attrs (snd (iterate env_square overshoot_solver)))
             = [2500000000, 2911289062500000000 / 260144641]"
    by (simp add: lm_eval)
  have b: "(2500000000 :: real) < 2911289062500000000 / 260144641" by simp
  have c: "lambd (attrs (snd (iterate env_square overshoot_solver))) = 1000 * (1 / 4) * (1 / 4)"
    by (simp add: lm_eval)
  from a b c show ?thesis by blast
qed

subsection \<open>Second-order requests and the differentiation order\<close>












end
